theory Spec2Isabelle
  imports Complex_Main "HOL-Library.Word"
begin

section \<open>Engine vocabulary used by the plugin\<close>

text \<open>
  The plugin is an adapter between the host engine and the capture SDK.  The engine and
  SDK types it touches are modelled by the fields and operations the plugin's code
  reads and writes.  C++ \<open>float\<close>/\<open>double\<close> values are modelled as \<open>real\<close>:
  rounding, NaN and infinities are outside the model.
\<close>

subsection \<open>FVector\<close>

record FVector =
  X :: real
  Y :: real
  Z :: real

definition ZeroVector :: FVector where
  "ZeroVector = \<lparr>X = 0, Y = 0, Z = 0\<rparr>"

definition FVector_add :: "FVector \<Rightarrow> FVector \<Rightarrow> FVector" where
  "FVector_add a b = \<lparr>X = X a + X b, Y = Y a + Y b, Z = Z a + Z b\<rparr>"

definition FVector_sub :: "FVector \<Rightarrow> FVector \<Rightarrow> FVector" where
  "FVector_sub a b = \<lparr>X = X a - X b, Y = Y a - Y b, Z = Z a - Z b\<rparr>"

definition DotProduct :: "FVector \<Rightarrow> FVector \<Rightarrow> real" where
  "DotProduct a b = X a * X b + Y a * Y b + Z a * Z b"

definition SizeSquared :: "FVector \<Rightarrow> real" where
  "SizeSquared v = X v * X v + Y v * Y v + Z v * Z v"

definition Size :: "FVector \<Rightarrow> real" where
  "Size v = sqrt (SizeSquared v)"

definition UE_KINDA_SMALL_NUMBER :: real where
  "UE_KINDA_SMALL_NUMBER = 1 / 10000"

text \<open>
  Engine function \<open>FVector::IsNearlyZero\<close> (default tolerance): every component is
  within the tolerance of zero.
\<close>

definition IsNearlyZero :: "FVector \<Rightarrow> bool" where
  "IsNearlyZero v \<longleftrightarrow>
     \<bar>X v\<bar> \<le> UE_KINDA_SMALL_NUMBER \<and> \<bar>Y v\<bar> \<le> UE_KINDA_SMALL_NUMBER \<and> \<bar>Z v\<bar> \<le> UE_KINDA_SMALL_NUMBER"

text \<open>
  Engine function \<open>FVector::GetClampedToMaxSize\<close>, which the repository calls but does
  not contain: a copy of the vector whose length is at most \<open>MaxSize\<close>.  The engine
  returns the zero vector for a \<open>MaxSize\<close> below its small-number tolerance, rescales a
  longer vector by \<open>MaxSize * InvSqrt(SizeSquared)\<close> and returns a shorter one as it is.
\<close>

definition GetClampedToMaxSize :: "FVector \<Rightarrow> real \<Rightarrow> FVector" where
  "GetClampedToMaxSize v MaxSize =
     (if MaxSize < UE_KINDA_SMALL_NUMBER then ZeroVector
      else let VSq = SizeSquared v in
        if VSq > MaxSize * MaxSize
        then let Scale = MaxSize * (1 / sqrt VSq)
             in \<lparr>X = X v * Scale, Y = Y v * Scale, Z = Z v * Scale\<rparr>
        else v)"

subsection \<open>Console variables\<close>

text \<open>
  The engine's console manager.  \<open>FString\<close> comparison and the console manager's name
  lookup are both case-insensitive, so a variable is identified by its case-folded name
  (\<open>cvar_key\<close>).  An \<open>IConsoleVariable*\<close> is modelled as \<open>string option\<close>: \<open>None\<close> is
  the null pointer and \<open>Some k\<close> points to the variable object with key \<open>k\<close>.  A
  variable object keeps a value and the priority it was last set with (the
  \<open>ECVF_SetBy...\<close> part of its flags).  All values are read and written as floats here;
  the typed storage of integer and string variables is outside the model.
\<close>

definition ToLower :: "char \<Rightarrow> char" where
  "ToLower c =
     (case map_of (zip ''ABCDEFGHIJKLMNOPQRSTUVWXYZ'' ''abcdefghijklmnopqrstuvwxyz'') c of
        Some l \<Rightarrow> l
      | None \<Rightarrow> c)"

definition cvar_key :: "string \<Rightarrow> string" where
  "cvar_key Name = map ToLower Name"

record FConsoleVariable =
  cv_value :: real
  cv_setby :: nat

record IConsoleManager =
  Registered :: "string set"
  Objects :: "string \<Rightarrow> FConsoleVariable"

definition ECVF_SetByCode :: nat where
  "ECVF_SetByCode = 9"

definition FindConsoleVariable :: "IConsoleManager \<Rightarrow> string \<Rightarrow> string option" where
  "FindConsoleVariable CM Name =
     (if cvar_key Name \<in> Registered CM then Some (cvar_key Name) else None)"

definition GetFloat :: "IConsoleManager \<Rightarrow> string \<Rightarrow> real" where
  "GetFloat CM p = cv_value (Objects CM p)"

definition GetInt :: "IConsoleManager \<Rightarrow> string \<Rightarrow> int" where
  "GetInt CM p = (let v = cv_value (Objects CM p) in if v < 0 then - \<lfloor>- v\<rfloor> else \<lfloor>v\<rfloor>)"

text \<open>
  \<open>IConsoleVariable::Set\<close> with its default \<open>ECVF_SetByCode\<close> priority: the engine
  refuses the write when the variable was last set with a higher priority.
  \<open>SetWithCurrentPriority\<close> writes the value and keeps the priority.
\<close>

definition CVar_Set :: "IConsoleManager \<Rightarrow> string \<Rightarrow> real \<Rightarrow> IConsoleManager" where
  "CVar_Set CM p v =
     (if cv_setby (Objects CM p) \<le> ECVF_SetByCode
      then CM\<lparr>Objects := (Objects CM)(p := \<lparr>cv_value = v, cv_setby = ECVF_SetByCode\<rparr>)\<rparr>
      else CM)"

definition CVar_SetWithCurrentPriority ::
  "IConsoleManager \<Rightarrow> string \<Rightarrow> real \<Rightarrow> IConsoleManager" where
  "CVar_SetWithCurrentPriority CM p v =
     CM\<lparr>Objects := (Objects CM)(p := (Objects CM p)\<lparr>cv_value := v\<rparr>)\<rparr>"

definition bool_to_real :: "bool \<Rightarrow> real" where
  "bool_to_real b = (if b then 1 else 0)"

subsection \<open>Collision queries of a world\<close>

text \<open>
  The two collision queries \<open>ConstrainCameraByGeometry\<close> makes, both with the camera
  trace channel, the identity rotation and a sphere of the given radius: whether
  anything overlaps the sphere at a position, and the location of the first blocking
  hit of a sweep (if any).
\<close>

record UWorld =
  OverlapAnyTestByChannel :: "FVector \<Rightarrow> real \<Rightarrow> bool"
  SweepSingleByChannel :: "FVector \<Rightarrow> FVector \<Rightarrow> real \<Rightarrow> FVector option"

datatype fault = NullPointerDereference

subsection \<open>Post-process settings\<close>

text \<open>
  \<open>FPostProcessSettings\<close>: the settings the plugin reads or overrides are named; every
  other member of the struct is an \<open>OtherSetting\<close>.  Each setting has a value and its
  \<open>bOverride_\<close> flag.
\<close>

datatype pp_field =
    DepthOfFieldFstop | DepthOfFieldFocalDistance | DepthOfFieldSensorWidth
  | DepthOfFieldDepthBlurAmount | DepthOfFieldDepthBlurRadius | DepthOfFieldScale
  | DepthOfFieldFocalRegion | DepthOfFieldNearBlurSize | DepthOfFieldFarBlurSize
  | DepthOfFieldVignetteSize | BloomIntensity | BloomSizeScale | SceneFringeIntensity
  | MotionBlurAmount | BloomDirtMaskIntensity | LensFlareIntensity | VignetteIntensity
  | AutoExposureSpeedDown | AutoExposureSpeedUp | ScreenPercentage_DEPRECATED
  | ScreenSpaceReflectionIntensity | OtherSetting nat

record FPostProcessSettings =
  Setting :: "pp_field \<Rightarrow> real"
  bOverride :: "pp_field \<Rightarrow> bool"

definition set_Setting :: "pp_field \<Rightarrow> real \<Rightarrow> FPostProcessSettings \<Rightarrow> FPostProcessSettings" where
  "set_Setting f v pp = pp\<lparr>Setting := (Setting pp)(f := v)\<rparr>"

definition set_bOverride :: "pp_field \<Rightarrow> bool \<Rightarrow> FPostProcessSettings \<Rightarrow> FPostProcessSettings" where
  "set_bOverride f b pp = pp\<lparr>bOverride := (bOverride pp)(f := b)\<rparr>"

subsection \<open>Capture SDK and engine enumerations\<close>

datatype FovType = kHorizontalFov | kVerticalFov

datatype CaptureType =
  kCaptureType360Mono | kCaptureType360Stereo | kCaptureTypeSuperResolution | kCaptureTypeStereo

datatype StartSessionStatus = kDisallowed | kAllowed

record SessionConfiguration =
  isTranslationAllowed :: bool
  isFovChangeAllowed :: bool
  isRotationAllowed :: bool
  isPauseAllowed :: bool
  isHighresAllowed :: bool
  is360MonoAllowed :: bool
  is360StereoAllowed :: bool

text \<open>
  \<open>ansel::Configuration\<close>, by the members the plugin writes.  A callback pointer and the
  user pointer are modelled by whether they are set.
\<close>

record ansel_Configuration =
  userPointer :: bool
  startSessionCallback :: bool
  stopSessionCallback :: bool
  startCaptureCallback :: bool
  stopCaptureCallback :: bool
  changeQualityCallback :: bool
  fovType :: FovType
  gameWindowHandle :: "nat option"
  translationalSpeedInWorldUnitsPerSecond :: real
  metersInWorldUnit :: real
  isCameraOffcenteredProjectionSupported :: bool
  captureLatency :: nat
  captureSettleLatency :: int

text \<open>Calls into the SDK, recorded in the order they are made.\<close>

datatype ansel_call =
    ansel_startSession
  | ansel_stopSession
  | ansel_setConfiguration ansel_Configuration
  | ansel_addUserControl nat
  | ansel_removeUserControl nat
  | ansel_updateCamera

datatype ESplitScreenType = SplitScreen_None | SplitScreen_Other nat

datatype ECameraProjectionMode = Perspective | Orthographic

datatype EAspectRatioAxisConstraint =
  AspectRatio_MaintainYFOV | AspectRatio_MaintainXFOV | AspectRatio_MajorAxisFOV

text \<open>Notifications sent to the player camera manager (Blueprint events).\<close>

datatype photography_event =
    OnPhotographySessionStart
  | OnPhotographySessionEnd
  | OnPhotographyMultiPartCaptureStart
  | OnPhotographyMultiPartCaptureEnd

text \<open>
  \<open>FMinimalViewInfo\<close>, by the two members the session logic reads or writes.  The
  transfer of the camera transform between the engine and the SDK
  (\<open>FMinimalViewToAnselCamera\<close>, \<open>ansel::updateCamera\<close>, \<open>BlueprintModifyCamera\<close>,
  \<open>AnselCameraToFMinimalView\<close>) does not feed back into the session state and is left
  out, apart from recording the SDK call.
\<close>

record FMinimalViewInfo =
  ProjectionMode :: ECameraProjectionMode
  bConstrainAspectRatio :: bool

record ViewportInfo =
  SizeX :: nat
  SizeY :: nat
  AspectRatioAxisConstraint :: EAspectRatioAxisConstraint

subsection \<open>Process-global state\<close>

text \<open>
  Everything outside the provider object that the plugin reads or writes: engine
  state reached through the player camera manager and the player controller, engine
  globals, the SDK, the log, and the plugin's own file-level statics
  (\<open>AnselSDKDLLHandle\<close>, \<open>bAnselDLLLoaded\<close>).  Engine setters (\<open>SetPause\<close>,
  \<open>SetTimeDilation\<close>, \<open>SetSubtitlesEnabled\<close>) are modelled as assignments, and
  \<open>AHUD::ShowHUD\<close> as the toggle of \<open>bShowHUD\<close> that it is.  \<open>MyHUD\<close> is \<open>None\<close> when
  the controller has no HUD and \<open>Some bShowHUD\<close> otherwise.  The camera manager is
  taken to have an owning player controller, as the code asserts with \<open>check\<close>.
\<close>

record globals =
  ConsoleManager :: IConsoleManager
  ConsoleVariableSinks :: nat
  bPaused :: bool
  TimeDilation :: real
  bIsCameraMoveableWhenPaused :: bool
  GAreScreenMessagesEnabled :: bool
  MyHUD :: "bool option"
  bSubtitlesEnabled :: bool
  bEnableFading :: bool
  Cursor :: "bool option"
  GIsEditor :: bool
  SplitscreenConfiguration :: "ESplitScreenType option"
  bIsStereoscopic3D :: bool
  bIsRayTracingEnabled :: bool
  WorldToMeters :: "real option"
  LocalPlayerViewport :: "ViewportInfo option"
  GameWindowHandle :: "nat option"
  AnselSDKDLLHandle :: nat
  bAnselDLLLoaded :: bool
  isAnselAvailable :: bool
  AnselDefaultConfiguration :: ansel_Configuration
  AnselCalls :: "ansel_call list"
  PhotographyEvents :: "photography_event list"
  LogAnsel :: "string list"

definition ShowHUD :: "globals \<Rightarrow> globals" where
  "ShowHUD g = g\<lparr>MyHUD := map_option Not (MyHUD g)\<rparr>"

definition UE_LOG :: "string \<Rightarrow> globals \<Rightarrow> globals" where
  "UE_LOG msg g = g\<lparr>LogAnsel := LogAnsel g @ [msg]\<rparr>"

definition ansel_sdk :: "ansel_call \<Rightarrow> globals \<Rightarrow> globals" where
  "ansel_sdk c g = g\<lparr>AnselCalls := AnselCalls g @ [c]\<rparr>"

definition notify :: "photography_event \<Rightarrow> globals \<Rightarrow> globals" where
  "notify e g = g\<lparr>PhotographyEvents := PhotographyEvents g @ [e]\<rparr>"

text \<open>The plugin's console variables (\<open>TAutoConsoleVariable\<close> statics), read through their objects.\<close>

definition CVarPhotographyAllow :: "globals \<Rightarrow> int" where
  "CVarPhotographyAllow g = GetInt (ConsoleManager g) (cvar_key ''r.Photography.Allow'')"

definition CVarPhotographyEnableMultipart :: "globals \<Rightarrow> int" where
  "CVarPhotographyEnableMultipart g = GetInt (ConsoleManager g) (cvar_key ''r.Photography.EnableMultipart'')"

definition CVarPhotographySettleFrames :: "globals \<Rightarrow> int" where
  "CVarPhotographySettleFrames g = GetInt (ConsoleManager g) (cvar_key ''r.Photography.SettleFrames'')"

definition CVarPhotographyTranslationSpeed :: "globals \<Rightarrow> real" where
  "CVarPhotographyTranslationSpeed g = GetFloat (ConsoleManager g) (cvar_key ''r.Photography.TranslationSpeed'')"

definition CVarConstrainCameraDistance :: "globals \<Rightarrow> real" where
  "CVarConstrainCameraDistance g = GetFloat (ConsoleManager g) (cvar_key ''r.Photography.Constrain.MaxCameraDistance'')"

definition CVarPhotographyAutoPostprocess :: "globals \<Rightarrow> int" where
  "CVarPhotographyAutoPostprocess g = GetInt (ConsoleManager g) (cvar_key ''r.Photography.AutoPostprocess'')"

definition CVarPhotographyAutoPause :: "globals \<Rightarrow> int" where
  "CVarPhotographyAutoPause g = GetInt (ConsoleManager g) (cvar_key ''r.Photography.AutoPause'')"

definition CVarAllowHighQuality :: "globals \<Rightarrow> int" where
  "CVarAllowHighQuality g = GetInt (ConsoleManager g) (cvar_key ''r.Photography.AllowHighQuality'')"

definition CVarExtreme :: "globals \<Rightarrow> int" where
  "CVarExtreme g = GetInt (ConsoleManager g) (cvar_key ''r.Photography.Extreme'')"

section \<open>FNVAnselCameraPhotographyPrivate: the photography provider\<close>

datatype econtrols =
    control_dofscale | control_dofsensorwidth | control_doffocalregion
  | control_doffocaldistance | control_dofdepthbluramount | control_dofdepthblurradius
  | control_bloomintensity | control_bloomscale | control_scenefringeintensity
  | control_OLDSettings | control_LumenSettings | control_SkylightSettings
  | control_AntiAliasing | control_sgQuality

definition all_controls :: "econtrols list" where
  "all_controls =
     [control_dofscale, control_dofsensorwidth, control_doffocalregion,
      control_doffocaldistance, control_dofdepthbluramount, control_dofdepthblurradius,
      control_bloomintensity, control_bloomscale, control_scenefringeintensity,
      control_OLDSettings, control_LumenSettings, control_SkylightSettings,
      control_AntiAliasing, control_sgQuality]"

fun control_index :: "econtrols \<Rightarrow> nat" where
  "control_index control_dofscale = 0"
| "control_index control_dofsensorwidth = 1"
| "control_index control_doffocalregion = 2"
| "control_index control_doffocaldistance = 3"
| "control_index control_dofdepthbluramount = 4"
| "control_index control_dofdepthblurradius = 5"
| "control_index control_bloomintensity = 6"
| "control_index control_bloomscale = 7"
| "control_index control_scenefringeintensity = 8"
| "control_index control_OLDSettings = 9"
| "control_index control_LumenSettings = 10"
| "control_index control_SkylightSettings = 11"
| "control_index control_AntiAliasing = 12"
| "control_index control_sgQuality = 13"

text \<open>\<open>EUIControlEffectTarget\<close>, as the \<open>uint8\<close> indices into \<open>bEffectUIAllowed\<close>.\<close>

definition Bloom :: "8 word" where "Bloom = 0"
definition DepthOfField :: "8 word" where "DepthOfField = 1"
definition ChromaticAberration :: "8 word" where "ChromaticAberration = 2"
definition MotionBlur :: "8 word" where "MotionBlur = 3"

record CVarInfo =
  cvar :: "string option"
  fInitialVal :: real

text \<open>
  The provider object.  \<open>InitialCVarMap\<close> is a \<open>TMap<FString, CVarInfo>\<close>, kept as an
  association list in insertion order and keyed by case-folded name.  The
  \<open>ansel_control_val\<close> union of \<open>UIControlValues\<close> is kept as one array per member, since
  every control is only ever accessed through one of the two members.  Of
  \<open>AnselCaptureInfo\<close> only the capture type is read.
\<close>

record FNVAnselCameraPhotographyPrivate =
  AnselConfig :: "ansel_Configuration option"
  bAnselSessionActive :: bool
  bAnselSessionNewlyActive :: bool
  bAnselSessionWantDeactivate :: bool
  bAnselCaptureActive :: bool
  bAnselCaptureNewlyActive :: bool
  bAnselCaptureNewlyFinished :: bool
  AnselCaptureInfo :: CaptureType
  bForceDisallow :: bool
  bIsOrthoProjection :: bool
  bWasMovableCameraBeforeSession :: bool
  bWasPausedBeforeSession :: bool
  bWasShowingHUDBeforeSession :: bool
  bWereSubtitlesEnabledBeforeSession :: bool
  bWasFadingEnabledBeforeSession :: bool
  bWasScreenMessagesEnabledBeforeSession :: bool
  fTimeDilationBeforeSession :: real
  bAutoPostprocess :: bool
  bAutoPause :: bool
  bRayTracingEnabled :: bool
  bPausedInternally :: bool
  bHighQualityModeDesired :: bool
  bHighQualityModeIsSetup :: bool
  bHighLodDesired :: bool
  bHighLodIsSetup :: bool
  bHighLumenDesired :: bool
  bHighLumenIsSetup :: bool
  bHighSkyLightDesired :: bool
  bHighSkyLightIsSetup :: bool
  bHighAntiAliasingDesired :: bool
  bHighAntiAliasingIsSetup :: bool
  bHighSgQualityDesired :: bool
  bHighSgQualityIsSetup :: bool
  RequiredFovType :: FovType
  CurrentlyConfiguredFovType :: FovType
  RequiredWorldToMeters :: real
  CurrentlyConfiguredWorldToMeters :: real
  NumFramesSinceSessionStart :: "32 word"
  bEffectUIAllowed :: "8 word \<Rightarrow> bool"
  bUIControlsNeedRebuild :: bool
  UIControls :: "econtrols \<Rightarrow> nat"
  UIControlValues_float :: "econtrols \<Rightarrow> real"
  UIControlValues_bool :: "econtrols \<Rightarrow> bool"
  UIControlRangeLower :: "econtrols \<Rightarrow> real"
  UIControlRangeUpper :: "econtrols \<Rightarrow> real"
  UEPostProcessingOriginal :: FPostProcessSettings
  InitialCVarMap :: "(string \<times> CVarInfo) list"

type_synonym priv = FNVAnselCameraPhotographyPrivate

subsection \<open>Capturing and setting console variables\<close>

definition TMap_Contains :: "(string \<times> 'v) list \<Rightarrow> string \<Rightarrow> bool" where
  "TMap_Contains m Key \<longleftrightarrow> map_of m (cvar_key Key) \<noteq> None"

fun TMap_Add :: "(string \<times> 'v) list \<Rightarrow> string \<Rightarrow> 'v \<Rightarrow> (string \<times> 'v) list" where
  "TMap_Add [] k v = [(k, v)]"
| "TMap_Add ((k', v') # m) k v = (if k' = k then (k, v) # m else (k', v') # TMap_Add m k v)"

definition CaptureCVar :: "priv \<Rightarrow> globals \<Rightarrow> string \<Rightarrow> bool \<times> priv" where
  "CaptureCVar s g CVarName =
     (case FindConsoleVariable (ConsoleManager g) CVarName of
        None \<Rightarrow> (False, s)
      | Some c \<Rightarrow>
          let info = \<lparr>cvar = Some c, fInitialVal = GetFloat (ConsoleManager g) c\<rparr>
          in (True, s\<lparr>InitialCVarMap := TMap_Add (InitialCVarMap s) (cvar_key CVarName) info\<rparr>))"

text \<open>
  \<open>SetCapturedCVarPredicated\<close>.  \<open>info\<close> is the entry \<open>InitialCVarMap[CVarName]\<close> when
  the name is in the map or has just been captured, and null otherwise.
\<close>

definition SetCapturedCVarPredicated ::
  "string \<Rightarrow> real \<Rightarrow> (real \<Rightarrow> real \<Rightarrow> bool) \<Rightarrow> bool \<Rightarrow> bool \<Rightarrow> priv \<times> globals \<Rightarrow> priv \<times> globals" where
  "SetCapturedCVarPredicated CVarName valueIfNotReset comparison wantReset useExistingPriority sg =
     (let (s, g) = sg;
          (found, s1) = (if TMap_Contains (InitialCVarMap s) CVarName then (True, s)
                         else CaptureCVar s g CVarName);
          info = (if found then map_of (InitialCVarMap s1) (cvar_key CVarName) else None);
          g1 = (case info of
                  Some i \<Rightarrow>
                    (case cvar i of
                       Some c \<Rightarrow>
                         if comparison valueIfNotReset (fInitialVal i)
                         then let v = (if wantReset then fInitialVal i else valueIfNotReset)
                              in if useExistingPriority
                                 then g\<lparr>ConsoleManager := CVar_SetWithCurrentPriority (ConsoleManager g) c v\<rparr>
                                 else g\<lparr>ConsoleManager := CVar_Set (ConsoleManager g) c v\<rparr>
                         else g
                     | None \<Rightarrow> g)
                | None \<Rightarrow> g);
          missing = (case info of Some i \<Rightarrow> cvar i = None | None \<Rightarrow> True)
      in (s1, if missing then UE_LOG (''CVar used by Ansel not found: '' @ CVarName) g1 else g1))"

definition SetCapturedCVar ::
  "string \<Rightarrow> real \<Rightarrow> bool \<Rightarrow> bool \<Rightarrow> priv \<times> globals \<Rightarrow> priv \<times> globals" where
  "SetCapturedCVar CVarName valueIfNotReset wantReset useExistingPriority =
     SetCapturedCVarPredicated CVarName valueIfNotReset (\<lambda>a b. True) wantReset useExistingPriority"

text \<open>A sequence of statements, run first to last.\<close>

definition in_order :: "('a \<Rightarrow> 'a) list \<Rightarrow> 'a \<Rightarrow> 'a" where
  "in_order fs x = fold (\<lambda>f a. f a) fs x"

definition SetUpSessionCVars :: "priv \<times> globals \<Rightarrow> priv \<times> globals" where
  "SetUpSessionCVars =
     in_order
       [SetCapturedCVar ''r.oneframethreadlag'' 1 False False,
        SetCapturedCVar ''r.streaming.minmipforsplitrequest'' 1 False False,
        SetCapturedCVar ''r.streaming.hiddenprimitivescale'' (1 / 1000) False False,
        SetCapturedCVar ''r.Streaming.Boost'' 1 False False,
        SetCapturedCVar ''r.motionblurquality'' 0 False False]"

subsection \<open>Configuring the SDK, construction and destruction\<close>

text \<open>
  \<open>ReconfigureAnsel\<close> and \<open>DeconfigureAnsel\<close> assert that \<open>AnselConfig\<close> is not null; they
  are only reached on an object whose constructor allocated it, and do nothing in the
  model otherwise.  The SDK's status result is only logged.
\<close>

definition ReconfigureAnsel :: "priv \<times> globals \<Rightarrow> priv \<times> globals" where
  "ReconfigureAnsel sg =
     (let (s, g) = sg in
      case AnselConfig s of
        None \<Rightarrow> (s, g)
      | Some c \<Rightarrow>
          let c1 = c\<lparr>userPointer := True, startSessionCallback := True, stopSessionCallback := True,
                     startCaptureCallback := True, stopCaptureCallback := True,
                     changeQualityCallback := True, fovType := RequiredFovType s\<rparr>;
              c2 = (case GameWindowHandle g of
                      Some h \<Rightarrow> c1\<lparr>gameWindowHandle := Some h\<rparr> | None \<Rightarrow> c1);
              g1 = UE_LOG ''gameWindowHandle= %p'' g;
              c3 = c2\<lparr>translationalSpeedInWorldUnitsPerSecond := CVarPhotographyTranslationSpeed g1,
                      metersInWorldUnit := 1 / RequiredWorldToMeters s\<rparr>;
              g2 = UE_LOG ''We reckon %f meters to 1 world unit'' g1;
              c4 = c3\<lparr>isCameraOffcenteredProjectionSupported := True, captureLatency := 0,
                      captureSettleLatency := CVarPhotographySettleFrames g2\<rparr>;
              g3 = ansel_sdk (ansel_setConfiguration c4) g2
          in (s\<lparr>AnselConfig := Some c4,
                CurrentlyConfiguredFovType := RequiredFovType s,
                CurrentlyConfiguredWorldToMeters := RequiredWorldToMeters s\<rparr>, g3))"

definition DeconfigureAnsel :: "priv \<times> globals \<Rightarrow> priv \<times> globals" where
  "DeconfigureAnsel sg =
     (let (s, g) = sg in
      case AnselConfig s of
        None \<Rightarrow> (s, g)
      | Some c \<Rightarrow>
          let c1 = c\<lparr>userPointer := False, startSessionCallback := False,
                     stopSessionCallback := False, startCaptureCallback := False,
                     stopCaptureCallback := False, gameWindowHandle := None\<rparr>
          in (s\<lparr>AnselConfig := Some c1\<rparr>, ansel_sdk (ansel_setConfiguration c1) g))"

text \<open>
  The constructor.  \<open>mem\<close> is the content of the object's memory before construction:
  members with neither a member initialiser nor a default member initialiser keep it.
\<close>

definition FNVAnselCameraPhotographyPrivate_ctor :: "priv \<Rightarrow> globals \<Rightarrow> priv \<times> globals" where
  "FNVAnselCameraPhotographyPrivate_ctor mem g =
     (let s = mem\<lparr>bAnselSessionActive := False, bAnselSessionNewlyActive := False,
                  bAnselSessionWantDeactivate := False, bAnselCaptureActive := False,
                  bAnselCaptureNewlyActive := False, bAnselCaptureNewlyFinished := False,
                  bForceDisallow := False, bIsOrthoProjection := False,
                  bWasScreenMessagesEnabledBeforeSession := False,
                  bRayTracingEnabled := False, bPausedInternally := False,
                  bHighQualityModeDesired := False, bHighQualityModeIsSetup := False,
                  bHighLodDesired := False, bHighLodIsSetup := False,
                  bHighLumenDesired := False, bHighLumenIsSetup := False,
                  bHighSkyLightDesired := False, bHighSkyLightIsSetup := False,
                  bHighAntiAliasingDesired := False, bHighAntiAliasingIsSetup := False,
                  bHighSgQualityDesired := False, bHighSgQualityIsSetup := False,
                  RequiredFovType := kHorizontalFov, CurrentlyConfiguredFovType := kHorizontalFov,
                  RequiredWorldToMeters := 100, CurrentlyConfiguredWorldToMeters := 0,
                  InitialCVarMap := [],
                  bEffectUIAllowed := (\<lambda>i. True)\<rparr>
      in if bAnselDLLLoaded g
         then ReconfigureAnsel
                (s\<lparr>AnselConfig := Some (AnselDefaultConfiguration g)\<rparr>,
                 g\<lparr>ConsoleVariableSinks := ConsoleVariableSinks g + 1\<rparr>)
         else (s, UE_LOG ''Ansel DLL was not successfully loaded.'' g))"

definition FNVAnselCameraPhotographyPrivate_dtor :: "priv \<Rightarrow> globals \<Rightarrow> globals" where
  "FNVAnselCameraPhotographyPrivate_dtor s g =
     (if bAnselDLLLoaded g
      then snd (DeconfigureAnsel (s, g\<lparr>ConsoleVariableSinks := ConsoleVariableSinks g - 1\<rparr>))
      else g)"

definition IsSupported :: "priv \<Rightarrow> globals \<Rightarrow> bool" where
  "IsSupported s g \<longleftrightarrow> bAnselDLLLoaded g \<and> isAnselAvailable g"

definition SetUIControlVisibility :: "8 word \<Rightarrow> bool \<Rightarrow> priv \<Rightarrow> priv" where
  "SetUIControlVisibility UIControlTarget bIsVisible s =
     s\<lparr>bEffectUIAllowed := (bEffectUIAllowed s)(UIControlTarget := bIsVisible)\<rparr>"

definition StartSession :: "globals \<Rightarrow> globals" where
  "StartSession g = ansel_sdk ansel_startSession g"

definition StopSession :: "globals \<Rightarrow> globals" where
  "StopSession g = ansel_sdk ansel_stopSession g"

subsection \<open>Module start-up and provider creation\<close>

text \<open>
  \<open>FAnselModule::StartupModule\<close>; \<open>Handle\<close> is what \<open>FPlatformProcess::GetDllHandle\<close>
  returns for the SDK's DLL, 0 when loading fails.
\<close>

definition StartupModule :: "nat \<Rightarrow> globals \<Rightarrow> globals" where
  "StartupModule Handle g =
     UE_LOG ''Tried to load %s : success=%d''
       (g\<lparr>AnselSDKDLLHandle := Handle, bAnselDLLLoaded := (Handle \<noteq> 0)\<rparr>)"

definition ShutdownModule :: "globals \<Rightarrow> globals" where
  "ShutdownModule g =
     (if bAnselDLLLoaded g then g\<lparr>AnselSDKDLLHandle := 0, bAnselDLLLoaded := False\<rparr> else g)"

definition CreateCameraPhotography :: "priv \<Rightarrow> globals \<Rightarrow> priv option \<times> globals" where
  "CreateCameraPhotography mem g =
     (let (PhotographyPrivate, g1) = FNVAnselCameraPhotographyPrivate_ctor mem g
      in if IsSupported PhotographyPrivate g1 then (Some PhotographyPrivate, g1)
         else (None, FNVAnselCameraPhotographyPrivate_dtor PhotographyPrivate g1))"

subsection \<open>SDK callbacks\<close>

definition AnselStartSessionCallback ::
  "SessionConfiguration \<Rightarrow> priv \<Rightarrow> globals
     \<Rightarrow> StartSessionStatus \<times> SessionConfiguration \<times> priv \<times> globals" where
  "AnselStartSessionCallback settings s g =
     (let (AnselSessionStatus, settings1, s1) =
            (if \<not> bForceDisallow s \<and> CVarPhotographyAllow g \<noteq> 0 \<and> \<not> GIsEditor g
             then
               let bPauseAllowed = True;
                   bEnableMultipart = (CVarPhotographyEnableMultipart g \<noteq> 0)
               in (kAllowed,
                   settings\<lparr>isTranslationAllowed := True,
                            isFovChangeAllowed := \<not> bIsOrthoProjection s,
                            isRotationAllowed := True,
                            isPauseAllowed := bPauseAllowed,
                            isHighresAllowed := bEnableMultipart,
                            is360MonoAllowed := bEnableMultipart,
                            is360StereoAllowed := bEnableMultipart\<rparr>,
                   s\<lparr>bAnselSessionActive := True, bAnselSessionNewlyActive := True,
                     bHighQualityModeDesired := False\<rparr>)
             else (kDisallowed, settings, s))
      in (AnselSessionStatus, settings1, s1,
          UE_LOG ''Photography camera session attempt started, Allowed=%d, ForceDisallowed=%d'' g))"

definition AnselStopSessionCallback :: "priv \<Rightarrow> globals \<Rightarrow> priv \<times> globals" where
  "AnselStopSessionCallback s g =
     (let s1 = (if bAnselSessionActive s \<and> bAnselSessionNewlyActive s
                then s\<lparr>bAnselSessionActive := False\<rparr>
                else s\<lparr>bAnselSessionWantDeactivate := True\<rparr>)
      in (s1, UE_LOG ''Photography camera session end'' g))"

definition AnselStartCaptureCallback :: "CaptureType \<Rightarrow> priv \<Rightarrow> globals \<Rightarrow> priv \<times> globals" where
  "AnselStartCaptureCallback CaptureInfo s g =
     (s\<lparr>bAnselCaptureActive := True, bAnselCaptureNewlyActive := True,
        AnselCaptureInfo := CaptureInfo\<rparr>,
      UE_LOG ''Photography camera multi-part capture started'' g)"

definition AnselStopCaptureCallback :: "priv \<Rightarrow> globals \<Rightarrow> priv \<times> globals" where
  "AnselStopCaptureCallback s g =
     (s\<lparr>bAnselCaptureActive := False, bAnselCaptureNewlyFinished := True\<rparr>,
      UE_LOG ''Photography camera multi-part capture end'' g)"

definition AnselChangeQualityCallback :: "bool \<Rightarrow> priv \<Rightarrow> globals \<Rightarrow> priv \<times> globals" where
  "AnselChangeQualityCallback isHighQuality s g =
     (s\<lparr>bHighQualityModeDesired := isHighQuality\<rparr>,
      UE_LOG ''Photography HQ mode toggle (%d)'' g)"

subsection \<open>UpdateCamera\<close>

text \<open>
  The three branches of \<open>UpdateCamera\<close> inside an active session are named: the
  restore of the pre-session state when the session wants to deactivate, the
  session-start block for a newly active session, and the pause check that follows
  either kind of session frame.
\<close>

definition UpdateCamera_NotInSession :: "FMinimalViewInfo \<Rightarrow> priv \<times> globals \<Rightarrow> priv \<times> globals" where
  "UpdateCamera_NotInSession InOutPOV sg =
     (let (s, g) = sg;
          s1 = s\<lparr>bIsOrthoProjection := (ProjectionMode InOutPOV = Orthographic)\<rparr>;
          s2 = (case SplitscreenConfiguration g of
                  Some config \<Rightarrow> s1\<lparr>bForceDisallow := (bForceDisallow s1 \<or> config \<noteq> SplitScreen_None)\<rparr>
                | None \<Rightarrow> s1);
          s3 = s2\<lparr>bForceDisallow := (bForceDisallow s2 \<or> bIsStereoscopic3D g)\<rparr>;
          s4 = (case WorldToMeters g of
                  Some w \<Rightarrow> if w \<noteq> 0 then s3\<lparr>RequiredWorldToMeters := w\<rparr> else s3
                | None \<Rightarrow> s3);
          s5 = (case LocalPlayerViewport g of
                  Some v \<Rightarrow>
                    if (SizeX v > SizeY v \<and> AspectRatioAxisConstraint v = AspectRatio_MajorAxisFOV)
                       \<or> AspectRatioAxisConstraint v = AspectRatio_MaintainXFOV
                       \<or> ProjectionMode InOutPOV = Orthographic
                    then s4\<lparr>RequiredFovType := kHorizontalFov\<rparr>
                    else s4\<lparr>RequiredFovType := kVerticalFov\<rparr>
                | None \<Rightarrow> s4)
      in if CurrentlyConfiguredWorldToMeters s5 \<noteq> RequiredWorldToMeters s5
            \<or> CurrentlyConfiguredFovType s5 \<noteq> RequiredFovType s5
         then ReconfigureAnsel (s5, g) else (s5, g))"

definition RestoreCVars :: "(string \<times> CVarInfo) list \<Rightarrow> IConsoleManager \<Rightarrow> IConsoleManager" where
  "RestoreCVars m CM =
     fold (\<lambda>foo CM'. case cvar (snd foo) of
                        Some c \<Rightarrow> CVar_SetWithCurrentPriority CM' c (fInitialVal (snd foo))
                      | None \<Rightarrow> CM') m CM"

definition UpdateCamera_Deactivate :: "priv \<times> globals \<Rightarrow> priv \<times> globals" where
  "UpdateCamera_Deactivate sg =
     (let (s, g) = sg;
          s1 = s\<lparr>bAnselSessionActive := False, bAnselSessionWantDeactivate := False\<rparr>;
          g1 = (if bAutoPostprocess s1
                then let ga = (if bWasShowingHUDBeforeSession s1 then ShowHUD g else g);
                         gb = (if bWereSubtitlesEnabledBeforeSession s1
                               then ga\<lparr>bSubtitlesEnabled := True\<rparr> else ga)
                     in (if bWasFadingEnabledBeforeSession s1
                         then gb\<lparr>bEnableFading := True\<rparr> else gb)
                else g);
          g2 = g1\<lparr>GAreScreenMessagesEnabled := bWasScreenMessagesEnabledBeforeSession s1\<rparr>;
          (s2, g3) = (if bAutoPause s1 \<and> \<not> bWasPausedBeforeSession s1
                      then (s1\<lparr>bPausedInternally := False\<rparr>,
                            g2\<lparr>TimeDilation := fTimeDilationBeforeSession s1, bPaused := False\<rparr>)
                      else (s1, g2));
          g4 = g3\<lparr>bIsCameraMoveableWhenPaused := bWasMovableCameraBeforeSession s2\<rparr>;
          g5 = g4\<lparr>Cursor := map_option (\<lambda>shown. True) (Cursor g4)\<rparr>;
          g6 = g5\<lparr>ConsoleManager := RestoreCVars (InitialCVarMap s2) (ConsoleManager g5)\<rparr>;
          s3 = s2\<lparr>InitialCVarMap := [], bHighQualityModeIsSetup := False\<rparr>
      in (s3, notify OnPhotographySessionEnd g6))"

definition UpdateCamera_SessionStart :: "priv \<times> globals \<Rightarrow> priv \<times> globals" where
  "UpdateCamera_SessionStart sg =
     (let (s, g) = sg;
          s1 = s\<lparr>NumFramesSinceSessionStart := 0\<rparr>;
          g1 = notify OnPhotographySessionStart g;
          s2 = s1\<lparr>bAutoPause := (CVarPhotographyAutoPause g1 \<noteq> 0),
                  bAutoPostprocess := (CVarPhotographyAutoPostprocess g1 \<noteq> 0),
                  bRayTracingEnabled := bIsRayTracingEnabled g1\<rparr>;
          s3 = s2\<lparr>bWasPausedBeforeSession := bPaused g1,
                  bWasMovableCameraBeforeSession := bIsCameraMoveableWhenPaused g1\<rparr>;
          g2 = g1\<lparr>bIsCameraMoveableWhenPaused := True\<rparr>;
          (s4, g3) = (if bAutoPause s3 \<and> \<not> bWasPausedBeforeSession s3
                      then (s3\<lparr>fTimeDilationBeforeSession := TimeDilation g2\<rparr>,
                            g2\<lparr>TimeDilation := 0\<rparr>)
                      else (s3, g2));
          (s5, g4) = SetUpSessionCVars (s4, g3);
          s6 = s5\<lparr>bWasScreenMessagesEnabledBeforeSession := GAreScreenMessagesEnabled g4\<rparr>;
          g5 = g4\<lparr>GAreScreenMessagesEnabled := False\<rparr>;
          s7 = s6\<lparr>bWasFadingEnabledBeforeSession := bEnableFading g5,
                  bWasShowingHUDBeforeSession := (MyHUD g5 = Some True),
                  bWereSubtitlesEnabledBeforeSession := bSubtitlesEnabled g5\<rparr>;
          g6 = (if bAutoPostprocess s7
                then let ga = (if bWasShowingHUDBeforeSession s7 then ShowHUD g5 else g5)
                     in ga\<lparr>bSubtitlesEnabled := False, bEnableFading := False\<rparr>
                else g5);
          s8 = s7\<lparr>bUIControlsNeedRebuild := True\<rparr>;
          g7 = ansel_sdk ansel_updateCamera g6
      in (s8\<lparr>bAnselSessionNewlyActive := False\<rparr>, g7))"

definition UpdateCamera_PauseCheck :: "priv \<times> globals \<Rightarrow> priv \<times> globals" where
  "UpdateCamera_PauseCheck sg =
     (let (s, g) = sg in
      if NumFramesSinceSessionStart s = 2
      then (if bAutoPause s \<and> \<not> bWasPausedBeforeSession s
            then (s\<lparr>bPausedInternally := True\<rparr>, g\<lparr>bPaused := True\<rparr>)
            else (s, g))
      else (s, g))"

definition UpdateCamera ::
  "FMinimalViewInfo \<Rightarrow> priv \<times> globals \<Rightarrow> bool \<times> FMinimalViewInfo \<times> priv \<times> globals" where
  "UpdateCamera InOutPOV sg =
     (let (s, g) = sg;
          bGameCameraCutThisFrame = False;
          s0 = s\<lparr>bForceDisallow := False\<rparr>;
          (s1, g1) = (if \<not> bAnselSessionActive s0
                      then UpdateCamera_NotInSession InOutPOV (s0, g) else (s0, g))
      in if bAnselSessionActive s1
         then
           let s2 = s1\<lparr>NumFramesSinceSessionStart := NumFramesSinceSessionStart s1 + 1\<rparr>;
               (cut1, s3, g3) =
                 (if bAnselCaptureNewlyActive s2
                  then (True, s2\<lparr>bAnselCaptureNewlyActive := False\<rparr>,
                        notify OnPhotographyMultiPartCaptureStart g1)
                  else (bGameCameraCutThisFrame, s2, g1));
               (cut2, s4, g4) =
                 (if bAnselCaptureNewlyFinished s3
                  then (True, s3\<lparr>bAnselCaptureNewlyFinished := False\<rparr>,
                        notify OnPhotographyMultiPartCaptureEnd g3)
                  else (cut1, s3, g3));
               (s5, g5) =
                 (if bAnselSessionWantDeactivate s4
                  then UpdateCamera_Deactivate (s4, g4)
                  else UpdateCamera_PauseCheck
                         (if bAnselSessionNewlyActive s4
                          then UpdateCamera_SessionStart (s4, g4)
                          else (s4, ansel_sdk ansel_updateCamera g4)));
               POV = (if bAnselCaptureActive s5
                      then InOutPOV\<lparr>bConstrainAspectRatio := False\<rparr> else InOutPOV)
           in (cut2, POV, s5, g5)
         else (bGameCameraCutThisFrame, InOutPOV, s1, g1))"

subsection \<open>The custom controls of the SDK overlay\<close>

text \<open>Engine functions \<open>FMath::GetRangePct\<close> and \<open>FMath::Lerp\<close>.\<close>

definition GetRangePct :: "real \<Rightarrow> real \<Rightarrow> real \<Rightarrow> real" where
  "GetRangePct MinValue MaxValue Val =
     (let Divisor = MaxValue - MinValue in
      if \<bar>Divisor\<bar> \<le> 1 / 100000000 then (if Val \<ge> MaxValue then 1 else 0)
      else (Val - MinValue) / Divisor)"

definition Lerp :: "real \<Rightarrow> real \<Rightarrow> real \<Rightarrow> real" where
  "Lerp A B Alpha = A + Alpha * (B - A)"

definition DeclareSlider ::
  "econtrols \<Rightarrow> real \<Rightarrow> real \<Rightarrow> real \<Rightarrow> priv \<times> globals \<Rightarrow> priv \<times> globals" where
  "DeclareSlider cid LowerBound UpperBound Val sg =
     (let (s, g) = sg;
          s1 = s\<lparr>UIControlRangeLower := (UIControlRangeLower s)(cid := LowerBound),
                 UIControlRangeUpper := (UIControlRangeUpper s)(cid := UpperBound),
                 UIControlValues_float :=
                   (UIControlValues_float s)(cid := GetRangePct LowerBound UpperBound Val),
                 UIControls := (UIControls s)(cid := control_index cid + 1)\<rparr>;
          g1 = ansel_sdk (ansel_addUserControl (control_index cid + 1)) g
      in (s1, UE_LOG ''control#%d status=%d'' g1))"

definition DeclareBool :: "econtrols \<Rightarrow> bool \<Rightarrow> priv \<times> globals \<Rightarrow> priv \<times> globals" where
  "DeclareBool cid Val sg =
     (let (s, g) = sg;
          s1 = s\<lparr>UIControlValues_bool := (UIControlValues_bool s)(cid := Val),
                 UIControls := (UIControls s)(cid := control_index cid + 1)\<rparr>
      in (s1, ansel_sdk (ansel_addUserControl (control_index cid + 1)) g))"

definition ProcessUISlider :: "priv \<Rightarrow> econtrols \<Rightarrow> real \<Rightarrow> bool \<times> real" where
  "ProcessUISlider s cid InOutVal =
     (if UIControls s cid \<le> 0 then (False, InOutVal)
      else (True, Lerp (UIControlRangeLower s cid) (UIControlRangeUpper s cid)
                    (UIControlValues_float s cid)))"

definition ProcessUIBool :: "priv \<Rightarrow> econtrols \<Rightarrow> bool \<Rightarrow> bool" where
  "ProcessUIBool s cid InOutVal =
     (let InOutVal1 = (if UIControls s cid \<le> 0 then False else InOutVal)
      in UIControlValues_bool s cid)"

definition ApplyUISlider ::
  "econtrols \<Rightarrow> pp_field \<Rightarrow> priv \<Rightarrow> FPostProcessSettings \<Rightarrow> FPostProcessSettings" where
  "ApplyUISlider cid f s pp =
     (let (used, v) = ProcessUISlider s cid (Setting pp f)
      in if used then set_bOverride f True (set_Setting f v pp) else pp)"

definition ClearUserControl :: "econtrols \<Rightarrow> priv \<times> globals \<Rightarrow> priv \<times> globals" where
  "ClearUserControl i sg =
     (let (s, g) = sg in
      if UIControls s i > 0
      then (s\<lparr>UIControls := (UIControls s)(i := 0)\<rparr>,
            ansel_sdk (ansel_removeUserControl (UIControls s i)) g)
      else (s, g))"

definition RebuildUIControls :: "FPostProcessSettings \<Rightarrow> priv \<times> globals \<Rightarrow> priv \<times> globals" where
  "RebuildUIControls InOutPPSettings sg =
     (let sg1 = in_order (map ClearUserControl all_controls) sg;
          sg2 = in_order
                  [DeclareBool control_OLDSettings False,
                   DeclareBool control_LumenSettings False,
                   DeclareBool control_SkylightSettings False,
                   DeclareBool control_AntiAliasing False,
                   DeclareBool control_sgQuality False] sg1;
          sg3 = (fst sg2\<lparr>UEPostProcessingOriginal := InOutPPSettings\<rparr>, snd sg2);
          sg4 = (if bEffectUIAllowed (fst sg3) DepthOfField
                    \<and> Setting InOutPPSettings DepthOfFieldFstop > 0
                    \<and> Setting InOutPPSettings DepthOfFieldFocalDistance > 0
                 then in_order
                   [DeclareSlider control_dofsensorwidth (1 / 10) 1000
                      (Setting InOutPPSettings DepthOfFieldSensorWidth),
                    DeclareSlider control_doffocaldistance 0 1000
                      (Setting InOutPPSettings DepthOfFieldFocalDistance),
                    DeclareSlider control_dofdepthbluramount (1 / 1000000) 1
                      (Setting InOutPPSettings DepthOfFieldDepthBlurAmount),
                    DeclareSlider control_dofdepthblurradius 0 4
                      (Setting InOutPPSettings DepthOfFieldDepthBlurRadius)] sg3
                 else sg3);
          sg5 = (if bEffectUIAllowed (fst sg4) Bloom \<and> Setting InOutPPSettings BloomIntensity > 0
                 then in_order
                   [DeclareSlider control_bloomintensity 0 8 (Setting InOutPPSettings BloomIntensity),
                    DeclareSlider control_bloomscale 0 64 (Setting InOutPPSettings BloomSizeScale)] sg4
                 else sg4);
          sg6 = (if bEffectUIAllowed (fst sg5) ChromaticAberration
                    \<and> Setting InOutPPSettings SceneFringeIntensity > 0
                 then DeclareSlider control_scenefringeintensity 0 15
                        (Setting InOutPPSettings SceneFringeIntensity) sg5
                 else sg5)
      in (fst sg6\<lparr>bUIControlsNeedRebuild := False\<rparr>, snd sg6))"

definition DoCustomUIControls ::
  "FPostProcessSettings \<Rightarrow> bool \<Rightarrow> priv \<times> globals \<Rightarrow> FPostProcessSettings \<times> priv \<times> globals" where
  "DoCustomUIControls InOutPPSettings bRebuildControls sg =
     (let (s, g) = (if bRebuildControls then RebuildUIControls InOutPPSettings sg else sg);
          pp = in_order
                 [ApplyUISlider control_dofscale DepthOfFieldScale s,
                  ApplyUISlider control_doffocalregion DepthOfFieldFocalRegion s,
                  ApplyUISlider control_dofsensorwidth DepthOfFieldSensorWidth s,
                  ApplyUISlider control_doffocaldistance DepthOfFieldFocalDistance s,
                  ApplyUISlider control_dofdepthbluramount DepthOfFieldDepthBlurAmount s,
                  ApplyUISlider control_dofdepthblurradius DepthOfFieldDepthBlurRadius s,
                  ApplyUISlider control_bloomintensity BloomIntensity s,
                  ApplyUISlider control_bloomscale BloomSizeScale s,
                  ApplyUISlider control_scenefringeintensity SceneFringeIntensity s]
                 (UEPostProcessingOriginal s);
          s1 = s\<lparr>bHighLodDesired := ProcessUIBool s control_OLDSettings (bHighLodDesired s),
                 bHighLumenDesired := ProcessUIBool s control_LumenSettings (bHighLumenDesired s),
                 bHighSkyLightDesired := ProcessUIBool s control_SkylightSettings (bHighSkyLightDesired s),
                 bHighAntiAliasingDesired :=
                   ProcessUIBool s control_AntiAliasing (bHighAntiAliasingDesired s),
                 bHighSgQualityDesired := ProcessUIBool s control_sgQuality (bHighSgQualityDesired s)\<rparr>
      in (pp, s1, g))"

text \<open>The callbacks the SDK invokes when the user moves a slider or flips a switch.\<close>

definition SliderCallback :: "econtrols \<Rightarrow> real \<Rightarrow> priv \<Rightarrow> priv" where
  "SliderCallback cid v s = s\<lparr>UIControlValues_float := (UIControlValues_float s)(cid := v)\<rparr>"

definition BoolCallback :: "econtrols \<Rightarrow> bool \<Rightarrow> priv \<Rightarrow> priv" where
  "BoolCallback cid v s = s\<lparr>UIControlValues_bool := (UIControlValues_bool s)(cid := v)\<rparr>"

subsection \<open>Rendering settings for photography\<close>

text \<open>The macros of \<open>ConfigureRenderingSettingsForPhotography\<close>.\<close>

definition QUALITY_CVAR :: "string \<Rightarrow> real \<Rightarrow> priv \<times> globals \<Rightarrow> priv \<times> globals" where
  "QUALITY_CVAR NAME BOOSTVAL sg =
     SetCapturedCVar NAME BOOSTVAL (\<not> bHighQualityModeDesired (fst sg)) True sg"

definition QUALITY_CVAR_AT_LEAST :: "string \<Rightarrow> real \<Rightarrow> priv \<times> globals \<Rightarrow> priv \<times> globals" where
  "QUALITY_CVAR_AT_LEAST NAME BOOSTVAL sg =
     SetCapturedCVarPredicated NAME BOOSTVAL (\<lambda>a b. a > b) (\<not> bHighQualityModeDesired (fst sg)) True sg"

definition QUALITY_CVAR_AT_MOST :: "string \<Rightarrow> real \<Rightarrow> priv \<times> globals \<Rightarrow> priv \<times> globals" where
  "QUALITY_CVAR_AT_MOST NAME BOOSTVAL sg =
     SetCapturedCVarPredicated NAME BOOSTVAL (\<lambda>a b. a < b) (\<not> bHighQualityModeDesired (fst sg)) True sg"

definition QUALITY_CVAR_LOWPRIORITY_AT_LEAST ::
  "string \<Rightarrow> real \<Rightarrow> priv \<times> globals \<Rightarrow> priv \<times> globals" where
  "QUALITY_CVAR_LOWPRIORITY_AT_LEAST NAME BOOSTVAL sg =
     SetCapturedCVarPredicated NAME BOOSTVAL (\<lambda>a b. a > b) (\<not> bHighQualityModeDesired (fst sg)) False sg"

definition LOD_CVAR :: "string \<Rightarrow> real \<Rightarrow> priv \<times> globals \<Rightarrow> priv \<times> globals" where
  "LOD_CVAR NAME BOOSTVAL sg = SetCapturedCVar NAME BOOSTVAL (\<not> bHighLodDesired (fst sg)) True sg"

definition LUMEN_CVAR :: "string \<Rightarrow> real \<Rightarrow> priv \<times> globals \<Rightarrow> priv \<times> globals" where
  "LUMEN_CVAR NAME BOOSTVAL sg = SetCapturedCVar NAME BOOSTVAL (\<not> bHighLumenDesired (fst sg)) True sg"

definition SKYLIGHT_CVAR :: "string \<Rightarrow> real \<Rightarrow> priv \<times> globals \<Rightarrow> priv \<times> globals" where
  "SKYLIGHT_CVAR NAME BOOSTVAL sg =
     SetCapturedCVar NAME BOOSTVAL (\<not> bHighSkyLightDesired (fst sg)) True sg"

definition SQQUALITY_CVAR :: "string \<Rightarrow> real \<Rightarrow> priv \<times> globals \<Rightarrow> priv \<times> globals" where
  "SQQUALITY_CVAR NAME BOOSTVAL sg =
     SetCapturedCVar NAME BOOSTVAL (\<not> bHighSgQualityDesired (fst sg)) True sg"

definition ANTIALIASING_CVAR :: "string \<Rightarrow> real \<Rightarrow> priv \<times> globals \<Rightarrow> priv \<times> globals" where
  "ANTIALIASING_CVAR NAME BOOSTVAL sg =
     SetCapturedCVar NAME BOOSTVAL (\<not> bHighAntiAliasingDesired (fst sg)) True sg"

definition LodSettings :: "(priv \<times> globals \<Rightarrow> priv \<times> globals) list" where
  "LodSettings =
     [LOD_CVAR ''r.TextureStreaming'' 0,
      LOD_CVAR ''r.ForceLOD'' 0,
      LOD_CVAR ''r.particlelodbias'' (- 10),
      LOD_CVAR ''foliage.DitheredLOD'' 0,
      LOD_CVAR ''foliage.ForceLOD'' 0,
      LOD_CVAR ''Foliage.MinimumScreenSize'' (1 / 100000000)]"

definition LumenSettings :: "(priv \<times> globals \<Rightarrow> priv \<times> globals) list" where
  "LumenSettings =
     [LUMEN_CVAR ''r.DistanceFields.MaxPerMeshResolution'' 256,
      LUMEN_CVAR ''r.Lumen.ScreenProbeGather.ScreenSpaceBentNormal.ApplyDuringIntegration'' 0,
      LUMEN_CVAR ''r.LumenScene.DirectLighting.OffscreenShadowing.TraceMeshSDFs'' 0,
      LUMEN_CVAR ''r.Lumen.HardwareRayTracing'' 1,
      LUMEN_CVAR ''r.Lumen.TranslucencyVolume.TraceFromVolume'' 0,
      LUMEN_CVAR ''r.Lumen.Reflections.RadianceCache'' 1,
      LUMEN_CVAR ''r.LumenScene.Radiosity.ProbeSpacing'' 8,
      LUMEN_CVAR ''r.LumenScene.Radiosity.ProbeOcclusion'' 0,
      LUMEN_CVAR ''r.LumenScene.FarField'' 1,
      LUMEN_CVAR ''r.LumenScene.FarField.MaxTraceDistance'' 1000000,
      LUMEN_CVAR ''r.Lumen.HardwareRayTracing.MaxIterations'' 128]"

definition SkylightSettings :: "(priv \<times> globals \<Rightarrow> priv \<times> globals) list" where
  "SkylightSettings =
     [SKYLIGHT_CVAR ''r.SkyLight.RealTimeReflectionCapture.TimeSlice'' 0,
      SKYLIGHT_CVAR ''r.VolumetricRenderTarget'' 0]"

definition SgQualitySettings :: "(priv \<times> globals \<Rightarrow> priv \<times> globals) list" where
  "SgQualitySettings =
     [SQQUALITY_CVAR ''sg.ViewDistanceQuality'' 4,
      SQQUALITY_CVAR ''sg.AntiAliasingQuality'' 4,
      SQQUALITY_CVAR ''sg.ShadowQuality'' 4,
      SQQUALITY_CVAR ''sg.PostProcessQuality'' 4,
      SQQUALITY_CVAR ''sg.TextureQuality'' 4,
      SQQUALITY_CVAR ''sg.FoliageQuality'' 4,
      SQQUALITY_CVAR ''sg.ShadingQuality'' 4]"

definition AntiAliasingSettings :: "(priv \<times> globals \<Rightarrow> priv \<times> globals) list" where
  "AntiAliasingSettings =
     [ANTIALIASING_CVAR ''r.AntiAliasingMethod'' 2,
      ANTIALIASING_CVAR ''r.TemporalAASamples'' 64,
      ANTIALIASING_CVAR ''r.TemporalAAFilterSize'' 1,
      ANTIALIASING_CVAR ''r.TemporalAA.Quality'' 2]"

definition HighQualitySettings :: "(priv \<times> globals \<Rightarrow> priv \<times> globals) list" where
  "HighQualitySettings =
     [QUALITY_CVAR_LOWPRIORITY_AT_LEAST ''r.ScreenPercentage'' 100,
      QUALITY_CVAR_AT_MOST ''r.StaticMeshLODDistanceScale'' (1 / 4),
      QUALITY_CVAR_AT_MOST ''r.skeletalmeshlodbias'' (- 10),
      QUALITY_CVAR ''r.D3D12.GPUTimeout'' 0,
      QUALITY_CVAR ''a.URO.Enable'' 0,
      QUALITY_CVAR_AT_LEAST ''foliage.DensityScale'' 1,
      QUALITY_CVAR_AT_LEAST ''grass.DensityScale'' 1,
      QUALITY_CVAR_AT_LEAST ''foliage.LODDistanceScale'' 4,
      QUALITY_CVAR_AT_LEAST ''r.TranslucencyLightingVolumeDim'' 64,
      QUALITY_CVAR ''r.RefractionQuality'' 2,
      QUALITY_CVAR ''r.SSR.Quality'' 4,
      QUALITY_CVAR ''r.TranslucencyVolumeBlur'' 1,
      QUALITY_CVAR ''r.MaterialQualityLevel'' 1,
      QUALITY_CVAR ''r.SSS.Scale'' 1,
      QUALITY_CVAR ''r.SSS.SampleSet'' 2,
      QUALITY_CVAR ''r.SSS.Quality'' 1,
      QUALITY_CVAR ''r.SSS.HalfRes'' 0,
      QUALITY_CVAR ''r.ParticleLightQuality'' 2,
      QUALITY_CVAR ''r.DetailMode'' 2,
      QUALITY_CVAR ''r.Streaming.MipBias'' 0,
      QUALITY_CVAR_AT_LEAST ''r.MaxAnisotropy'' 16,
      QUALITY_CVAR ''r.Streaming.MaxEffectiveScreenSize'' 0,
      QUALITY_CVAR_AT_LEAST ''r.ViewDistanceScale'' 50,
      QUALITY_CVAR_AT_LEAST ''r.LightFunctionQuality'' 2,
      QUALITY_CVAR ''r.ShadowQuality'' 5,
      QUALITY_CVAR_AT_LEAST ''r.Shadow.CSM.MaxCascades'' 10,
      QUALITY_CVAR_AT_LEAST ''r.Shadow.MaxResolution'' 4096,
      QUALITY_CVAR_AT_LEAST ''r.Shadow.MaxCSMResolution'' 4096,
      QUALITY_CVAR_AT_MOST ''r.Shadow.RadiusThreshold'' (1 / 1000),
      QUALITY_CVAR ''r.Shadow.DistanceScale'' 10,
      QUALITY_CVAR ''r.Shadow.CSM.TransitionScale'' 1,
      QUALITY_CVAR ''r.Shadow.PreShadowResolutionFactor'' 1,
      QUALITY_CVAR ''r.AOQuality'' 2,
      QUALITY_CVAR ''r.VolumetricFog'' 1,
      QUALITY_CVAR ''r.VolumetricFog.GridPixelSize'' 4,
      QUALITY_CVAR ''r.VolumetricFog.GridSizeZ'' 128,
      QUALITY_CVAR_AT_LEAST ''r.VolumetricFog.HistoryMissSupersampleCount'' 16,
      QUALITY_CVAR_AT_LEAST ''r.LightMaxDrawDistanceScale'' 4]"

definition HighQualityRayTracingSettings :: "(priv \<times> globals \<Rightarrow> priv \<times> globals) list" where
  "HighQualityRayTracingSettings =
     [QUALITY_CVAR_AT_LEAST ''D3D12.PSO.StallTimeoutInMs'' 8000,
      QUALITY_CVAR_AT_LEAST ''r.RayTracing.AmbientOcclusion.SamplesPerPixel'' 3,
      QUALITY_CVAR ''r.raytracing.reflections.rendertilesize'' 128,
      QUALITY_CVAR_AT_LEAST ''r.RayTracing.Reflections.MaxBounces'' 2,
      QUALITY_CVAR_AT_LEAST ''r.RayTracing.Reflections.MaxRoughness'' (9 / 10),
      QUALITY_CVAR_AT_LEAST ''r.RayTracing.Reflections.MaxRayDistance'' 1000000,
      QUALITY_CVAR ''r.RayTracing.Reflections.SortMaterials'' 1,
      QUALITY_CVAR ''r.RayTracing.Reflections.DirectLighting'' 1,
      QUALITY_CVAR_AT_LEAST ''r.RayTracing.Reflections.Shadows'' 1,
      QUALITY_CVAR ''r.RayTracing.Reflections.HeightFog'' 1,
      QUALITY_CVAR ''r.RayTracing.Reflections.ReflectionCaptures'' 1,
      QUALITY_CVAR_AT_LEAST ''r.RayTracing.Reflections.ScreenPercentage'' 100,
      QUALITY_CVAR_AT_LEAST ''r.RayTracing.Translucency.MaxRoughness'' (9 / 10),
      QUALITY_CVAR_AT_LEAST ''r.RayTracing.Translucency.MaxRayDistance'' 1000000,
      QUALITY_CVAR_AT_LEAST ''r.RayTracing.Translucency.MaxRefractionRays'' 11,
      QUALITY_CVAR_AT_LEAST ''r.RayTracing.Translucency.Shadows'' 1,
      QUALITY_CVAR ''r.RayTracing.Shadow.MaxLights'' (- 1),
      QUALITY_CVAR ''r.RayTracing.Shadow.MaxDenoisedLights'' (- 1),
      QUALITY_CVAR_AT_LEAST ''r.raytracing.lighting.maxshadowlights'' 256,
      QUALITY_CVAR_AT_LEAST ''r.RayTracing.lighting.maxlights'' 256]"

definition ExtremeSettings :: "(priv \<times> globals \<Rightarrow> priv \<times> globals) list" where
  "ExtremeSettings =
     [QUALITY_CVAR ''r.Streaming.LimitPoolSizeToVRAM'' 0,
      QUALITY_CVAR_AT_LEAST ''r.Streaming.PoolSize'' 3000,
      QUALITY_CVAR ''r.streaming.hlodstrategy'' 2,
      QUALITY_CVAR_AT_LEAST ''r.viewdistancescale'' 10]"

definition ExtremeRayTracingSettings :: "(priv \<times> globals \<Rightarrow> priv \<times> globals) list" where
  "ExtremeRayTracingSettings =
     [QUALITY_CVAR_AT_LEAST ''r.RayTracing.Translucency.MaxRoughness'' 1,
      QUALITY_CVAR_AT_LEAST ''r.RayTracing.Reflections.MaxRoughness'' 1,
      QUALITY_CVAR ''r.raytracing.GlobalIllumination.rendertilesize'' 128,
      QUALITY_CVAR ''r.RayTracing.GlobalIllumination.ScreenPercentage'' 50,
      QUALITY_CVAR ''r.RayTracing.GlobalIllumination.MaxRayDistance'' 7500,
      QUALITY_CVAR_AT_LEAST ''r.RayTracing.GlobalIllumination.SamplesPerPixel'' 4,
      QUALITY_CVAR_AT_LEAST ''r.RayTracing.GlobalIllumination.NextEventEstimationSamples'' 16,
      QUALITY_CVAR_AT_LEAST ''r.GlobalIllumination.Denoiser.ReconstructionSamples'' 56,
      QUALITY_CVAR ''r.RayTracing.GlobalIllumination'' 1,
      QUALITY_CVAR_AT_LEAST ''r.RayTracing.StochasticRectLight.SamplesPerPixel'' 4,
      QUALITY_CVAR_AT_LEAST ''r.RayTracing.SkyLight.SamplesPerPixel'' 4]"

definition CaptureStreamingSettings :: "(priv \<times> globals \<Rightarrow> priv \<times> globals) list" where
  "CaptureStreamingSettings =
     [SetCapturedCVar ''r.disablelodfade'' 1 False False,
      SetCapturedCVar ''r.streaming.framesforfullupdate'' 1 False False,
      SetCapturedCVar ''r.Streaming.MaxNumTexturesToStreamPerFrame'' 0 False False,
      SetCapturedCVar ''r.streaming.numstaticcomponentsprocessedperframe'' 0 False False]"

text \<open>
  The console-variable part of \<open>ConfigureRenderingSettingsForPhotography\<close>: the five
  user-switchable groups, the high-quality block, and the streaming variables of an
  active capture.
\<close>

definition ConfigureQualityGroups :: "priv \<times> globals \<Rightarrow> priv \<times> globals" where
  "ConfigureQualityGroups sg =
     (let sg1 = (if bHighLodIsSetup (fst sg) \<noteq> bHighLodDesired (fst sg)
                 then let (s, g) = in_order LodSettings sg
                      in (s\<lparr>bHighLodIsSetup := bHighLodDesired s\<rparr>, g)
                 else sg);
          sg2 = (if bHighLumenIsSetup (fst sg1) \<noteq> bHighLumenDesired (fst sg1)
                 then let (s, g) = in_order LumenSettings sg1
                      in (s\<lparr>bHighLumenIsSetup := bHighLumenDesired s\<rparr>, g)
                 else sg1);
          sg3 = (if bHighSkyLightIsSetup (fst sg2) \<noteq> bHighSkyLightDesired (fst sg2)
                 then let (s, g) = in_order SkylightSettings sg2
                      in (s\<lparr>bHighSkyLightIsSetup := bHighSkyLightDesired s\<rparr>, g)
                 else sg2);
          sg4 = (if bHighSgQualityIsSetup (fst sg3) \<noteq> bHighSgQualityDesired (fst sg3)
                 then let (s, g) = in_order SgQualitySettings sg3
                      in (s\<lparr>bHighSgQualityIsSetup := bHighSgQualityDesired s\<rparr>, g)
                 else sg3)
      in (if bHighAntiAliasingIsSetup (fst sg4) \<noteq> bHighAntiAliasingDesired (fst sg4)
          then let (s, g) = in_order AntiAliasingSettings
                              (fst sg4, UE_LOG ''AntiAliasing is high quality:True'' (snd sg4))
               in (s\<lparr>bHighAntiAliasingIsSetup := bHighAntiAliasingDesired s\<rparr>, g)
          else sg4))"

definition ConfigureHighQuality :: "priv \<times> globals \<Rightarrow> priv \<times> globals" where
  "ConfigureHighQuality sg =
     (if CVarAllowHighQuality (snd sg) \<noteq> 0
         \<and> bHighQualityModeIsSetup (fst sg) \<noteq> bHighQualityModeDesired (fst sg)
         \<and> (bPausedInternally (fst sg) \<or> \<not> bAutoPause (fst sg))
      then
        let sg1 = in_order HighQualitySettings
                    (fst sg, UE_LOG ''Photography is high quality:True'' (snd sg));
            sg2 = (if bRayTracingEnabled (fst sg1)
                   then in_order HighQualityRayTracingSettings sg1 else sg1);
            sg3 = (if CVarExtreme (snd sg2) \<noteq> 0
                   then
                     let sga = in_order ExtremeSettings sg2;
                         sgb = (if bRayTracingEnabled (fst sga)
                                then in_order ExtremeRayTracingSettings sga else sga)
                     in QUALITY_CVAR ''r.particlelodbias'' (- 10) sgb
                   else sg2);
            (s, g) = sg3
        in (s\<lparr>bHighQualityModeIsSetup := bHighQualityModeDesired s\<rparr>,
            UE_LOG ''Photography HQ mode actualized (enabled=%d)'' g)
      else sg)"

text \<open>
  The post-processing part: the overrides applied during a multi-part capture when
  automatic post-processing is on.
\<close>

definition CapturePostProcessing ::
  "CaptureType \<Rightarrow> FPostProcessSettings \<Rightarrow> FPostProcessSettings" where
  "CapturePostProcessing captureType pp =
     (let pp1 = in_order
                  [set_bOverride MotionBlurAmount True, set_Setting MotionBlurAmount 0,
                   set_bOverride BloomDirtMaskIntensity True, set_Setting BloomDirtMaskIntensity 0,
                   set_bOverride LensFlareIntensity True, set_Setting LensFlareIntensity 0,
                   set_bOverride VignetteIntensity True, set_Setting VignetteIntensity 0,
                   set_bOverride SceneFringeIntensity True, set_Setting SceneFringeIntensity 0,
                   set_bOverride AutoExposureSpeedDown False, set_Setting AutoExposureSpeedDown 0,
                   set_bOverride AutoExposureSpeedUp False, set_Setting AutoExposureSpeedUp 0] pp;
          pp2 = (if Setting pp1 ScreenPercentage_DEPRECATED < 100
                 then set_Setting ScreenPercentage_DEPRECATED 100
                        (set_bOverride ScreenPercentage_DEPRECATED True pp1)
                 else pp1);
          bAnselSuperresCaptureActive = (captureType = kCaptureTypeSuperResolution);
          bAnselStereoCaptureActive =
            (captureType = kCaptureType360Stereo \<or> captureType = kCaptureTypeStereo);
          pp3 = (if bAnselStereoCaptureActive
                 then in_order
                   [set_bOverride DepthOfFieldScale True, set_Setting DepthOfFieldScale 0,
                    set_bOverride DepthOfFieldNearBlurSize True, set_Setting DepthOfFieldNearBlurSize 0,
                    set_bOverride DepthOfFieldFarBlurSize True, set_Setting DepthOfFieldFarBlurSize 0,
                    set_bOverride DepthOfFieldDepthBlurRadius True,
                    set_Setting DepthOfFieldDepthBlurRadius 0,
                    set_bOverride DepthOfFieldVignetteSize True,
                    set_Setting DepthOfFieldVignetteSize 200] pp2
                 else pp2)
      in (if \<not> bAnselSuperresCaptureActive
          then set_Setting ScreenSpaceReflectionIntensity 0
                 (set_bOverride ScreenSpaceReflectionIntensity True pp3)
          else pp3))"

definition ConfigureRenderingSettingsForPhotography ::
  "FPostProcessSettings \<Rightarrow> priv \<times> globals \<Rightarrow> FPostProcessSettings \<times> priv \<times> globals" where
  "ConfigureRenderingSettingsForPhotography InOutPostProcessingSettings sg =
     (let sg1 = ConfigureHighQuality (ConfigureQualityGroups sg)
      in if bAnselCaptureActive (fst sg1)
         then
           let sg2 = in_order CaptureStreamingSettings sg1
           in (if bAutoPostprocess (fst sg2)
               then CapturePostProcessing (AnselCaptureInfo (fst sg2)) InOutPostProcessingSettings
               else InOutPostProcessingSettings, sg2)
         else (InOutPostProcessingSettings, sg1))"

definition UpdatePostProcessing ::
  "FPostProcessSettings \<Rightarrow> priv \<times> globals \<Rightarrow> FPostProcessSettings \<times> priv \<times> globals" where
  "UpdatePostProcessing InOutPostProcessingSettings sg =
     (if bAnselSessionActive (fst sg)
      then let (pp, s, g) = DoCustomUIControls InOutPostProcessingSettings
                              (bUIControlsNeedRebuild (fst sg)) sg
           in ConfigureRenderingSettingsForPhotography pp (s, g)
      else (InOutPostProcessingSettings, sg))"

section \<open>UAnselFunctionLibrary: camera constraint utilities\<close>

text \<open>
  \<open>UAnselFunctionLibrary::ConstrainCameraByDistance\<close>.  The world context object is not
  used by the body; the out-parameter \<open>OutCameraLocation\<close> is the result.
\<close>

definition ConstrainCameraByDistance ::
  "FVector \<Rightarrow> FVector \<Rightarrow> FVector \<Rightarrow> real \<Rightarrow> FVector" where
  "ConstrainCameraByDistance NewCameraLocation PreviousCameraLocation OriginalCameraLocation MaxDistance =
     (if MaxDistance < 0 then NewCameraLocation
      else let MovementVector = FVector_sub NewCameraLocation OriginalCameraLocation;
               MovementVector' = GetClampedToMaxSize MovementVector MaxDistance
           in FVector_add OriginalCameraLocation MovementVector')"

text \<open>
  Function-local statics of the library.  A cached console-variable pointer is
  \<open>None\<close> before the declaration has been reached for the first time and \<open>Some p\<close>
  afterwards, where \<open>p\<close> is the pointer the lookup returned then.
\<close>

record FunctionLibraryStatics =
  IsPhotographyAvailable_CVar :: "string option option"
  IsPhotographyAllowed_CVar :: "string option option"
  SetIsPhotographyAllowed_CVar :: "string option option"
  SetSettleFrames_CVar :: "string option option"
  SetCameraMovementSpeed_CVar :: "string option option"
  SetCameraConstraintCameraSize_CVar :: "string option option"
  SetCameraConstraintDistance_CVar :: "string option option"
  SetAutoPostprocess_CVar :: "string option option"
  SetAutoPause_CVar :: "string option option"
  CVarConstrainCameraSizeLocal :: "string option option"
  LastUnconfinedScreenshotCamera :: "FVector option"

definition static_cvar :: "string option option \<Rightarrow> IConsoleManager \<Rightarrow> string \<Rightarrow> string option" where
  "static_cvar cache CM Name =
     (case cache of None \<Rightarrow> FindConsoleVariable CM Name | Some p \<Rightarrow> p)"

text \<open>
  \<open>UAnselFunctionLibrary::ConstrainCameraByGeometry\<close>.  The result is the content of
  the out-parameter \<open>OutCameraLocation\<close> when the function returns or faults, and
  either the fault or the function's statics afterwards.  \<open>World\<close> is what
  \<open>WorldContextObject->GetWorld()\<close> returns.
\<close>

definition ConstrainCameraByGeometry ::
  "IConsoleManager \<Rightarrow> FunctionLibraryStatics \<Rightarrow> UWorld option \<Rightarrow> FVector \<Rightarrow> FVector \<Rightarrow> FVector
     \<Rightarrow> FVector \<times> (fault + FunctionLibraryStatics)" where
  "ConstrainCameraByGeometry CM st World NewCameraLocation PreviousCameraLocation OriginalCameraLocation =
     (let OutCameraLocation = NewCameraLocation;
          CVar = static_cvar (CVarConstrainCameraSizeLocal st) CM ''r.Photography.Constrain.CameraSize'';
          st1 = st\<lparr>CVarConstrainCameraSizeLocal := Some CVar\<rparr>
      in case CVar of
        None \<Rightarrow> (OutCameraLocation, Inl NullPointerDereference)
      | Some p \<Rightarrow>
          let CameraRadius = GetFloat CM p in
          if CameraRadius < 0 then (OutCameraLocation, Inr st1)
          else
            let OpenSpaceRadius = 2 * CameraRadius;
                Last0 = (case LastUnconfinedScreenshotCamera st1 of
                           None \<Rightarrow> OriginalCameraLocation | Some l \<Rightarrow> l);
                Last1 = (if PreviousCameraLocation = OriginalCameraLocation
                         then OriginalCameraLocation else Last0);
                st2 = st1\<lparr>LastUnconfinedScreenshotCamera := Some Last1\<rparr>;
                SweepStart = Last1;
                SweepEnd = NewCameraLocation;
                CastDirection = FVector_sub SweepEnd SweepStart
            in
            if IsNearlyZero CastDirection then (OutCameraLocation, Inr st2)
            else case World of
              None \<Rightarrow> (OutCameraLocation, Inl NullPointerDereference)
            | Some W \<Rightarrow>
                let Out1 =
                      (if OverlapAnyTestByChannel W Last1 CameraRadius then NewCameraLocation
                       else case SweepSingleByChannel W SweepStart SweepEnd CameraRadius of
                              Some HitLocation \<Rightarrow> HitLocation
                            | None \<Rightarrow> OutCameraLocation);
                    Out2 =
                      (if DotProduct (FVector_sub Out1 PreviousCameraLocation)
                            (FVector_sub NewCameraLocation PreviousCameraLocation) \<le> 0
                       then PreviousCameraLocation else Out1);
                    OpenSpaceCheckPos = FVector_add Last1 (FVector_sub Out2 PreviousCameraLocation);
                    Last2 =
                      (if \<not> OverlapAnyTestByChannel W OpenSpaceCheckPos OpenSpaceRadius
                       then OpenSpaceCheckPos
                       else if \<not> OverlapAnyTestByChannel W Out2 OpenSpaceRadius then Out2
                       else Last1)
                in (Out2, Inr (st2\<lparr>LastUnconfinedScreenshotCamera := Some Last2\<rparr>)))"

text \<open>
  \<open>FNVAnselCameraPhotographyPrivate::DefaultConstrainCamera\<close>: first the distance
  constraint, then the geometry constraint on its result.
\<close>

definition DefaultConstrainCamera ::
  "globals \<Rightarrow> FunctionLibraryStatics \<Rightarrow> UWorld option \<Rightarrow> FVector \<Rightarrow> FVector \<Rightarrow> FVector
     \<Rightarrow> FVector \<times> (fault + FunctionLibraryStatics)" where
  "DefaultConstrainCamera g st World NewCameraLocation PreviousCameraLocation OriginalCameraLocation =
     (let MaxDistance = CVarConstrainCameraDistance g;
          ConstrainedLocation =
            ConstrainCameraByDistance NewCameraLocation PreviousCameraLocation
              OriginalCameraLocation MaxDistance
      in ConstrainCameraByGeometry (ConsoleManager g) st World ConstrainedLocation
           PreviousCameraLocation OriginalCameraLocation)"

section \<open>UAnselFunctionLibrary: the Blueprint-callable session and settings functions\<close>

text \<open>
  The state the library's functions act on: the process-global state, the provider
  registered with the engine's \<open>FCameraPhotographyManager\<close> (if any), and the library's
  function-local statics.  The manager is engine code: it reports itself supported for
  a world when it has a provider whose \<open>IsSupported\<close> holds, and forwards
  \<open>StartSession\<close>, \<open>StopSession\<close> and \<open>SetUIControlVisibility\<close> to that provider.
  \<open>GEngine\<close> tells whether the global engine pointer is set, and a world context object
  is given by the world it resolves to (if any).
\<close>

record System =
  Globals :: globals
  ActiveImpl :: "priv option"
  Statics :: FunctionLibraryStatics
  GEngine :: bool

definition GetPhotographyManager :: "System \<Rightarrow> UWorld option \<Rightarrow> bool" where
  "GetPhotographyManager sys WorldContextObject =
     (if GEngine sys
      then (case WorldContextObject of
              Some World \<Rightarrow>
                (case ActiveImpl sys of
                   Some Impl \<Rightarrow> IsSupported Impl (Globals sys)
                 | None \<Rightarrow> False)
            | None \<Rightarrow> False)
      else False)"

definition StartOrStopSession :: "bool \<Rightarrow> UWorld option \<Rightarrow> System \<Rightarrow> System" where
  "StartOrStopSession bStartSession WorldContextObject sys =
     (if GetPhotographyManager sys WorldContextObject
      then (if bStartSession then sys\<lparr>Globals := StartSession (Globals sys)\<rparr>
            else sys\<lparr>Globals := StopSession (Globals sys)\<rparr>)
      else sys)"

definition Library_StartSession :: "UWorld option \<Rightarrow> System \<Rightarrow> System" where
  "Library_StartSession WorldContextObject sys = StartOrStopSession True WorldContextObject sys"

definition Library_StopSession :: "UWorld option \<Rightarrow> System \<Rightarrow> System" where
  "Library_StopSession WorldContextObject sys = StartOrStopSession False WorldContextObject sys"

definition with_ConsoleManager :: "IConsoleManager \<Rightarrow> System \<Rightarrow> System" where
  "with_ConsoleManager CM sys = sys\<lparr>Globals := (Globals sys)\<lparr>ConsoleManager := CM\<rparr>\<rparr>"

definition IsPhotographyAvailable :: "System \<Rightarrow> bool \<times> System" where
  "IsPhotographyAvailable sys =
     (let CM = ConsoleManager (Globals sys);
          CVarPhotographyAvailable =
            static_cvar (IsPhotographyAvailable_CVar (Statics sys)) CM ''r.Photography.Available'';
          sys1 = sys\<lparr>Statics := (Statics sys)\<lparr>IsPhotographyAvailable_CVar := Some CVarPhotographyAvailable\<rparr>\<rparr>
      in (case CVarPhotographyAvailable of Some p \<Rightarrow> GetInt CM p \<noteq> 0 | None \<Rightarrow> False, sys1))"

definition IsPhotographyAllowed :: "System \<Rightarrow> bool \<times> System" where
  "IsPhotographyAllowed sys =
     (let CM = ConsoleManager (Globals sys);
          CVarPhotographyAllowed =
            static_cvar (IsPhotographyAllowed_CVar (Statics sys)) CM ''r.Photography.Allow'';
          sys1 = sys\<lparr>Statics := (Statics sys)\<lparr>IsPhotographyAllowed_CVar := Some CVarPhotographyAllowed\<rparr>\<rparr>
      in (case CVarPhotographyAllowed of Some p \<Rightarrow> GetInt CM p \<noteq> 0 | None \<Rightarrow> False, sys1))"

definition SetIsPhotographyAllowed :: "bool \<Rightarrow> System \<Rightarrow> System" where
  "SetIsPhotographyAllowed bIsPhotographyAllowed sys =
     (let CM = ConsoleManager (Globals sys);
          CVarPhotographyAllowed =
            static_cvar (SetIsPhotographyAllowed_CVar (Statics sys)) CM ''r.Photography.Allow'';
          sys1 = sys\<lparr>Statics := (Statics sys)\<lparr>SetIsPhotographyAllowed_CVar := Some CVarPhotographyAllowed\<rparr>\<rparr>
      in case CVarPhotographyAllowed of
           Some p \<Rightarrow> with_ConsoleManager (CVar_Set CM p (if bIsPhotographyAllowed then 1 else 0)) sys1
         | None \<Rightarrow> sys1)"

definition SetSettleFrames :: "int \<Rightarrow> System \<Rightarrow> System" where
  "SetSettleFrames NumSettleFrames sys =
     (let CM = ConsoleManager (Globals sys);
          CVarNumSettleFrames =
            static_cvar (SetSettleFrames_CVar (Statics sys)) CM ''r.Photography.SettleFrames'';
          sys1 = sys\<lparr>Statics := (Statics sys)\<lparr>SetSettleFrames_CVar := Some CVarNumSettleFrames\<rparr>\<rparr>
      in case CVarNumSettleFrames of
           Some p \<Rightarrow> with_ConsoleManager (CVar_Set CM p (of_int NumSettleFrames)) sys1
         | None \<Rightarrow> sys1)"

definition SetCameraMovementSpeed :: "real \<Rightarrow> System \<Rightarrow> System" where
  "SetCameraMovementSpeed TranslationSpeed sys =
     (let CM = ConsoleManager (Globals sys);
          CVarTranslationSpeed =
            static_cvar (SetCameraMovementSpeed_CVar (Statics sys)) CM ''r.Photography.TranslationSpeed'';
          sys1 = sys\<lparr>Statics := (Statics sys)\<lparr>SetCameraMovementSpeed_CVar := Some CVarTranslationSpeed\<rparr>\<rparr>
      in case CVarTranslationSpeed of
           Some p \<Rightarrow> with_ConsoleManager (CVar_Set CM p TranslationSpeed) sys1
         | None \<Rightarrow> sys1)"

definition SetCameraConstraintCameraSize :: "real \<Rightarrow> System \<Rightarrow> System" where
  "SetCameraConstraintCameraSize CameraSize sys =
     (let CM = ConsoleManager (Globals sys);
          CVarCameraSize =
            static_cvar (SetCameraConstraintCameraSize_CVar (Statics sys)) CM
              ''r.Photography.Constrain.CameraSize'';
          sys1 = sys\<lparr>Statics := (Statics sys)\<lparr>SetCameraConstraintCameraSize_CVar := Some CVarCameraSize\<rparr>\<rparr>
      in case CVarCameraSize of
           Some p \<Rightarrow> with_ConsoleManager (CVar_Set CM p CameraSize) sys1
         | None \<Rightarrow> sys1)"

definition SetCameraConstraintDistance :: "real \<Rightarrow> System \<Rightarrow> System" where
  "SetCameraConstraintDistance MaxCameraDistance sys =
     (let CM = ConsoleManager (Globals sys);
          CVarCameraDistance =
            static_cvar (SetCameraConstraintDistance_CVar (Statics sys)) CM
              ''r.Photography.Constrain.MaxCameraDistance'';
          sys1 = sys\<lparr>Statics := (Statics sys)\<lparr>SetCameraConstraintDistance_CVar := Some CVarCameraDistance\<rparr>\<rparr>
      in case CVarCameraDistance of
           Some p \<Rightarrow> with_ConsoleManager (CVar_Set CM p MaxCameraDistance) sys1
         | None \<Rightarrow> sys1)"

definition SetAutoPostprocess :: "bool \<Rightarrow> System \<Rightarrow> System" where
  "SetAutoPostprocess bShouldAutoPostprocess sys =
     (let CM = ConsoleManager (Globals sys);
          CVarAutoPostprocess =
            static_cvar (SetAutoPostprocess_CVar (Statics sys)) CM ''r.Photography.AutoPostprocess'';
          sys1 = sys\<lparr>Statics := (Statics sys)\<lparr>SetAutoPostprocess_CVar := Some CVarAutoPostprocess\<rparr>\<rparr>
      in case CVarAutoPostprocess of
           Some p \<Rightarrow> with_ConsoleManager (CVar_Set CM p (if bShouldAutoPostprocess then 1 else 0)) sys1
         | None \<Rightarrow> sys1)"

definition SetAutoPause :: "bool \<Rightarrow> System \<Rightarrow> System" where
  "SetAutoPause bShouldAutoPause sys =
     (let CM = ConsoleManager (Globals sys);
          CVarAutoPause =
            static_cvar (SetAutoPause_CVar (Statics sys)) CM ''r.Photography.AutoPause'';
          sys1 = sys\<lparr>Statics := (Statics sys)\<lparr>SetAutoPause_CVar := Some CVarAutoPause\<rparr>\<rparr>
      in case CVarAutoPause of
           Some p \<Rightarrow> with_ConsoleManager (CVar_Set CM p (if bShouldAutoPause then 1 else 0)) sys1
         | None \<Rightarrow> sys1)"

definition Library_SetUIControlVisibility :: "UWorld option \<Rightarrow> 8 word \<Rightarrow> bool \<Rightarrow> System \<Rightarrow> System" where
  "Library_SetUIControlVisibility WorldContextObject UIControlTarget bIsVisible sys =
     (if GetPhotographyManager sys WorldContextObject
      then sys\<lparr>ActiveImpl := map_option (SetUIControlVisibility UIControlTarget bIsVisible) (ActiveImpl sys)\<rparr>
      else sys)"

section \<open>Notions used to state the properties\<close>

text \<open>
  The open-space origin that \<open>ConstrainCameraByGeometry\<close> sweeps from: the value of its
  static \<open>LastUnconfinedScreenshotCamera\<close> after the initialisation and the reset at
  the top of the function.
\<close>

definition TrackedOpenSpaceOrigin :: "FunctionLibraryStatics \<Rightarrow> FVector \<Rightarrow> FVector \<Rightarrow> FVector" where
  "TrackedOpenSpaceOrigin st PreviousCameraLocation OriginalCameraLocation =
     (if PreviousCameraLocation = OriginalCameraLocation then OriginalCameraLocation
      else case LastUnconfinedScreenshotCamera st of
             None \<Rightarrow> OriginalCameraLocation | Some l \<Rightarrow> l)"

text \<open>Concrete inputs for the worked examples.\<close>

definition fresh_statics :: FunctionLibraryStatics where
  "fresh_statics =
     \<lparr>IsPhotographyAvailable_CVar = None, IsPhotographyAllowed_CVar = None,
      SetIsPhotographyAllowed_CVar = None, SetSettleFrames_CVar = None,
      SetCameraMovementSpeed_CVar = None, SetCameraConstraintCameraSize_CVar = None,
      SetCameraConstraintDistance_CVar = None, SetAutoPostprocess_CVar = None,
      SetAutoPause_CVar = None, CVarConstrainCameraSizeLocal = None,
      LastUnconfinedScreenshotCamera = None\<rparr>"

definition console_with :: "string list \<Rightarrow> real \<Rightarrow> IConsoleManager" where
  "console_with names v =
     \<lparr>Registered = set (map cvar_key names), Objects = (\<lambda>k. \<lparr>cv_value = v, cv_setby = 0\<rparr>)\<rparr>"

definition open_world :: UWorld where
  "open_world = \<lparr>OverlapAnyTestByChannel = (\<lambda>p r. False), SweepSingleByChannel = (\<lambda>a b r. None)\<rparr>"

definition solid_world :: UWorld where
  "solid_world = \<lparr>OverlapAnyTestByChannel = (\<lambda>p r. True), SweepSingleByChannel = (\<lambda>a b r. Some a)\<rparr>"

text \<open>The provider and global state after a call of \<open>UpdateCamera\<close>.\<close>

definition UpdateCamera_state :: "FMinimalViewInfo \<Rightarrow> priv \<times> globals \<Rightarrow> priv \<times> globals" where
  "UpdateCamera_state InOutPOV sg = snd (snd (UpdateCamera InOutPOV sg))"

text \<open>The game viewport exists and is in a split-screen configuration.\<close>

definition SplitscreenActive :: "globals \<Rightarrow> bool" where
  "SplitscreenActive g \<longleftrightarrow>
     (case SplitscreenConfiguration g of Some config \<Rightarrow> config \<noteq> SplitScreen_None | None \<Rightarrow> False)"

text \<open>More concrete inputs for the worked examples.\<close>

definition zero_memory :: priv where
  "zero_memory =
     \<lparr>AnselConfig = None, bAnselSessionActive = False, bAnselSessionNewlyActive = False,
      bAnselSessionWantDeactivate = False, bAnselCaptureActive = False,
      bAnselCaptureNewlyActive = False, bAnselCaptureNewlyFinished = False,
      AnselCaptureInfo = kCaptureType360Mono, bForceDisallow = False, bIsOrthoProjection = False,
      bWasMovableCameraBeforeSession = False, bWasPausedBeforeSession = False,
      bWasShowingHUDBeforeSession = False, bWereSubtitlesEnabledBeforeSession = False,
      bWasFadingEnabledBeforeSession = False, bWasScreenMessagesEnabledBeforeSession = False,
      fTimeDilationBeforeSession = 0, bAutoPostprocess = False, bAutoPause = False,
      bRayTracingEnabled = False, bPausedInternally = False,
      bHighQualityModeDesired = False, bHighQualityModeIsSetup = False,
      bHighLodDesired = False, bHighLodIsSetup = False,
      bHighLumenDesired = False, bHighLumenIsSetup = False,
      bHighSkyLightDesired = False, bHighSkyLightIsSetup = False,
      bHighAntiAliasingDesired = False, bHighAntiAliasingIsSetup = False,
      bHighSgQualityDesired = False, bHighSgQualityIsSetup = False,
      RequiredFovType = kHorizontalFov, CurrentlyConfiguredFovType = kHorizontalFov,
      RequiredWorldToMeters = 0, CurrentlyConfiguredWorldToMeters = 0,
      NumFramesSinceSessionStart = 0, bEffectUIAllowed = (\<lambda>i. False),
      bUIControlsNeedRebuild = False, UIControls = (\<lambda>c. 0),
      UIControlValues_float = (\<lambda>c. 0), UIControlValues_bool = (\<lambda>c. False),
      UIControlRangeLower = (\<lambda>c. 0), UIControlRangeUpper = (\<lambda>c. 0),
      UEPostProcessingOriginal = \<lparr>Setting = (\<lambda>f. 0), bOverride = (\<lambda>f. False)\<rparr>,
      InitialCVarMap = []\<rparr>"

definition example_cvars :: "(string \<times> real) list" where
  "example_cvars =
     [(''r.photography.allow'', 1), (''r.photography.enablemultipart'', 1),
      (''r.photography.settleframes'', 10), (''r.photography.translationspeed'', 300),
      (''r.photography.constrain.camerasize'', 14),
      (''r.photography.constrain.maxcameradistance'', 2500),
      (''r.photography.autopostprocess'', 1), (''r.photography.autopause'', 1),
      (''r.photography.allowhighquality'', 1), (''r.photography.extreme'', 0),
      (''r.oneframethreadlag'', 0), (''r.motionblurquality'', 4)]"

definition example_console :: IConsoleManager where
  "example_console =
     \<lparr>Registered = set (map fst example_cvars),
      Objects = (\<lambda>k. \<lparr>cv_value = (case map_of example_cvars k of Some v \<Rightarrow> v | None \<Rightarrow> 0),
                       cv_setby = 0\<rparr>)\<rparr>"

definition example_configuration :: ansel_Configuration where
  "example_configuration =
     \<lparr>userPointer = False, startSessionCallback = False, stopSessionCallback = False,
      startCaptureCallback = False, stopCaptureCallback = False, changeQualityCallback = False,
      fovType = kHorizontalFov, gameWindowHandle = None,
      translationalSpeedInWorldUnitsPerSecond = 1, metersInWorldUnit = 1,
      isCameraOffcenteredProjectionSupported = True, captureLatency = 1,
      captureSettleLatency = 0\<rparr>"

definition example_globals :: globals where
  "example_globals =
     \<lparr>ConsoleManager = example_console, ConsoleVariableSinks = 0, bPaused = False,
      TimeDilation = 1, bIsCameraMoveableWhenPaused = False, GAreScreenMessagesEnabled = True,
      MyHUD = Some True, bSubtitlesEnabled = True, bEnableFading = True, Cursor = Some False,
      GIsEditor = False, SplitscreenConfiguration = Some SplitScreen_None,
      bIsStereoscopic3D = False, bIsRayTracingEnabled = False, WorldToMeters = Some 100,
      LocalPlayerViewport =
        Some \<lparr>SizeX = 1920, SizeY = 1080, AspectRatioAxisConstraint = AspectRatio_MaintainYFOV\<rparr>,
      GameWindowHandle = Some 1, AnselSDKDLLHandle = 1, bAnselDLLLoaded = True,
      isAnselAvailable = True, AnselDefaultConfiguration = example_configuration,
      AnselCalls = [], PhotographyEvents = [], LogAnsel = []\<rparr>"

definition example_settings :: SessionConfiguration where
  "example_settings =
     \<lparr>isTranslationAllowed = False, isFovChangeAllowed = False, isRotationAllowed = False,
      isPauseAllowed = False, isHighresAllowed = False, is360MonoAllowed = False,
      is360StereoAllowed = False\<rparr>"

definition example_pov :: FMinimalViewInfo where
  "example_pov = \<lparr>ProjectionMode = Perspective, bConstrainAspectRatio = True\<rparr>"


definition splitscreen_globals :: globals where
  "splitscreen_globals = example_globals\<lparr>SplitscreenConfiguration := Some (SplitScreen_Other 1)\<rparr>"

text \<open>
  Functions that only capture and set console variables change nothing but
  \<open>InitialCVarMap\<close>, the console manager and the log.  \<open>blank_cvar\<close> erases these three
  components; \<open>map_after\<close>, \<open>console_after\<close> and \<open>log_after\<close> name their values after a
  call.
\<close>

definition blank_cvar :: "priv \<times> globals \<Rightarrow> priv \<times> globals" where
  "blank_cvar sg =
     ((fst sg)\<lparr>InitialCVarMap := []\<rparr>,
      (snd sg)\<lparr>ConsoleManager := console_with [] 0, LogAnsel := []\<rparr>)"

definition cvar_only :: "(priv \<times> globals \<Rightarrow> priv \<times> globals) \<Rightarrow> bool" where
  "cvar_only F \<longleftrightarrow> (\<forall>sg. blank_cvar (F sg) = blank_cvar sg)"

definition map_after :: "(priv \<times> globals \<Rightarrow> priv \<times> globals) \<Rightarrow> priv \<times> globals \<Rightarrow> (string \<times> CVarInfo) list" where
  "map_after F sg = InitialCVarMap (fst (F sg))"

definition console_after :: "(priv \<times> globals \<Rightarrow> priv \<times> globals) \<Rightarrow> priv \<times> globals \<Rightarrow> IConsoleManager" where
  "console_after F sg = ConsoleManager (snd (F sg))"

definition log_after :: "(priv \<times> globals \<Rightarrow> priv \<times> globals) \<Rightarrow> priv \<times> globals \<Rightarrow> string list" where
  "log_after F sg = LogAnsel (snd (F sg))"

text \<open>
  The state after the part of \<open>UpdateCamera\<close> that every frame of an active session
  runs first: \<open>bForceDisallow\<close> reset, the frame counter incremented, and the
  notifications for a capture that has just started or finished.
\<close>

definition SessionFramePrelude :: "priv \<times> globals \<Rightarrow> priv \<times> globals" where
  "SessionFramePrelude sg =
     ((fst sg)\<lparr>bForceDisallow := False,
               NumFramesSinceSessionStart := NumFramesSinceSessionStart (fst sg) + 1,
               bAnselCaptureNewlyActive := False, bAnselCaptureNewlyFinished := False\<rparr>,
      (snd sg)\<lparr>PhotographyEvents :=
                 PhotographyEvents (snd sg)
                 @ (if bAnselCaptureNewlyActive (fst sg) then [OnPhotographyMultiPartCaptureStart] else [])
                 @ (if bAnselCaptureNewlyFinished (fst sg) then [OnPhotographyMultiPartCaptureEnd] else [])\<rparr>)"

text \<open>A provider with a newly active session, one about to deactivate, and a paused game.\<close>

definition newly_active_memory :: priv where
  "newly_active_memory = zero_memory\<lparr>bAnselSessionActive := True, bAnselSessionNewlyActive := True\<rparr>"

definition ending_memory :: priv where
  "ending_memory =
     zero_memory\<lparr>bAnselSessionActive := True, bAnselSessionWantDeactivate := True,
                 bAutoPause := True, fTimeDilationBeforeSession := 1\<rparr>"

definition paused_globals :: globals where
  "paused_globals = example_globals\<lparr>bPaused := True, TimeDilation := 0\<rparr>"

text \<open>
  \<open>UpdatePostProcessing\<close> changes more: also the overlay's controls, the saved
  post-process settings and the quality switches of the provider, and the record of
  SDK calls.  \<open>blank_pp\<close> erases everything it may change.
\<close>

definition blank_pp :: "priv \<times> globals \<Rightarrow> priv \<times> globals" where
  "blank_pp sg =
     ((fst sg)\<lparr>InitialCVarMap := [], UIControls := (\<lambda>c. 0), UIControlValues_float := (\<lambda>c. 0),
               UIControlValues_bool := (\<lambda>c. False), UIControlRangeLower := (\<lambda>c. 0),
               UIControlRangeUpper := (\<lambda>c. 0),
               UEPostProcessingOriginal := \<lparr>Setting = (\<lambda>f. 0), bOverride = (\<lambda>f. False)\<rparr>,
               bUIControlsNeedRebuild := False,
               bHighQualityModeIsSetup := False,
               bHighLodDesired := False, bHighLodIsSetup := False,
               bHighLumenDesired := False, bHighLumenIsSetup := False,
               bHighSkyLightDesired := False, bHighSkyLightIsSetup := False,
               bHighAntiAliasingDesired := False, bHighAntiAliasingIsSetup := False,
               bHighSgQualityDesired := False, bHighSgQualityIsSetup := False\<rparr>,
      (snd sg)\<lparr>ConsoleManager := console_with [] 0, LogAnsel := [], AnselCalls := []\<rparr>)"

definition pp_only :: "(priv \<times> globals \<Rightarrow> priv \<times> globals) \<Rightarrow> bool" where
  "pp_only F \<longleftrightarrow> (\<forall>sg. blank_pp (F sg) = blank_pp sg)"

text \<open>
  The entry points through which the engine and the SDK drive the provider, as
  events: the five SDK callbacks, the two per-frame engine calls, and the overlay's
  control callbacks.  A run applies them in order.
\<close>

datatype event =
    StartSessionEvent SessionConfiguration
  | StopSessionEvent
  | FrameEvent FMinimalViewInfo
  | PostProcessEvent FPostProcessSettings
  | StartCaptureEvent CaptureType
  | StopCaptureEvent
  | ChangeQualityEvent bool
  | SliderEvent econtrols real
  | BoolEvent econtrols bool

fun step :: "event \<Rightarrow> priv \<times> globals \<Rightarrow> priv \<times> globals" where
  "step (StartSessionEvent settings) sg = snd (snd (AnselStartSessionCallback settings (fst sg) (snd sg)))"
| "step StopSessionEvent sg = AnselStopSessionCallback (fst sg) (snd sg)"
| "step (FrameEvent pov) sg = UpdateCamera_state pov sg"
| "step (PostProcessEvent pp) sg = snd (UpdatePostProcessing pp sg)"
| "step (StartCaptureEvent info) sg = AnselStartCaptureCallback info (fst sg) (snd sg)"
| "step StopCaptureEvent sg = AnselStopCaptureCallback (fst sg) (snd sg)"
| "step (ChangeQualityEvent b) sg = AnselChangeQualityCallback b (fst sg) (snd sg)"
| "step (SliderEvent c v) sg = (SliderCallback c v (fst sg), snd sg)"
| "step (BoolEvent c v) sg = (BoolCallback c v (fst sg), snd sg)"

definition run :: "event list \<Rightarrow> priv \<times> globals \<Rightarrow> priv \<times> globals" where
  "run es sg = fold step es sg"

text \<open>
  Which of the two session paths a frame executes, decided by the flags at its start,
  and the sequence of paths executed along a run.  The paths are \<open>paired\<close> when they
  alternate, start first: every restore follows a start with no restore in between,
  and no start follows a start without a restore in between.
\<close>

datatype session_path = StartPath | RestorePath

definition frame_path :: "priv \<Rightarrow> session_path option" where
  "frame_path s =
     (if bAnselSessionActive s
      then (if bAnselSessionWantDeactivate s then Some RestorePath
            else if bAnselSessionNewlyActive s then Some StartPath else None)
      else None)"

fun paths :: "event list \<Rightarrow> priv \<times> globals \<Rightarrow> session_path list" where
  "paths [] sg = []"
| "paths (FrameEvent pov # es) sg =
     (case frame_path (fst sg) of Some p \<Rightarrow> [p] | None \<Rightarrow> []) @ paths es (step (FrameEvent pov) sg)"
| "paths (e # es) sg = paths es (step e sg)"

fun paired :: "bool \<Rightarrow> session_path list \<Rightarrow> bool" where
  "paired started [] = True"
| "paired started (StartPath # ps) = (\<not> started \<and> paired True ps)"
| "paired started (RestorePath # ps) = (started \<and> paired False ps)"

text \<open>
  A run in which the start callback arrives only while the provider's session is
  inactive and the stop callback only while it is active.
\<close>

fun well_sequenced :: "event list \<Rightarrow> priv \<times> globals \<Rightarrow> bool" where
  "well_sequenced [] sg = True"
| "well_sequenced (StartSessionEvent settings # es) sg =
     (\<not> bAnselSessionActive (fst sg) \<and> well_sequenced es (step (StartSessionEvent settings) sg))"
| "well_sequenced (StopSessionEvent # es) sg =
     (bAnselSessionActive (fst sg) \<and> well_sequenced es (step StopSessionEvent sg))"
| "well_sequenced (e # es) sg = well_sequenced es (step e sg)"

definition session_flags :: "priv \<times> globals \<Rightarrow> bool \<times> bool \<times> bool" where
  "session_flags sg =
     (bAnselSessionActive (fst sg), bAnselSessionNewlyActive (fst sg),
      bAnselSessionWantDeactivate (fst sg))"

definition pairing_inv :: "bool \<Rightarrow> priv \<times> globals \<Rightarrow> bool" where
  "pairing_inv started sg \<longleftrightarrow>
     (case session_flags sg of (A, N, W) \<Rightarrow> (\<not> W \<or> (A \<and> \<not> N)) \<and> (started = (A \<and> \<not> N)))"

definition restart_trace :: "event list" where
  "restart_trace =
     [StartSessionEvent example_settings, FrameEvent example_pov, StopSessionEvent,
      StartSessionEvent example_settings, FrameEvent example_pov, StopSessionEvent,
      StartSessionEvent example_settings, FrameEvent example_pov]"

definition session_trace :: "event list" where
  "session_trace =
     [StartSessionEvent example_settings, FrameEvent example_pov, FrameEvent example_pov,
      StopSessionEvent, FrameEvent example_pov]"

text \<open>
  The flags that decide the capture overrides of \<open>ConfigureRenderingSettingsForPhotography\<close>,
  and the two groups of settings they zero: the depth-of-field blur parameters and the
  effects that are a problem for multi-part captures.
\<close>

definition capture_flags :: "priv \<times> globals \<Rightarrow> bool \<times> bool \<times> CaptureType" where
  "capture_flags sg = (bAnselCaptureActive (fst sg), bAutoPostprocess (fst sg), AnselCaptureInfo (fst sg))"

definition DofBlurSettings :: "pp_field set" where
  "DofBlurSettings =
     {DepthOfFieldScale, DepthOfFieldNearBlurSize, DepthOfFieldFarBlurSize, DepthOfFieldDepthBlurRadius}"

definition ProblematicEffects :: "pp_field set" where
  "ProblematicEffects =
     {MotionBlurAmount, BloomDirtMaskIntensity, LensFlareIntensity, VignetteIntensity,
      SceneFringeIntensity}"

text \<open>
  Two captures on a frame that rebuilds the UI controls, with every incoming setting at 50
  and no override: a stereo capture and a super-resolution capture.
\<close>

definition stereo_capture_memory :: priv where
  "stereo_capture_memory =
     zero_memory\<lparr>bAnselSessionActive := True, bAnselCaptureActive := True, bAutoPostprocess := True,
                 AnselCaptureInfo := kCaptureTypeStereo, bUIControlsNeedRebuild := True\<rparr>"

definition superres_capture_memory :: priv where
  "superres_capture_memory =
     zero_memory\<lparr>bAnselSessionActive := True, bAnselCaptureActive := True, bAutoPostprocess := True,
                 AnselCaptureInfo := kCaptureTypeSuperResolution, bUIControlsNeedRebuild := True\<rparr>"

definition example_postprocess :: FPostProcessSettings where
  "example_postprocess = \<lparr>Setting = (\<lambda>f. 50), bOverride = (\<lambda>f. False)\<rparr>"

text \<open>
  A cached console-variable pointer of the library that belongs to the variable \<open>Name\<close>:
  not yet initialised, null, or pointing to the object of that variable.
\<close>

definition cache_of :: "string \<Rightarrow> string option option \<Rightarrow> bool" where
  "cache_of Name c \<longleftrightarrow> c = None \<or> c = Some None \<or> c = Some (Some (cvar_key Name))"

definition statics_cached :: "FunctionLibraryStatics \<Rightarrow> bool" where
  "statics_cached st \<longleftrightarrow>
     cache_of ''r.Photography.Available'' (IsPhotographyAvailable_CVar st)
     \<and> cache_of ''r.Photography.Allow'' (IsPhotographyAllowed_CVar st)
     \<and> cache_of ''r.Photography.Allow'' (SetIsPhotographyAllowed_CVar st)
     \<and> cache_of ''r.Photography.SettleFrames'' (SetSettleFrames_CVar st)
     \<and> cache_of ''r.Photography.TranslationSpeed'' (SetCameraMovementSpeed_CVar st)
     \<and> cache_of ''r.Photography.Constrain.CameraSize'' (SetCameraConstraintCameraSize_CVar st)
     \<and> cache_of ''r.Photography.Constrain.MaxCameraDistance'' (SetCameraConstraintDistance_CVar st)
     \<and> cache_of ''r.Photography.AutoPostprocess'' (SetAutoPostprocess_CVar st)
     \<and> cache_of ''r.Photography.AutoPause'' (SetAutoPause_CVar st)
     \<and> cache_of ''r.Photography.Constrain.CameraSize'' (CVarConstrainCameraSizeLocal st)"

text \<open>
  A call that took the system from \<open>sys\<close> to \<open>sys'\<close> did nothing beyond reading or
  writing the console variable \<open>Name\<close>: the provider, the engine pointer and the tracked
  open-space origin are the same, the pointer caches still belong to their variables,
  the global state is the same apart from the console manager, the same variables are
  registered, and every variable object other than the one of \<open>Name\<close> is unchanged.
\<close>

definition touches_only_cvar :: "string \<Rightarrow> System \<Rightarrow> System \<Rightarrow> bool" where
  "touches_only_cvar Name sys sys' \<longleftrightarrow>
     ActiveImpl sys' = ActiveImpl sys \<and> GEngine sys' = GEngine sys
     \<and> LastUnconfinedScreenshotCamera (Statics sys') = LastUnconfinedScreenshotCamera (Statics sys)
     \<and> statics_cached (Statics sys')
     \<and> (Globals sys')\<lparr>ConsoleManager := ConsoleManager (Globals sys)\<rparr> = Globals sys
     \<and> Registered (ConsoleManager (Globals sys')) = Registered (ConsoleManager (Globals sys))
     \<and> (\<forall>k. k \<noteq> cvar_key Name \<longrightarrow>
            Objects (ConsoleManager (Globals sys')) k = Objects (ConsoleManager (Globals sys)) k)"

text \<open>More concrete inputs: a system with a supported provider, and a world with a wall.\<close>

definition example_system :: System where
  "example_system =
     \<lparr>Globals = example_globals, ActiveImpl = Some zero_memory, Statics = fresh_statics,
      GEngine = True\<rparr>"

definition walled_world :: UWorld where
  "walled_world =
     \<lparr>OverlapAnyTestByChannel = (\<lambda>p r. False),
      SweepSingleByChannel = (\<lambda>a b r. Some \<lparr>X = 50, Y = 0, Z = 0\<rparr>)\<rparr>"

text \<open>
  The part of the state that capturing and setting console variables works on, and
  what it means for \<open>InitialCVarMap\<close> to track the values the console manager \<open>CM0\<close>
  held: every entry points to the variable of its key and holds that variable's value
  in \<open>CM0\<close>, and every variable without an entry still has its value of \<open>CM0\<close>.
\<close>

definition cvar_view :: "priv \<times> globals \<Rightarrow> (string \<times> CVarInfo) list \<times> IConsoleManager" where
  "cvar_view sg = (InitialCVarMap (fst sg), ConsoleManager (snd sg))"

definition tracked :: "IConsoleManager \<Rightarrow> priv \<times> globals \<Rightarrow> bool" where
  "tracked CM0 sg \<longleftrightarrow>
     (\<forall>(k, i) \<in> set (InitialCVarMap (fst sg)).
        cvar i = Some k \<and> fInitialVal i = cv_value (Objects CM0 k))
     \<and> (\<forall>k. k \<notin> fst ` set (InitialCVarMap (fst sg)) \<longrightarrow>
            cv_value (Objects (ConsoleManager (snd sg)) k) = cv_value (Objects CM0 k))"

definition tracks :: "(priv \<times> globals \<Rightarrow> priv \<times> globals) \<Rightarrow> bool" where
  "tracks F \<longleftrightarrow> (\<forall>CM0 sg. tracked CM0 sg \<longrightarrow> tracked CM0 (F sg))"

text \<open>
  The engine state a session saves at its start: pause state, time dilation, the
  camera-movable-when-paused flag, the screen-messages flag, HUD visibility, subtitles
  and fading.  \<open>cvar_values\<close> are the values of all console variables.
\<close>

definition engine_state :: "globals \<Rightarrow> bool \<times> real \<times> bool \<times> bool \<times> bool option \<times> bool \<times> bool" where
  "engine_state g =
     (bPaused g, TimeDilation g, bIsCameraMoveableWhenPaused g, GAreScreenMessagesEnabled g,
      MyHUD g, bSubtitlesEnabled g, bEnableFading g)"

definition cvar_values :: "globals \<Rightarrow> string \<Rightarrow> real" where
  "cvar_values g k = cv_value (Objects (ConsoleManager g) k)"

text \<open>
  What the provider has saved of the pre-session state \<open>g0\<close> once the start frame has
  run, and how the current engine state relates to \<open>g0\<close> where the session changed it.
\<close>

definition saved_state :: "globals \<Rightarrow> priv \<times> globals \<Rightarrow> bool" where
  "saved_state g0 sg \<longleftrightarrow>
     bWasPausedBeforeSession (fst sg) = bPaused g0
     \<and> bWasMovableCameraBeforeSession (fst sg) = bIsCameraMoveableWhenPaused g0
     \<and> bWasScreenMessagesEnabledBeforeSession (fst sg) = GAreScreenMessagesEnabled g0
     \<and> (if bAutoPause (fst sg) \<and> \<not> bPaused g0
        then fTimeDilationBeforeSession (fst sg) = TimeDilation g0
        else TimeDilation (snd sg) = TimeDilation g0 \<and> bPaused (snd sg) = bPaused g0)
     \<and> (if bAutoPostprocess (fst sg)
        then bWasShowingHUDBeforeSession (fst sg) = (MyHUD g0 = Some True)
             \<and> bWereSubtitlesEnabledBeforeSession (fst sg) = bSubtitlesEnabled g0
             \<and> bWasFadingEnabledBeforeSession (fst sg) = bEnableFading g0
             \<and> MyHUD (snd sg) = (if MyHUD g0 = Some True then Some False else MyHUD g0)
             \<and> \<not> bSubtitlesEnabled (snd sg) \<and> \<not> bEnableFading (snd sg)
        else MyHUD (snd sg) = MyHUD g0 \<and> bSubtitlesEnabled (snd sg) = bSubtitlesEnabled g0
             \<and> bEnableFading (snd sg) = bEnableFading g0)"

definition saved_view ::
  "priv \<times> globals \<Rightarrow>
     (bool \<times> bool \<times> bool \<times> bool \<times> bool \<times> real \<times> bool \<times> bool \<times> bool)
     \<times> (bool \<times> real \<times> bool \<times> bool \<times> bool option \<times> bool \<times> bool)" where
  "saved_view sg =
     ((bAutoPause (fst sg), bAutoPostprocess (fst sg), bWasPausedBeforeSession (fst sg),
       bWasMovableCameraBeforeSession (fst sg), bWasScreenMessagesEnabledBeforeSession (fst sg),
       fTimeDilationBeforeSession (fst sg), bWasShowingHUDBeforeSession (fst sg),
       bWereSubtitlesEnabledBeforeSession (fst sg), bWasFadingEnabledBeforeSession (fst sg)),
      engine_state (snd sg))"

text \<open>
  The invariant of a session that started from the global state \<open>g0\<close>: the session is
  active and the captured variables track the console manager of \<open>g0\<close>; until the start
  frame has run the engine state is that of \<open>g0\<close> and no deactivation is pending, and
  afterwards the pre-session state is saved.
\<close>

definition session_inv :: "globals \<Rightarrow> priv \<times> globals \<Rightarrow> bool" where
  "session_inv g0 sg \<longleftrightarrow>
     bAnselSessionActive (fst sg) \<and> tracked (ConsoleManager g0) sg
     \<and> (if bAnselSessionNewlyActive (fst sg)
        then \<not> bAnselSessionWantDeactivate (fst sg) \<and> engine_state (snd sg) = engine_state g0
        else saved_state g0 sg)"

text \<open>
  The events of one session after its start callback: any events before the start
  frame except session callbacks and frames, the start frame, any events except session
  callbacks, the stop callback, any events except session callbacks and frames, and the
  frame that deactivates the session.  \<open>one_session\<close> is a start callback that allows
  the session, followed by such events.
\<close>

datatype session_phase = Starting | Running | Stopping

fun session_events :: "session_phase \<Rightarrow> event list \<Rightarrow> bool" where
  "session_events ph [] = False"
| "session_events ph (StartSessionEvent settings # es) = False"
| "session_events ph (StopSessionEvent # es) = (ph = Running \<and> session_events Stopping es)"
| "session_events ph (FrameEvent pov # es) =
     (if ph = Stopping then es = [] else session_events Running es)"
| "session_events ph (e # es) = session_events ph es"

fun phase_flags :: "session_phase \<Rightarrow> bool \<times> bool \<times> bool" where
  "phase_flags Starting = (True, True, False)"
| "phase_flags Running = (True, False, False)"
| "phase_flags Stopping = (True, False, True)"

definition one_session :: "event list \<Rightarrow> priv \<times> globals \<Rightarrow> bool" where
  "one_session es sg \<longleftrightarrow>
     (case es of
        StartSessionEvent settings # es' \<Rightarrow>
          fst (AnselStartSessionCallback settings (fst sg) (snd sg)) = kAllowed
          \<and> session_events Starting es'
      | _ \<Rightarrow> False)"

text \<open>The state \<open>sg\<close> after a session has the saved engine state and console-variable values of \<open>g0\<close>.\<close>

definition restored :: "globals \<Rightarrow> priv \<times> globals \<Rightarrow> bool" where
  "restored g0 sg \<longleftrightarrow>
     \<not> bAnselSessionActive (fst sg) \<and> InitialCVarMap (fst sg) = []
     \<and> engine_state (snd sg) = engine_state g0
     \<and> (\<forall>k. cvar_values (snd sg) k = cvar_values g0 k)"

text \<open>A session with post-processing updates, a quality change and a capture.\<close>

definition photo_session_trace :: "event list" where
  "photo_session_trace =
     [StartSessionEvent example_settings, PostProcessEvent example_postprocess,
      FrameEvent example_pov, PostProcessEvent example_postprocess,
      FrameEvent example_pov, ChangeQualityEvent True, SliderEvent control_bloomscale 1,
      FrameEvent example_pov, PostProcessEvent example_postprocess,
      StartCaptureEvent kCaptureTypeSuperResolution, FrameEvent example_pov,
      PostProcessEvent example_postprocess, StopCaptureEvent, BoolEvent control_sgQuality True,
      FrameEvent example_pov, PostProcessEvent example_postprocess,
      StopSessionEvent, PostProcessEvent example_postprocess, FrameEvent example_pov]"

section \<open>Properties\<close>

subsection \<open>Vector clamping\<close>

lemma FVector_sub_add_cancel: "FVector_sub (FVector_add a b) a = b"
  by (simp add: FVector_sub_def FVector_add_def)

lemma SizeSquared_nonneg: "0 \<le> SizeSquared v"
  by (simp add: SizeSquared_def)

lemma SizeSquared_scale:
  "SizeSquared \<lparr>X = X v * c, Y = Y v * c, Z = Z v * c\<rparr> = c * c * SizeSquared v"
  by (simp add: SizeSquared_def algebra_simps)

lemma Size_GetClampedToMaxSize:
  assumes "0 \<le> MaxSize"
  shows "Size (GetClampedToMaxSize v MaxSize) \<le> MaxSize"
proof (cases "MaxSize < UE_KINDA_SMALL_NUMBER")
  case True
  then show ?thesis
    using assms by (simp add: GetClampedToMaxSize_def ZeroVector_def Size_def SizeSquared_def)
next
  case small: False
  show ?thesis
  proof (cases "SizeSquared v > MaxSize * MaxSize")
    case True
    have pos: "0 < SizeSquared v"
      using True mult_nonneg_nonneg [OF assms assms] by linarith
    define r where "r = sqrt (SizeSquared v)"
    have rpos: "0 < r" using pos by (simp add: r_def)
    have rr: "r * r = SizeSquared v" using pos by (simp add: r_def)
    have g: "GetClampedToMaxSize v MaxSize
            = \<lparr>X = X v * (MaxSize * (1 / r)), Y = Y v * (MaxSize * (1 / r)),
               Z = Z v * (MaxSize * (1 / r))\<rparr>"
      using small True by (simp add: GetClampedToMaxSize_def Let_def r_def)
    have "SizeSquared (GetClampedToMaxSize v MaxSize)
            = (MaxSize * (1 / r)) * (MaxSize * (1 / r)) * SizeSquared v"
      by (simp only: g SizeSquared_scale)
    also have "\<dots> = MaxSize * MaxSize * ((r * r) / (r * r))"
      by (simp add: rr)
    also have "\<dots> = MaxSize * MaxSize"
      using rpos by simp
    finally have "Size (GetClampedToMaxSize v MaxSize) = sqrt (MaxSize * MaxSize)"
      by (simp add: Size_def)
    then show ?thesis using assms by simp
  next
    case False
    then have "SizeSquared v \<le> MaxSize * MaxSize" by simp
    then have "sqrt (SizeSquared v) \<le> sqrt (MaxSize * MaxSize)"
      by (simp only: real_sqrt_le_iff)
    then show ?thesis
      using small False assms by (simp add: GetClampedToMaxSize_def Let_def Size_def)
  qed
qed

text \<open>
  Claim C6.  \<open>ConstrainCameraByDistance\<close> is vector clamping: with a negative
  \<open>MaxDistance\<close> the output is the proposed location unchanged; otherwise it is the
  original location plus the movement vector clamped to length \<open>MaxDistance\<close>, so the
  output is never farther than \<open>MaxDistance\<close> from the original location; and the
  previous camera location has no effect on the result.
\<close>

theorem ConstrainCameraByDistance_clamps:
  "(MaxDistance < 0 \<longrightarrow>
      ConstrainCameraByDistance New Prev Orig MaxDistance = New)
   \<and> (0 \<le> MaxDistance \<longrightarrow>
      ConstrainCameraByDistance New Prev Orig MaxDistance
        = FVector_add Orig (GetClampedToMaxSize (FVector_sub New Orig) MaxDistance)
      \<and> Size (FVector_sub (ConstrainCameraByDistance New Prev Orig MaxDistance) Orig) \<le> MaxDistance)
   \<and> ConstrainCameraByDistance New Prev Orig MaxDistance
        = ConstrainCameraByDistance New Prev' Orig MaxDistance"
proof (intro conjI impI)
  assume "MaxDistance < 0"
  then show "ConstrainCameraByDistance New Prev Orig MaxDistance = New"
    by (simp add: ConstrainCameraByDistance_def)
next
  assume nonneg: "0 \<le> MaxDistance"
  then show eq: "ConstrainCameraByDistance New Prev Orig MaxDistance
        = FVector_add Orig (GetClampedToMaxSize (FVector_sub New Orig) MaxDistance)"
    by (simp add: ConstrainCameraByDistance_def)
  show "Size (FVector_sub (ConstrainCameraByDistance New Prev Orig MaxDistance) Orig) \<le> MaxDistance"
    unfolding eq FVector_sub_add_cancel by (rule Size_GetClampedToMaxSize [OF nonneg])
next
  show "ConstrainCameraByDistance New Prev Orig MaxDistance
        = ConstrainCameraByDistance New Prev' Orig MaxDistance"
    by (simp add: ConstrainCameraByDistance_def)
qed

theorem ConstrainCameraByDistance_clamps_witness:
  "ConstrainCameraByDistance \<lparr>X = 30, Y = 40, Z = 0\<rparr> \<lparr>X = 1, Y = 2, Z = 3\<rparr> ZeroVector (- 1)
     = \<lparr>X = 30, Y = 40, Z = 0\<rparr>
   \<and> ConstrainCameraByDistance \<lparr>X = 30, Y = 40, Z = 0\<rparr> \<lparr>X = 1, Y = 2, Z = 3\<rparr> ZeroVector 10
     = \<lparr>X = 6, Y = 8, Z = 0\<rparr>
   \<and> Size (FVector_sub
        (ConstrainCameraByDistance \<lparr>X = 30, Y = 40, Z = 0\<rparr> \<lparr>X = 1, Y = 2, Z = 3\<rparr> ZeroVector 10)
        ZeroVector) \<le> 10"
proof -
  have s: "sqrt 2500 = 50"
    using real_sqrt_abs [of 50] by simp
  have neg: "(- 1 :: real) < 0" and nonneg: "(0 :: real) \<le> 10"
    by simp_all
  have c: "GetClampedToMaxSize (FVector_sub \<lparr>X = 30, Y = 40, Z = 0\<rparr> ZeroVector) 10
             = \<lparr>X = 6, Y = 8, Z = 0\<rparr>"
    by (simp add: GetClampedToMaxSize_def FVector_sub_def ZeroVector_def SizeSquared_def
        UE_KINDA_SMALL_NUMBER_def Let_def s)
  from ConstrainCameraByDistance_clamps
      [of "- 1" "\<lparr>X = 30, Y = 40, Z = 0\<rparr>" "\<lparr>X = 1, Y = 2, Z = 3\<rparr>" ZeroVector]
  have a: "ConstrainCameraByDistance \<lparr>X = 30, Y = 40, Z = 0\<rparr> \<lparr>X = 1, Y = 2, Z = 3\<rparr> ZeroVector (- 1)
     = \<lparr>X = 30, Y = 40, Z = 0\<rparr>"
    using neg by blast
  from ConstrainCameraByDistance_clamps
      [of 10 "\<lparr>X = 30, Y = 40, Z = 0\<rparr>" "\<lparr>X = 1, Y = 2, Z = 3\<rparr>" ZeroVector]
  have b: "ConstrainCameraByDistance \<lparr>X = 30, Y = 40, Z = 0\<rparr> \<lparr>X = 1, Y = 2, Z = 3\<rparr> ZeroVector 10
        = FVector_add ZeroVector
            (GetClampedToMaxSize (FVector_sub \<lparr>X = 30, Y = 40, Z = 0\<rparr> ZeroVector) 10)
      \<and> Size (FVector_sub
          (ConstrainCameraByDistance \<lparr>X = 30, Y = 40, Z = 0\<rparr> \<lparr>X = 1, Y = 2, Z = 3\<rparr> ZeroVector 10)
          ZeroVector) \<le> 10"
    using nonneg by blast
  from b have b1: "ConstrainCameraByDistance \<lparr>X = 30, Y = 40, Z = 0\<rparr> \<lparr>X = 1, Y = 2, Z = 3\<rparr> ZeroVector 10
        = \<lparr>X = 6, Y = 8, Z = 0\<rparr>"
    unfolding c by (simp add: FVector_add_def ZeroVector_def)
  from a b b1 show ?thesis by blast
qed

subsection \<open>Constraining the camera against geometry\<close>

lemma DotProduct_self_le_0:
  assumes "DotProduct (FVector_sub a b) (FVector_sub a b) \<le> 0"
  shows "a = b"
proof -
  have "(X a - X b) * (X a - X b) + (Y a - Y b) * (Y a - Y b) + (Z a - Z b) * (Z a - Z b) \<le> 0"
    using assms by (simp add: DotProduct_def FVector_sub_def)
  moreover have "0 \<le> (X a - X b) * (X a - X b)" "0 \<le> (Y a - Y b) * (Y a - Y b)"
    "0 \<le> (Z a - Z b) * (Z a - Z b)"
    by simp_all
  ultimately have "(X a - X b) * (X a - X b) = 0" "(Y a - Y b) * (Y a - Y b) = 0"
    "(Z a - Z b) * (Z a - Z b) = 0"
    by linarith+
  then have "X a = X b" "Y a = Y b" "Z a = Z b" by simp_all
  then show "a = b" by simp
qed

lemma camera_size_key:
  "cvar_key ''r.Photography.Constrain.CameraSize'' = ''r.photography.constrain.camerasize''"
  by (simp add: cvar_key_def ToLower_def)

text \<open>
  Claim C5.  \<open>ConstrainCameraByGeometry\<close> accepts the proposed camera position by
  default.  \<open>OutCameraLocation\<close> is \<open>NewCameraLocation\<close> from the first statement on
  (also when the function faults on the missing console variable), and it is still
  \<open>NewCameraLocation\<close> at the end when the camera-size variable is negative, when
  the sweep direction from the tracked open-space origin is nearly zero, and when
  that origin is itself occupied by geometry.  The only other results are the hit
  location of a blocking sweep and, by the direction-rejection test,
  \<open>PreviousCameraLocation\<close>.
\<close>

theorem ConstrainCameraByGeometry_accepts_by_default:
  fixes CM st World New Prev Orig
  defines "CVar \<equiv> static_cvar (CVarConstrainCameraSizeLocal st) CM ''r.Photography.Constrain.CameraSize''"
  defines "Origin \<equiv> TrackedOpenSpaceOrigin st Prev Orig"
  defines "Out \<equiv> fst (ConstrainCameraByGeometry CM st World New Prev Orig)"
  shows "(CVar = None \<longrightarrow> Out = New)
    \<and> (\<forall>p. CVar = Some p \<and> GetFloat CM p < 0 \<longrightarrow> Out = New)
    \<and> (\<forall>p. CVar = Some p \<and> IsNearlyZero (FVector_sub New Origin) \<longrightarrow> Out = New)
    \<and> (\<forall>p W. CVar = Some p \<and> World = Some W
           \<and> OverlapAnyTestByChannel W Origin (GetFloat CM p) \<longrightarrow> Out = New)
    \<and> (Out = New \<or> Out = Prev
        \<or> (\<exists>p W. CVar = Some p \<and> World = Some W
              \<and> SweepSingleByChannel W Origin New (GetFloat CM p) = Some Out))"
  unfolding CVar_def Origin_def Out_def
proof (intro conjI allI impI)
  show "fst (ConstrainCameraByGeometry CM st World New Prev Orig) = New"
    if "static_cvar (CVarConstrainCameraSizeLocal st) CM ''r.Photography.Constrain.CameraSize'' = None"
    using that by (simp add: ConstrainCameraByGeometry_def Let_def)
  show "fst (ConstrainCameraByGeometry CM st World New Prev Orig) = New"
    if "static_cvar (CVarConstrainCameraSizeLocal st) CM ''r.Photography.Constrain.CameraSize'' = Some p
        \<and> GetFloat CM p < 0" for p
    using that by (simp add: ConstrainCameraByGeometry_def Let_def)
  show "fst (ConstrainCameraByGeometry CM st World New Prev Orig) = New"
    if "static_cvar (CVarConstrainCameraSizeLocal st) CM ''r.Photography.Constrain.CameraSize'' = Some p
        \<and> IsNearlyZero (FVector_sub New (TrackedOpenSpaceOrigin st Prev Orig))" for p
    using that
    by (simp add: ConstrainCameraByGeometry_def Let_def TrackedOpenSpaceOrigin_def
        split: option.splits)
  show "fst (ConstrainCameraByGeometry CM st World New Prev Orig) = New"
    if "static_cvar (CVarConstrainCameraSizeLocal st) CM ''r.Photography.Constrain.CameraSize'' = Some p
        \<and> World = Some W
        \<and> OverlapAnyTestByChannel W (TrackedOpenSpaceOrigin st Prev Orig) (GetFloat CM p)" for p W
    using that
    by (auto simp add: ConstrainCameraByGeometry_def Let_def TrackedOpenSpaceOrigin_def
        split: option.splits dest: DotProduct_self_le_0)
  show "fst (ConstrainCameraByGeometry CM st World New Prev Orig) = New
      \<or> fst (ConstrainCameraByGeometry CM st World New Prev Orig) = Prev
      \<or> (\<exists>p W. static_cvar (CVarConstrainCameraSizeLocal st) CM
                  ''r.Photography.Constrain.CameraSize'' = Some p
            \<and> World = Some W
            \<and> SweepSingleByChannel W (TrackedOpenSpaceOrigin st Prev Orig) New (GetFloat CM p)
                = Some (fst (ConstrainCameraByGeometry CM st World New Prev Orig)))"
    by (auto simp add: ConstrainCameraByGeometry_def Let_def TrackedOpenSpaceOrigin_def
        split: option.splits)
qed

theorem ConstrainCameraByGeometry_accepts_by_default_witness:
  "fst (ConstrainCameraByGeometry (console_with [] 14) fresh_statics (Some open_world)
          \<lparr>X = 1, Y = 2, Z = 3\<rparr> ZeroVector ZeroVector) = \<lparr>X = 1, Y = 2, Z = 3\<rparr>
   \<and> fst (ConstrainCameraByGeometry (console_with [''r.Photography.Constrain.CameraSize''] (- 1))
          fresh_statics (Some solid_world) \<lparr>X = 1, Y = 2, Z = 3\<rparr> ZeroVector ZeroVector)
       = \<lparr>X = 1, Y = 2, Z = 3\<rparr>
   \<and> fst (ConstrainCameraByGeometry (console_with [''r.Photography.Constrain.CameraSize''] 14)
          fresh_statics None ZeroVector ZeroVector ZeroVector) = ZeroVector
   \<and> fst (ConstrainCameraByGeometry (console_with [''r.Photography.Constrain.CameraSize''] 14)
          fresh_statics (Some solid_world) \<lparr>X = 1, Y = 2, Z = 3\<rparr> ZeroVector ZeroVector)
       = \<lparr>X = 1, Y = 2, Z = 3\<rparr>"
proof -
  let ?N = "''r.Photography.Constrain.CameraSize''"
  let ?k = "''r.photography.constrain.camerasize''"
  let ?v = "\<lparr>X = 1, Y = 2, Z = 3\<rparr>"
  have missing: "static_cvar (CVarConstrainCameraSizeLocal fresh_statics) (console_with [] 14) ?N = None"
    by (simp add: static_cvar_def fresh_statics_def FindConsoleVariable_def console_with_def)
  have found: "static_cvar (CVarConstrainCameraSizeLocal fresh_statics) (console_with [?N] r) ?N = Some ?k"
    for r
    by (simp add: static_cvar_def fresh_statics_def FindConsoleVariable_def console_with_def
        camera_size_key)
  have neg: "GetFloat (console_with [?N] (- 1)) ?k < 0"
    by (simp add: GetFloat_def console_with_def)
  have zero: "IsNearlyZero
        (FVector_sub ZeroVector (TrackedOpenSpaceOrigin fresh_statics ZeroVector ZeroVector))"
    by (simp add: IsNearlyZero_def FVector_sub_def TrackedOpenSpaceOrigin_def ZeroVector_def
        UE_KINDA_SMALL_NUMBER_def)
  have occupied: "OverlapAnyTestByChannel solid_world
        (TrackedOpenSpaceOrigin fresh_statics ZeroVector ZeroVector)
        (GetFloat (console_with [?N] 14) ?k)"
    by (simp add: solid_world_def)
  from ConstrainCameraByGeometry_accepts_by_default
         [of fresh_statics "console_with [] 14" "Some open_world" ?v ZeroVector ZeroVector] missing
  have a: "fst (ConstrainCameraByGeometry (console_with [] 14) fresh_statics (Some open_world)
          ?v ZeroVector ZeroVector) = ?v"
    by blast
  from ConstrainCameraByGeometry_accepts_by_default
         [of fresh_statics "console_with [?N] (- 1)" "Some solid_world" ?v ZeroVector ZeroVector]
       found [of "- 1"] neg
  have b: "fst (ConstrainCameraByGeometry (console_with [?N] (- 1)) fresh_statics (Some solid_world)
          ?v ZeroVector ZeroVector) = ?v"
    by blast
  from ConstrainCameraByGeometry_accepts_by_default
         [of fresh_statics "console_with [?N] 14" None ZeroVector ZeroVector ZeroVector]
       found [of 14] zero
  have c: "fst (ConstrainCameraByGeometry (console_with [?N] 14) fresh_statics None
          ZeroVector ZeroVector ZeroVector) = ZeroVector"
    by blast
  from ConstrainCameraByGeometry_accepts_by_default
         [of fresh_statics "console_with [?N] 14" "Some solid_world" ?v ZeroVector ZeroVector]
       found [of 14] occupied
  have d: "fst (ConstrainCameraByGeometry (console_with [?N] 14) fresh_statics (Some solid_world)
          ?v ZeroVector ZeroVector) = ?v"
    by blast
  from a b c d show ?thesis by blast
qed

subsection \<open>Missing console variables\<close>

text \<open>
  Where the lookup is tested: with the variable unknown and not captured before,
  \<open>SetCapturedCVarPredicated\<close> captures and sets nothing and logs the name; with no
  variable registered, the seven setters of the function library leave the global
  state alone.
\<close>

lemma SetCapturedCVarPredicated_missing:
  assumes "cvar_key Name \<notin> Registered (ConsoleManager g)"
    and "\<not> TMap_Contains (InitialCVarMap s) Name"
  shows "SetCapturedCVarPredicated Name v c r e (s, g)
           = (s, UE_LOG (''CVar used by Ansel not found: '' @ Name) g)"
  using assms
  by (simp add: SetCapturedCVarPredicated_def CaptureCVar_def FindConsoleVariable_def Let_def)

lemma setters_missing:
  assumes "Registered (ConsoleManager (Globals sys)) = {}" and "Statics sys = fresh_statics"
  shows "Globals (SetIsPhotographyAllowed b sys) = Globals sys"
    and "Globals (SetSettleFrames n sys) = Globals sys"
    and "Globals (SetCameraMovementSpeed v sys) = Globals sys"
    and "Globals (SetCameraConstraintCameraSize v sys) = Globals sys"
    and "Globals (SetCameraConstraintDistance v sys) = Globals sys"
    and "Globals (SetAutoPostprocess b sys) = Globals sys"
    and "Globals (SetAutoPause b sys) = Globals sys"
  using assms
  by (simp_all add: SetIsPhotographyAllowed_def SetSettleFrames_def SetCameraMovementSpeed_def
      SetCameraConstraintCameraSize_def SetCameraConstraintDistance_def SetAutoPostprocess_def
      SetAutoPause_def static_cvar_def fresh_statics_def FindConsoleVariable_def Let_def)

text \<open>
  Claim C4 says that every lookup of a console variable the console manager does not
  know is skipped with no state change, \<open>ConstrainCameraByGeometry\<close>'s lookup of
  \<open>r.Photography.Constrain.CameraSize\<close> included.  That lookup is the one place where
  the result is used without a null test: with the variable unregistered the function
  dereferences the null pointer right after initialising \<open>OutCameraLocation\<close>.
\<close>

theorem ConstrainCameraByGeometry_missing_cvar_faults:
  "ConstrainCameraByGeometry (console_with [] 14) fresh_statics (Some open_world)
     \<lparr>X = 1, Y = 2, Z = 3\<rparr> ZeroVector ZeroVector
   = (\<lparr>X = 1, Y = 2, Z = 3\<rparr>, Inl NullPointerDereference)"
  by (simp add: ConstrainCameraByGeometry_def static_cvar_def fresh_statics_def
      FindConsoleVariable_def console_with_def)

subsection \<open>Module start-up\<close>

text \<open>
  Claim C3.  When loading the SDK's DLL fails at module start-up (the handle is 0),
  \<open>bAnselDLLLoaded\<close> is false, \<open>IsSupported\<close> is false for every provider object, and
  \<open>CreateCameraPhotography\<close> returns no provider; constructing and discarding the
  candidate provider makes no SDK call (so no configuration is set), registers no
  console-variable sink and allocates no \<open>AnselConfig\<close>: apart from the two log lines
  the global state is the one before start-up with a null handle.
\<close>

theorem dll_load_failure_disables_photography:
  fixes g mem
  defines "g1 \<equiv> StartupModule 0 g"
  defines "created \<equiv> CreateCameraPhotography mem g1"
  shows "\<not> bAnselDLLLoaded g1
    \<and> (\<forall>s. \<not> IsSupported s g1)
    \<and> fst created = None
    \<and> AnselCalls (snd created) = AnselCalls g
    \<and> ConsoleVariableSinks (snd created) = ConsoleVariableSinks g
    \<and> AnselConfig (fst (FNVAnselCameraPhotographyPrivate_ctor mem g1)) = AnselConfig mem
    \<and> snd created =
        UE_LOG ''Ansel DLL was not successfully loaded.''
          (UE_LOG ''Tried to load %s : success=%d''
             (g\<lparr>AnselSDKDLLHandle := 0, bAnselDLLLoaded := False\<rparr>))"
  unfolding g1_def created_def
  by (simp add: StartupModule_def IsSupported_def CreateCameraPhotography_def UE_LOG_def
      FNVAnselCameraPhotographyPrivate_ctor_def FNVAnselCameraPhotographyPrivate_dtor_def Let_def)

subsection \<open>Gating the start of a session\<close>

lemma ReconfigureAnsel_fields [simp]:
  "bForceDisallow (fst (ReconfigureAnsel sg)) = bForceDisallow (fst sg)"
  "bIsOrthoProjection (fst (ReconfigureAnsel sg)) = bIsOrthoProjection (fst sg)"
  "bAnselSessionActive (fst (ReconfigureAnsel sg)) = bAnselSessionActive (fst sg)"
  "bAnselSessionNewlyActive (fst (ReconfigureAnsel sg)) = bAnselSessionNewlyActive (fst sg)"
  "bAnselSessionWantDeactivate (fst (ReconfigureAnsel sg)) = bAnselSessionWantDeactivate (fst sg)"
  "GIsEditor (snd (ReconfigureAnsel sg)) = GIsEditor (snd sg)"
  "ConsoleManager (snd (ReconfigureAnsel sg)) = ConsoleManager (snd sg)"
  by (cases sg; simp add: ReconfigureAnsel_def Let_def UE_LOG_def ansel_sdk_def split: option.splits)+

lemma UpdateCamera_NotInSession_fields [simp]:
  "bForceDisallow (fst (UpdateCamera_NotInSession pov sg))
     = (bForceDisallow (fst sg) \<or> SplitscreenActive (snd sg) \<or> bIsStereoscopic3D (snd sg))"
  "bIsOrthoProjection (fst (UpdateCamera_NotInSession pov sg)) = (ProjectionMode pov = Orthographic)"
  "bAnselSessionActive (fst (UpdateCamera_NotInSession pov sg)) = bAnselSessionActive (fst sg)"
  "bAnselSessionNewlyActive (fst (UpdateCamera_NotInSession pov sg)) = bAnselSessionNewlyActive (fst sg)"
  "bAnselSessionWantDeactivate (fst (UpdateCamera_NotInSession pov sg)) = bAnselSessionWantDeactivate (fst sg)"
  "GIsEditor (snd (UpdateCamera_NotInSession pov sg)) = GIsEditor (snd sg)"
  "ConsoleManager (snd (UpdateCamera_NotInSession pov sg)) = ConsoleManager (snd sg)"
  by (cases sg; simp add: UpdateCamera_NotInSession_def Let_def SplitscreenActive_def split: option.splits)+

lemma UpdateCamera_state_not_in_session:
  "\<not> bAnselSessionActive s \<Longrightarrow>
     UpdateCamera_state pov (s, g) = UpdateCamera_NotInSession pov (s\<lparr>bForceDisallow := False\<rparr>, g)"
  by (simp add: UpdateCamera_state_def UpdateCamera_def Let_def case_prod_beta)

text \<open>
  Claim C10.  Outside a session every \<open>UpdateCamera\<close> recomputes \<open>bForceDisallow\<close>
  from the split-screen and stereoscopic checks (and \<open>bIsOrthoProjection\<close> from the
  view).  \<open>AnselStartSessionCallback\<close> returns \<open>kDisallowed\<close> and leaves the provider
  and the session configuration as they are whenever \<open>bForceDisallow\<close> is set,
  \<open>r.Photography.Allow\<close> is 0 or the engine runs as editor; otherwise it allows the
  session, permits FOV changes exactly when the projection is not orthographic and
  sets the high-resolution and both 360 permissions to the
  \<open>r.Photography.EnableMultipart\<close> flag.  So a start callback that follows a frame
  outside a session in split-screen or stereoscopic rendering is disallowed and leaves
  the session inactive.
\<close>

theorem session_start_gating:
  "(\<not> bAnselSessionActive s \<longrightarrow>
      bForceDisallow (fst (UpdateCamera_state pov (s, g)))
        = (SplitscreenActive g \<or> bIsStereoscopic3D g)
      \<and> bIsOrthoProjection (fst (UpdateCamera_state pov (s, g)))
        = (ProjectionMode pov = Orthographic))
   \<and> (bForceDisallow s \<or> CVarPhotographyAllow g = 0 \<or> GIsEditor g \<longrightarrow>
        AnselStartSessionCallback settings s g
          = (kDisallowed, settings, s,
             UE_LOG ''Photography camera session attempt started, Allowed=%d, ForceDisallowed=%d'' g))
   \<and> (\<not> (bForceDisallow s \<or> CVarPhotographyAllow g = 0 \<or> GIsEditor g) \<longrightarrow>
        (case AnselStartSessionCallback settings s g of
           (status, settings', s', g') \<Rightarrow>
             status = kAllowed
             \<and> isFovChangeAllowed settings' = (\<not> bIsOrthoProjection s)
             \<and> isHighresAllowed settings' = (CVarPhotographyEnableMultipart g \<noteq> 0)
             \<and> is360MonoAllowed settings' = (CVarPhotographyEnableMultipart g \<noteq> 0)
             \<and> is360StereoAllowed settings' = (CVarPhotographyEnableMultipart g \<noteq> 0)
             \<and> bAnselSessionActive s' \<and> bAnselSessionNewlyActive s'))
   \<and> (\<not> bAnselSessionActive s \<and> (SplitscreenActive g \<or> bIsStereoscopic3D g) \<longrightarrow>
        (case UpdateCamera_state pov (s, g) of
           (s1, g1) \<Rightarrow>
             (case AnselStartSessionCallback settings s1 g1 of
                (status, settings', s', g') \<Rightarrow>
                  status = kDisallowed \<and> settings' = settings \<and> \<not> bAnselSessionActive s')))"
proof (intro conjI impI)
  assume "\<not> bAnselSessionActive s"
  then show "bForceDisallow (fst (UpdateCamera_state pov (s, g))) = (SplitscreenActive g \<or> bIsStereoscopic3D g)"
    and "bIsOrthoProjection (fst (UpdateCamera_state pov (s, g))) = (ProjectionMode pov = Orthographic)"
    by (simp_all add: UpdateCamera_state_not_in_session)
next
  assume "bForceDisallow s \<or> CVarPhotographyAllow g = 0 \<or> GIsEditor g"
  then show "AnselStartSessionCallback settings s g
          = (kDisallowed, settings, s,
             UE_LOG ''Photography camera session attempt started, Allowed=%d, ForceDisallowed=%d'' g)"
    by (auto simp add: AnselStartSessionCallback_def)
next
  assume "\<not> (bForceDisallow s \<or> CVarPhotographyAllow g = 0 \<or> GIsEditor g)"
  then show "case AnselStartSessionCallback settings s g of
           (status, settings', s', g') \<Rightarrow>
             status = kAllowed
             \<and> isFovChangeAllowed settings' = (\<not> bIsOrthoProjection s)
             \<and> isHighresAllowed settings' = (CVarPhotographyEnableMultipart g \<noteq> 0)
             \<and> is360MonoAllowed settings' = (CVarPhotographyEnableMultipart g \<noteq> 0)
             \<and> is360StereoAllowed settings' = (CVarPhotographyEnableMultipart g \<noteq> 0)
             \<and> bAnselSessionActive s' \<and> bAnselSessionNewlyActive s'"
    by (simp add: AnselStartSessionCallback_def Let_def)
next
  assume h: "\<not> bAnselSessionActive s \<and> (SplitscreenActive g \<or> bIsStereoscopic3D g)"
  obtain s1 g1 where u: "UpdateCamera_state pov (s, g) = (s1, g1)" by (cases "UpdateCamera_state pov (s, g)")
  have "s1 = fst (UpdateCamera_NotInSession pov (s\<lparr>bForceDisallow := False\<rparr>, g))"
    using u h by (simp add: UpdateCamera_state_not_in_session)
  then have "bForceDisallow s1" "\<not> bAnselSessionActive s1"
    using h by simp_all
  then show "case UpdateCamera_state pov (s, g) of
           (s1, g1) \<Rightarrow>
             (case AnselStartSessionCallback settings s1 g1 of
                (status, settings', s', g') \<Rightarrow>
                  status = kDisallowed \<and> settings' = settings \<and> \<not> bAnselSessionActive s')"
    by (simp add: u AnselStartSessionCallback_def)
qed


lemma example_allow: "CVarPhotographyAllow example_globals = 1"
  by (simp add: CVarPhotographyAllow_def GetInt_def example_globals_def example_console_def
      example_cvars_def cvar_key_def ToLower_def)

theorem session_start_gating_witness:
  "bForceDisallow (fst (UpdateCamera_state example_pov (zero_memory, splitscreen_globals)))
   \<and> fst (AnselStartSessionCallback example_settings (zero_memory\<lparr>bForceDisallow := True\<rparr>)
          example_globals) = kDisallowed
   \<and> fst (AnselStartSessionCallback example_settings zero_memory example_globals) = kAllowed
   \<and> isFovChangeAllowed (fst (snd (AnselStartSessionCallback example_settings zero_memory example_globals)))
   \<and> fst (AnselStartSessionCallback example_settings
            (fst (UpdateCamera_state example_pov (zero_memory, splitscreen_globals)))
            (snd (UpdateCamera_state example_pov (zero_memory, splitscreen_globals)))) = kDisallowed"
proof -
  have inactive: "\<not> bAnselSessionActive zero_memory"
    by (simp add: zero_memory_def)
  have split: "SplitscreenActive splitscreen_globals"
    by (simp add: SplitscreenActive_def splitscreen_globals_def)
  have forced: "bForceDisallow (zero_memory\<lparr>bForceDisallow := True\<rparr>)"
    by simp
  have free: "\<not> (bForceDisallow zero_memory \<or> CVarPhotographyAllow example_globals = 0
                \<or> GIsEditor example_globals)"
    by (simp add: example_allow) (simp add: zero_memory_def example_globals_def)
  have ortho: "\<not> bIsOrthoProjection zero_memory"
    by (simp add: zero_memory_def)
  note t1 = session_start_gating [of zero_memory example_pov splitscreen_globals example_settings]
  note t2 = session_start_gating
              [of "zero_memory\<lparr>bForceDisallow := True\<rparr>" example_pov example_globals example_settings]
  note t3 = session_start_gating [of zero_memory example_pov example_globals example_settings]
  have a: "bForceDisallow (fst (UpdateCamera_state example_pov (zero_memory, splitscreen_globals)))"
    using t1 inactive split by blast
  have b: "fst (AnselStartSessionCallback example_settings (zero_memory\<lparr>bForceDisallow := True\<rparr>)
          example_globals) = kDisallowed"
    using t2 forced by simp
  have c: "fst (AnselStartSessionCallback example_settings zero_memory example_globals) = kAllowed
      \<and> isFovChangeAllowed (fst (snd (AnselStartSessionCallback example_settings zero_memory example_globals)))"
    using t3 free ortho by (simp add: case_prod_beta)
  have d: "fst (AnselStartSessionCallback example_settings
            (fst (UpdateCamera_state example_pov (zero_memory, splitscreen_globals)))
            (snd (UpdateCamera_state example_pov (zero_memory, splitscreen_globals)))) = kDisallowed"
    using t1 inactive split by (simp add: case_prod_beta)
  from a b c d show ?thesis by blast
qed

subsection \<open>Functions that only capture and set console variables\<close>

lemma in_order_Nil [simp]: "in_order [] x = x"
  by (simp add: in_order_def)

lemma in_order_Cons [simp]: "in_order (f # fs) x = in_order fs (f x)"
  by (simp add: in_order_def)

lemma in_order_append [simp]: "in_order (fs @ gs) x = in_order gs (in_order fs x)"
  by (simp add: in_order_def)

lemma cvar_only_shape:
  assumes "cvar_only F"
  shows "F sg = ((fst sg)\<lparr>InitialCVarMap := map_after F sg\<rparr>,
                 (snd sg)\<lparr>ConsoleManager := console_after F sg, LogAnsel := log_after F sg\<rparr>)"
proof -
  have b: "blank_cvar (F sg) = blank_cvar sg"
    using assms unfolding cvar_only_def by blast
  have 1: "(fst (F sg))\<lparr>InitialCVarMap := []\<rparr> = (fst sg)\<lparr>InitialCVarMap := []\<rparr>"
    using b by (simp add: blank_cvar_def)
  have 2: "(snd (F sg))\<lparr>ConsoleManager := console_with [] 0, LogAnsel := []\<rparr>
           = (snd sg)\<lparr>ConsoleManager := console_with [] 0, LogAnsel := []\<rparr>"
    using b by (simp add: blank_cvar_def)
  have "fst (F sg) = (fst (F sg))\<lparr>InitialCVarMap := []\<rparr>\<lparr>InitialCVarMap := map_after F sg\<rparr>"
    by (simp add: map_after_def)
  then have f: "fst (F sg) = (fst sg)\<lparr>InitialCVarMap := map_after F sg\<rparr>"
    by (simp add: 1)
  have "snd (F sg) = (snd (F sg))\<lparr>ConsoleManager := console_with [] 0, LogAnsel := []\<rparr>
                        \<lparr>ConsoleManager := console_after F sg, LogAnsel := log_after F sg\<rparr>"
    by (simp add: console_after_def log_after_def)
  then have s: "snd (F sg) = (snd sg)\<lparr>ConsoleManager := console_after F sg, LogAnsel := log_after F sg\<rparr>"
    by (simp add: 2)
  show ?thesis using f s by (simp add: prod_eq_iff)
qed

lemma cvar_only_in_order:
  assumes "\<And>F. F \<in> set fs \<Longrightarrow> cvar_only F"
  shows "cvar_only (in_order fs)"
  using assms
proof (induction fs)
  case Nil
  show ?case unfolding cvar_only_def in_order_Nil by blast
next
  case (Cons f fs)
  then have f: "cvar_only f" and fs: "cvar_only (in_order fs)" by simp_all
  show ?case
    unfolding cvar_only_def in_order_Cons
  proof
    fix sg
    have "blank_cvar (in_order fs (f sg)) = blank_cvar (f sg)"
      using fs unfolding cvar_only_def by blast
    also have "\<dots> = blank_cvar sg"
      using f unfolding cvar_only_def by blast
    finally show "blank_cvar (in_order fs (f sg)) = blank_cvar sg" .
  qed
qed

lemma cvar_only_SetCapturedCVarPredicated [simp]:
  "cvar_only (SetCapturedCVarPredicated N v c r e)"
  unfolding cvar_only_def
proof
  fix sg :: "priv \<times> globals"
  obtain s g where sg: "sg = (s, g)" by (cases sg)
  show "blank_cvar (SetCapturedCVarPredicated N v c r e sg) = blank_cvar sg"
    unfolding sg
    by (simp add: SetCapturedCVarPredicated_def CaptureCVar_def blank_cvar_def UE_LOG_def Let_def
        split: option.splits)
qed

lemma cvar_only_macros [simp]:
  "cvar_only (SetCapturedCVar N v r e)"
  "cvar_only (QUALITY_CVAR N v)"
  "cvar_only (QUALITY_CVAR_AT_LEAST N v)"
  "cvar_only (QUALITY_CVAR_AT_MOST N v)"
  "cvar_only (QUALITY_CVAR_LOWPRIORITY_AT_LEAST N v)"
  "cvar_only (LOD_CVAR N v)"
  "cvar_only (LUMEN_CVAR N v)"
  "cvar_only (SKYLIGHT_CVAR N v)"
  "cvar_only (SQQUALITY_CVAR N v)"
  "cvar_only (ANTIALIASING_CVAR N v)"
  using cvar_only_SetCapturedCVarPredicated
  unfolding cvar_only_def SetCapturedCVar_def QUALITY_CVAR_def QUALITY_CVAR_AT_LEAST_def
    QUALITY_CVAR_AT_MOST_def QUALITY_CVAR_LOWPRIORITY_AT_LEAST_def LOD_CVAR_def LUMEN_CVAR_def
    SKYLIGHT_CVAR_def SQQUALITY_CVAR_def ANTIALIASING_CVAR_def
  by blast+

lemma cvar_only_lists [simp]:
  "cvar_only SetUpSessionCVars"
  "cvar_only (in_order LodSettings)"
  "cvar_only (in_order LumenSettings)"
  "cvar_only (in_order SkylightSettings)"
  "cvar_only (in_order SgQualitySettings)"
  "cvar_only (in_order AntiAliasingSettings)"
  "cvar_only (in_order HighQualitySettings)"
  "cvar_only (in_order HighQualityRayTracingSettings)"
  "cvar_only (in_order ExtremeSettings)"
  "cvar_only (in_order ExtremeRayTracingSettings)"
  "cvar_only (in_order CaptureStreamingSettings)"
  unfolding SetUpSessionCVars_def LodSettings_def LumenSettings_def SkylightSettings_def
    SgQualitySettings_def AntiAliasingSettings_def HighQualitySettings_def
    HighQualityRayTracingSettings_def ExtremeSettings_def ExtremeRayTracingSettings_def
    CaptureStreamingSettings_def
  by (rule cvar_only_in_order, auto)+

lemmas SetUpSessionCVars_shape = cvar_only_shape [OF cvar_only_lists(1)]

subsection \<open>The branches of UpdateCamera\<close>

lemma UpdateCamera_state_in_session:
  assumes "bAnselSessionActive s"
  shows "UpdateCamera_state pov (s, g) =
     (if bAnselSessionWantDeactivate s then UpdateCamera_Deactivate (SessionFramePrelude (s, g))
      else UpdateCamera_PauseCheck
             (if bAnselSessionNewlyActive s then UpdateCamera_SessionStart (SessionFramePrelude (s, g))
              else (fst (SessionFramePrelude (s, g)),
                    ansel_sdk ansel_updateCamera (snd (SessionFramePrelude (s, g))))))"
proof -
  have p: "SessionFramePrelude (s, g) =
     (if bAnselCaptureNewlyFinished s
      then ((if bAnselCaptureNewlyActive s
             then s\<lparr>bForceDisallow := False, NumFramesSinceSessionStart := NumFramesSinceSessionStart s + 1,
                    bAnselCaptureNewlyActive := False\<rparr>
             else s\<lparr>bForceDisallow := False, NumFramesSinceSessionStart := NumFramesSinceSessionStart s + 1\<rparr>)
               \<lparr>bAnselCaptureNewlyFinished := False\<rparr>,
            notify OnPhotographyMultiPartCaptureEnd
              (if bAnselCaptureNewlyActive s then notify OnPhotographyMultiPartCaptureStart g else g))
      else (if bAnselCaptureNewlyActive s
             then s\<lparr>bForceDisallow := False, NumFramesSinceSessionStart := NumFramesSinceSessionStart s + 1,
                    bAnselCaptureNewlyActive := False\<rparr>
             else s\<lparr>bForceDisallow := False, NumFramesSinceSessionStart := NumFramesSinceSessionStart s + 1\<rparr>,
            (if bAnselCaptureNewlyActive s then notify OnPhotographyMultiPartCaptureStart g else g)))"
    by (cases s; cases g) (simp add: SessionFramePrelude_def notify_def)
  show ?thesis
    unfolding p using assms
    by (simp add: UpdateCamera_state_def UpdateCamera_def Let_def case_prod_beta)
qed

lemma SessionFramePrelude_simps [simp]:
  "bAnselSessionActive (fst (SessionFramePrelude sg)) = bAnselSessionActive (fst sg)"
  "bAnselSessionNewlyActive (fst (SessionFramePrelude sg)) = bAnselSessionNewlyActive (fst sg)"
  "bAnselSessionWantDeactivate (fst (SessionFramePrelude sg)) = bAnselSessionWantDeactivate (fst sg)"
  "NumFramesSinceSessionStart (fst (SessionFramePrelude sg)) = NumFramesSinceSessionStart (fst sg) + 1"
  "bAutoPause (fst (SessionFramePrelude sg)) = bAutoPause (fst sg)"
  "bWasPausedBeforeSession (fst (SessionFramePrelude sg)) = bWasPausedBeforeSession (fst sg)"
  "fTimeDilationBeforeSession (fst (SessionFramePrelude sg)) = fTimeDilationBeforeSession (fst sg)"
  "bPaused (snd (SessionFramePrelude sg)) = bPaused (snd sg)"
  "TimeDilation (snd (SessionFramePrelude sg)) = TimeDilation (snd sg)"
  "ConsoleManager (snd (SessionFramePrelude sg)) = ConsoleManager (snd sg)"
  by (simp_all add: SessionFramePrelude_def)

lemma CVarPhotographyAutoPause_cong:
  "ConsoleManager g' = ConsoleManager g \<Longrightarrow> CVarPhotographyAutoPause g' = CVarPhotographyAutoPause g"
  by (simp add: CVarPhotographyAutoPause_def)

lemma UpdateCamera_SessionStart_pause:
  "NumFramesSinceSessionStart (fst (UpdateCamera_SessionStart sg)) = 0"
  "bAutoPause (fst (UpdateCamera_SessionStart sg)) = (CVarPhotographyAutoPause (snd sg) \<noteq> 0)"
  "bWasPausedBeforeSession (fst (UpdateCamera_SessionStart sg)) = bPaused (snd sg)"
  "bPaused (snd (UpdateCamera_SessionStart sg)) = bPaused (snd sg)"
  "bAnselSessionActive (fst (UpdateCamera_SessionStart sg)) = bAnselSessionActive (fst sg)"
  "bAnselSessionWantDeactivate (fst (UpdateCamera_SessionStart sg)) = bAnselSessionWantDeactivate (fst sg)"
  "\<not> bAnselSessionNewlyActive (fst (UpdateCamera_SessionStart sg))"
  "TimeDilation (snd (UpdateCamera_SessionStart sg))
     = (if CVarPhotographyAutoPause (snd sg) \<noteq> 0 \<and> \<not> bPaused (snd sg) then 0 else TimeDilation (snd sg))"
  "fTimeDilationBeforeSession (fst (UpdateCamera_SessionStart sg))
     = (if CVarPhotographyAutoPause (snd sg) \<noteq> 0 \<and> \<not> bPaused (snd sg) then TimeDilation (snd sg)
        else fTimeDilationBeforeSession (fst sg))"
  by (simp_all add: UpdateCamera_SessionStart_def Let_def case_prod_beta SetUpSessionCVars_shape
      notify_def ansel_sdk_def ShowHUD_def CVarPhotographyAutoPause_def)

lemma UpdateCamera_PauseCheck_simps [simp]:
  "bPaused (snd (UpdateCamera_PauseCheck sg))
     = (bPaused (snd sg) \<or> (NumFramesSinceSessionStart (fst sg) = 2 \<and> bAutoPause (fst sg)
                               \<and> \<not> bWasPausedBeforeSession (fst sg)))"
  "bPausedInternally (fst (UpdateCamera_PauseCheck sg))
     = (bPausedInternally (fst sg) \<or> (NumFramesSinceSessionStart (fst sg) = 2 \<and> bAutoPause (fst sg)
                               \<and> \<not> bWasPausedBeforeSession (fst sg)))"
  "TimeDilation (snd (UpdateCamera_PauseCheck sg)) = TimeDilation (snd sg)"
  "NumFramesSinceSessionStart (fst (UpdateCamera_PauseCheck sg)) = NumFramesSinceSessionStart (fst sg)"
  "bAutoPause (fst (UpdateCamera_PauseCheck sg)) = bAutoPause (fst sg)"
  "bWasPausedBeforeSession (fst (UpdateCamera_PauseCheck sg)) = bWasPausedBeforeSession (fst sg)"
  "fTimeDilationBeforeSession (fst (UpdateCamera_PauseCheck sg)) = fTimeDilationBeforeSession (fst sg)"
  "bAnselSessionActive (fst (UpdateCamera_PauseCheck sg)) = bAnselSessionActive (fst sg)"
  "bAnselSessionNewlyActive (fst (UpdateCamera_PauseCheck sg)) = bAnselSessionNewlyActive (fst sg)"
  "bAnselSessionWantDeactivate (fst (UpdateCamera_PauseCheck sg)) = bAnselSessionWantDeactivate (fst sg)"
  by (auto simp add: UpdateCamera_PauseCheck_def case_prod_beta)

lemma UpdateCamera_Deactivate_pause:
  "bPaused (snd (UpdateCamera_Deactivate sg))
     = (if bAutoPause (fst sg) \<and> \<not> bWasPausedBeforeSession (fst sg) then False else bPaused (snd sg))"
  "TimeDilation (snd (UpdateCamera_Deactivate sg))
     = (if bAutoPause (fst sg) \<and> \<not> bWasPausedBeforeSession (fst sg)
        then fTimeDilationBeforeSession (fst sg) else TimeDilation (snd sg))"
  "\<not> bAnselSessionActive (fst (UpdateCamera_Deactivate sg))"
  "\<not> bAnselSessionWantDeactivate (fst (UpdateCamera_Deactivate sg))"
  "bAnselSessionNewlyActive (fst (UpdateCamera_Deactivate sg)) = bAnselSessionNewlyActive (fst sg)"
  by (simp_all add: UpdateCamera_Deactivate_def Let_def case_prod_beta notify_def ShowHUD_def)

lemma ansel_sdk_simps [simp]:
  "bPaused (ansel_sdk c g) = bPaused g"
  "TimeDilation (ansel_sdk c g) = TimeDilation g"
  "ConsoleManager (ansel_sdk c g) = ConsoleManager g"
  by (simp_all add: ansel_sdk_def)

text \<open>
  Claim C2.  Pausing is sequenced over frames.  On the frame where a session is newly
  active, with \<open>r.Photography.AutoPause\<close> on and the game not paused, \<open>UpdateCamera\<close>
  saves the time dilation, sets it to 0 and does not pause; the next frame does not
  pause either, and the frame after it (frame counter 2) pauses.  Whenever an
  \<open>UpdateCamera\<close> call turns the pause on, the frame counter is 2 after that call
  and the session is active and not deactivating.  On deactivation, if auto-pause
  was on and the game was not paused before the session, the time dilation is set
  back to the saved value and the game is unpaused.
\<close>

theorem pause_sequencing:
  "(bAnselSessionActive s \<and> bAnselSessionNewlyActive s \<and> \<not> bAnselSessionWantDeactivate s
      \<and> CVarPhotographyAutoPause g \<noteq> 0 \<and> \<not> bPaused g \<longrightarrow>
      (let sg1 = UpdateCamera_state pov1 (s, g);
           sg2 = UpdateCamera_state pov2 sg1;
           sg3 = UpdateCamera_state pov3 sg2
       in TimeDilation (snd sg1) = 0 \<and> \<not> bPaused (snd sg1)
          \<and> fTimeDilationBeforeSession (fst sg1) = TimeDilation g
          \<and> NumFramesSinceSessionStart (fst sg1) = 0
          \<and> \<not> bPaused (snd sg2) \<and> NumFramesSinceSessionStart (fst sg2) = 1
          \<and> bPaused (snd sg3) \<and> NumFramesSinceSessionStart (fst sg3) = 2))
   \<and> (\<not> bPaused g \<and> bPaused (snd (UpdateCamera_state pov (s, g))) \<longrightarrow>
        NumFramesSinceSessionStart (fst (UpdateCamera_state pov (s, g))) = 2
        \<and> bAnselSessionActive s \<and> \<not> bAnselSessionWantDeactivate s)
   \<and> (bAnselSessionActive s \<and> bAnselSessionWantDeactivate s \<and> bAutoPause s
        \<and> \<not> bWasPausedBeforeSession s \<longrightarrow>
        TimeDilation (snd (UpdateCamera_state pov (s, g))) = fTimeDilationBeforeSession s
        \<and> \<not> bPaused (snd (UpdateCamera_state pov (s, g)))
        \<and> \<not> bAnselSessionActive (fst (UpdateCamera_state pov (s, g))))"
proof (intro conjI impI)
  assume h: "bAnselSessionActive s \<and> bAnselSessionNewlyActive s \<and> \<not> bAnselSessionWantDeactivate s
      \<and> CVarPhotographyAutoPause g \<noteq> 0 \<and> \<not> bPaused g"
  define sg1 where "sg1 = UpdateCamera_state pov1 (s, g)"
  define sg2 where "sg2 = UpdateCamera_state pov2 sg1"
  define sg3 where "sg3 = UpdateCamera_state pov3 sg2"
  have ap: "CVarPhotographyAutoPause (snd (SessionFramePrelude (s, g))) = CVarPhotographyAutoPause g"
    by (simp add: CVarPhotographyAutoPause_def)
  have e1: "sg1 = UpdateCamera_PauseCheck (UpdateCamera_SessionStart (SessionFramePrelude (s, g)))"
    using h by (simp add: sg1_def UpdateCamera_state_in_session)
  have f1: "TimeDilation (snd sg1) = 0" "\<not> bPaused (snd sg1)"
    "fTimeDilationBeforeSession (fst sg1) = TimeDilation g"
    "NumFramesSinceSessionStart (fst sg1) = 0"
    "bAutoPause (fst sg1)" "\<not> bWasPausedBeforeSession (fst sg1)"
    "bAnselSessionActive (fst sg1)" "\<not> bAnselSessionNewlyActive (fst sg1)"
    "\<not> bAnselSessionWantDeactivate (fst sg1)"
    using h by (simp_all add: e1 UpdateCamera_SessionStart_pause ap)
  have e2: "sg2 = UpdateCamera_PauseCheck
                   (fst (SessionFramePrelude sg1), ansel_sdk ansel_updateCamera (snd (SessionFramePrelude sg1)))"
    using f1 UpdateCamera_state_in_session [of "fst sg1" pov2 "snd sg1"] by (simp add: sg2_def)
  have f2: "\<not> bPaused (snd sg2)" "NumFramesSinceSessionStart (fst sg2) = 1"
    "bAutoPause (fst sg2)" "\<not> bWasPausedBeforeSession (fst sg2)"
    "bAnselSessionActive (fst sg2)" "\<not> bAnselSessionNewlyActive (fst sg2)"
    "\<not> bAnselSessionWantDeactivate (fst sg2)"
    using f1 by (simp_all add: e2)
  have e3: "sg3 = UpdateCamera_PauseCheck
                   (fst (SessionFramePrelude sg2), ansel_sdk ansel_updateCamera (snd (SessionFramePrelude sg2)))"
    using f2 UpdateCamera_state_in_session [of "fst sg2" pov3 "snd sg2"] by (simp add: sg3_def)
  have f3: "bPaused (snd sg3)" "NumFramesSinceSessionStart (fst sg3) = 2"
    using f2 by (simp_all add: e3)
  show "let sg1 = UpdateCamera_state pov1 (s, g);
           sg2 = UpdateCamera_state pov2 sg1;
           sg3 = UpdateCamera_state pov3 sg2
       in TimeDilation (snd sg1) = 0 \<and> \<not> bPaused (snd sg1)
          \<and> fTimeDilationBeforeSession (fst sg1) = TimeDilation g
          \<and> NumFramesSinceSessionStart (fst sg1) = 0
          \<and> \<not> bPaused (snd sg2) \<and> NumFramesSinceSessionStart (fst sg2) = 1
          \<and> bPaused (snd sg3) \<and> NumFramesSinceSessionStart (fst sg3) = 2"
    using f1 f2 f3 unfolding Let_def sg1_def sg2_def sg3_def by blast
next
  assume h: "\<not> bPaused g \<and> bPaused (snd (UpdateCamera_state pov (s, g)))"
  have act: "bAnselSessionActive s"
  proof (rule ccontr)
    assume "\<not> bAnselSessionActive s"
    then have "bPaused (snd (UpdateCamera_state pov (s, g))) = bPaused g"
      by (simp add: UpdateCamera_state_not_in_session UpdateCamera_NotInSession_def Let_def
          ReconfigureAnsel_def UE_LOG_def ansel_sdk_def split: option.splits)
    then show False using h by simp
  qed
  have nw: "\<not> bAnselSessionWantDeactivate s"
  proof
    assume "bAnselSessionWantDeactivate s"
    then have "\<not> bPaused (snd (UpdateCamera_state pov (s, g)))"
      using act h by (simp add: UpdateCamera_state_in_session UpdateCamera_Deactivate_pause)
    then show False using h by simp
  qed
  have "NumFramesSinceSessionStart (fst (UpdateCamera_state pov (s, g))) = 2"
    using act nw h
    by (auto simp add: UpdateCamera_state_in_session UpdateCamera_SessionStart_pause split: if_splits)
  then show "NumFramesSinceSessionStart (fst (UpdateCamera_state pov (s, g))) = 2"
    and "bAnselSessionActive s" and "\<not> bAnselSessionWantDeactivate s"
    using act nw by simp_all
next
  assume h: "bAnselSessionActive s \<and> bAnselSessionWantDeactivate s \<and> bAutoPause s
        \<and> \<not> bWasPausedBeforeSession s"
  then show "TimeDilation (snd (UpdateCamera_state pov (s, g))) = fTimeDilationBeforeSession s"
    and "\<not> bPaused (snd (UpdateCamera_state pov (s, g)))"
    and "\<not> bAnselSessionActive (fst (UpdateCamera_state pov (s, g)))"
    by (simp_all add: UpdateCamera_state_in_session UpdateCamera_Deactivate_pause)
qed

lemma example_autopause: "CVarPhotographyAutoPause example_globals = 1"
  by (simp add: CVarPhotographyAutoPause_def GetInt_def example_globals_def example_console_def
      example_cvars_def cvar_key_def ToLower_def)

theorem pause_sequencing_witness:
  "TimeDilation (snd (UpdateCamera_state example_pov (newly_active_memory, example_globals))) = 0
   \<and> \<not> bPaused (snd (UpdateCamera_state example_pov (newly_active_memory, example_globals)))
   \<and> \<not> bPaused (snd (UpdateCamera_state example_pov
                  (UpdateCamera_state example_pov (newly_active_memory, example_globals))))
   \<and> bPaused (snd (UpdateCamera_state example_pov
                (UpdateCamera_state example_pov
                  (UpdateCamera_state example_pov (newly_active_memory, example_globals)))))
   \<and> NumFramesSinceSessionStart (fst (UpdateCamera_state example_pov
                (UpdateCamera_state example_pov
                  (UpdateCamera_state example_pov (newly_active_memory, example_globals))))) = 2
   \<and> TimeDilation (snd (UpdateCamera_state example_pov (ending_memory, paused_globals))) = 1
   \<and> \<not> bPaused (snd (UpdateCamera_state example_pov (ending_memory, paused_globals)))"
proof -
  let ?sg1 = "UpdateCamera_state example_pov (newly_active_memory, example_globals)"
  let ?sg2 = "UpdateCamera_state example_pov ?sg1"
  let ?sg3 = "UpdateCamera_state example_pov ?sg2"
  have start: "bAnselSessionActive newly_active_memory \<and> bAnselSessionNewlyActive newly_active_memory
      \<and> \<not> bAnselSessionWantDeactivate newly_active_memory
      \<and> CVarPhotographyAutoPause example_globals \<noteq> 0 \<and> \<not> bPaused example_globals"
    by (simp add: example_autopause) (simp add: newly_active_memory_def zero_memory_def example_globals_def)
  have a: "TimeDilation (snd ?sg1) = 0 \<and> \<not> bPaused (snd ?sg1) \<and> \<not> bPaused (snd ?sg2)
           \<and> bPaused (snd ?sg3)"
    using pause_sequencing [of newly_active_memory example_globals example_pov example_pov example_pov]
      start unfolding Let_def by blast
  have "\<not> bPaused (snd ?sg2) \<and> bPaused (snd (UpdateCamera_state example_pov (fst ?sg2, snd ?sg2)))"
    using a by simp
  then have b: "NumFramesSinceSessionStart (fst ?sg3) = 2"
    using pause_sequencing [of "fst ?sg2" "snd ?sg2" example_pov example_pov example_pov example_pov]
    by simp
  have ending: "bAnselSessionActive ending_memory \<and> bAnselSessionWantDeactivate ending_memory
      \<and> bAutoPause ending_memory \<and> \<not> bWasPausedBeforeSession ending_memory"
    by (simp add: ending_memory_def zero_memory_def)
  have "fTimeDilationBeforeSession ending_memory = 1"
    by (simp add: ending_memory_def)
  then have c: "TimeDilation (snd (UpdateCamera_state example_pov (ending_memory, paused_globals))) = 1
      \<and> \<not> bPaused (snd (UpdateCamera_state example_pov (ending_memory, paused_globals)))"
    using pause_sequencing [of ending_memory paused_globals example_pov example_pov example_pov example_pov]
      ending by simp
  from a b c show ?thesis by blast
qed

subsection \<open>What UpdatePostProcessing leaves alone\<close>

lemma pp_onlyI: "(\<And>s g. blank_pp (F (s, g)) = blank_pp (s, g)) \<Longrightarrow> pp_only F"
  unfolding pp_only_def by auto

lemma pp_onlyD: "pp_only F \<Longrightarrow> blank_pp (F sg) = blank_pp sg"
  unfolding pp_only_def by blast

lemma blank_pp_blank_cvar: "blank_pp (blank_cvar sg) = blank_pp sg"
  by (simp add: blank_pp_def blank_cvar_def)

lemma cvar_only_pp_only: "cvar_only F \<Longrightarrow> pp_only F"
  unfolding pp_only_def cvar_only_def by (metis blank_pp_blank_cvar)

lemma pp_only_in_order:
  assumes "\<And>F. F \<in> set fs \<Longrightarrow> pp_only F"
  shows "pp_only (in_order fs)"
  using assms
proof (induction fs)
  case Nil
  show ?case unfolding pp_only_def in_order_Nil by blast
next
  case (Cons f fs)
  then have f: "pp_only f" and fs: "pp_only (in_order fs)" by simp_all
  show ?case
    unfolding pp_only_def in_order_Cons
  proof
    fix sg
    have "blank_pp (in_order fs (f sg)) = blank_pp (f sg)"
      using fs by (rule pp_onlyD)
    also have "\<dots> = blank_pp sg"
      using f by (rule pp_onlyD)
    finally show "blank_pp (in_order fs (f sg)) = blank_pp sg" .
  qed
qed

lemma blank_pp_ui [simp]:
  "blank_pp (DeclareSlider c l u v sg) = blank_pp sg"
  "blank_pp (DeclareBool c b sg) = blank_pp sg"
  "blank_pp (ClearUserControl c sg) = blank_pp sg"
  by (cases sg;
      simp add: DeclareSlider_def DeclareBool_def ClearUserControl_def blank_pp_def UE_LOG_def
        ansel_sdk_def Let_def)+

lemma pp_only_ui [simp]:
  "pp_only (DeclareSlider c l u v)"
  "pp_only (DeclareBool c b)"
  "pp_only (ClearUserControl c)"
  by (rule pp_onlyI; simp)+

lemma pp_only_clear_all: "pp_only (in_order (map ClearUserControl all_controls))"
  by (rule pp_only_in_order) auto

lemma blank_pp_in_order:
  "(\<And>F. F \<in> set fs \<Longrightarrow> pp_only F) \<Longrightarrow> blank_pp (in_order fs x) = blank_pp x"
  using pp_only_in_order pp_onlyD by blast

lemma blank_pp_updates [simp]:
  "blank_pp (a\<lparr>UEPostProcessingOriginal := q\<rparr>, c) = blank_pp (a, c)"
  "blank_pp (a\<lparr>bUIControlsNeedRebuild := r\<rparr>, c) = blank_pp (a, c)"
  "blank_pp (a\<lparr>bHighLodIsSetup := r\<rparr>, c) = blank_pp (a, c)"
  "blank_pp (a\<lparr>bHighLumenIsSetup := r\<rparr>, c) = blank_pp (a, c)"
  "blank_pp (a\<lparr>bHighSkyLightIsSetup := r\<rparr>, c) = blank_pp (a, c)"
  "blank_pp (a\<lparr>bHighSgQualityIsSetup := r\<rparr>, c) = blank_pp (a, c)"
  "blank_pp (a\<lparr>bHighAntiAliasingIsSetup := r\<rparr>, c) = blank_pp (a, c)"
  "blank_pp (a\<lparr>bHighQualityModeIsSetup := r\<rparr>, c) = blank_pp (a, c)"
  "blank_pp (a, UE_LOG m c) = blank_pp (a, c)"
  "blank_pp (a\<lparr>bHighLodDesired := r1, bHighLumenDesired := r2, bHighSkyLightDesired := r3,
               bHighAntiAliasingDesired := r4, bHighSgQualityDesired := r5\<rparr>, c) = blank_pp (a, c)"
  by (simp_all add: blank_pp_def UE_LOG_def)

lemma pp_only_RebuildUIControls [simp]: "pp_only (RebuildUIControls pp)"
proof (rule pp_onlyI)
  fix s g
  define sg1 where "sg1 = in_order (map ClearUserControl all_controls) (s, g)"
  define sg2 where "sg2 = in_order
                  [DeclareBool control_OLDSettings False,
                   DeclareBool control_LumenSettings False,
                   DeclareBool control_SkylightSettings False,
                   DeclareBool control_AntiAliasing False,
                   DeclareBool control_sgQuality False] sg1"
  define sg3 where "sg3 = (fst sg2\<lparr>UEPostProcessingOriginal := pp\<rparr>, snd sg2)"
  define sg4 where "sg4 = (if bEffectUIAllowed (fst sg3) DepthOfField
                    \<and> Setting pp DepthOfFieldFstop > 0
                    \<and> Setting pp DepthOfFieldFocalDistance > 0
                 then in_order
                   [DeclareSlider control_dofsensorwidth (1 / 10) 1000
                      (Setting pp DepthOfFieldSensorWidth),
                    DeclareSlider control_doffocaldistance 0 1000
                      (Setting pp DepthOfFieldFocalDistance),
                    DeclareSlider control_dofdepthbluramount (1 / 1000000) 1
                      (Setting pp DepthOfFieldDepthBlurAmount),
                    DeclareSlider control_dofdepthblurradius 0 4
                      (Setting pp DepthOfFieldDepthBlurRadius)] sg3
                 else sg3)"
  define sg5 where "sg5 = (if bEffectUIAllowed (fst sg4) Bloom \<and> Setting pp BloomIntensity > 0
                 then in_order
                   [DeclareSlider control_bloomintensity 0 8 (Setting pp BloomIntensity),
                    DeclareSlider control_bloomscale 0 64 (Setting pp BloomSizeScale)] sg4
                 else sg4)"
  define sg6 where "sg6 = (if bEffectUIAllowed (fst sg5) ChromaticAberration
                    \<and> Setting pp SceneFringeIntensity > 0
                 then DeclareSlider control_scenefringeintensity 0 15
                        (Setting pp SceneFringeIntensity) sg5
                 else sg5)"
  have r: "RebuildUIControls pp (s, g) = (fst sg6\<lparr>bUIControlsNeedRebuild := False\<rparr>, snd sg6)"
    unfolding RebuildUIControls_def Let_def sg6_def sg5_def sg4_def sg3_def sg2_def sg1_def ..
  have 1: "blank_pp sg1 = blank_pp (s, g)"
    unfolding sg1_def by (rule blank_pp_in_order) auto
  have 2: "blank_pp sg2 = blank_pp sg1"
    unfolding sg2_def by simp
  have 3: "blank_pp sg3 = blank_pp sg2"
    unfolding sg3_def by (cases sg2) simp
  have 4: "blank_pp sg4 = blank_pp sg3"
    unfolding sg4_def by simp
  have 5: "blank_pp sg5 = blank_pp sg4"
    unfolding sg5_def by simp
  have 6: "blank_pp sg6 = blank_pp sg5"
    unfolding sg6_def by simp
  have "blank_pp (RebuildUIControls pp (s, g)) = blank_pp sg6"
    unfolding r by (cases sg6) simp
  then show "blank_pp (RebuildUIControls pp (s, g)) = blank_pp (s, g)"
    using 1 2 3 4 5 6 by simp
qed

lemma pp_only_DoCustomUIControls [simp]: "pp_only (\<lambda>sg. snd (DoCustomUIControls pp b sg))"
proof (rule pp_onlyI)
  fix s g
  define sg1 where "sg1 = (if b then RebuildUIControls pp (s, g) else (s, g))"
  have 1: "blank_pp sg1 = blank_pp (s, g)"
    unfolding sg1_def by (simp add: pp_onlyD)
  have "blank_pp (snd (DoCustomUIControls pp b (s, g))) = blank_pp sg1"
    unfolding DoCustomUIControls_def Let_def sg1_def [symmetric]
    by (cases sg1) simp
  then show "blank_pp (snd (DoCustomUIControls pp b (s, g))) = blank_pp (s, g)"
    using 1 by simp
qed

lemma pp_only_ConfigureQualityGroups [simp]: "pp_only ConfigureQualityGroups"
proof (rule pp_onlyI)
  fix s g
  have io: "blank_pp (in_order fs x) = blank_pp x" if "cvar_only (in_order fs)" for fs x
    using cvar_only_pp_only [OF that] by (rule pp_onlyD)
  have step: "blank_pp (case in_order fs x of (s, g) \<Rightarrow> (upd s, g)) = blank_pp x"
    if "cvar_only (in_order fs)" "\<And>a c. blank_pp (upd a, c) = blank_pp (a, c)" for fs x upd
    using io [OF that(1), of x] that(2) by (cases "in_order fs x") simp
  define sg1 where "sg1 = (if bHighLodIsSetup (fst (s, g)) \<noteq> bHighLodDesired (fst (s, g))
                 then let (s, g) = in_order LodSettings (s, g)
                      in (s\<lparr>bHighLodIsSetup := bHighLodDesired s\<rparr>, g)
                 else (s, g))"
  define sg2 where "sg2 = (if bHighLumenIsSetup (fst sg1) \<noteq> bHighLumenDesired (fst sg1)
                 then let (s, g) = in_order LumenSettings sg1
                      in (s\<lparr>bHighLumenIsSetup := bHighLumenDesired s\<rparr>, g)
                 else sg1)"
  define sg3 where "sg3 = (if bHighSkyLightIsSetup (fst sg2) \<noteq> bHighSkyLightDesired (fst sg2)
                 then let (s, g) = in_order SkylightSettings sg2
                      in (s\<lparr>bHighSkyLightIsSetup := bHighSkyLightDesired s\<rparr>, g)
                 else sg2)"
  define sg4 where "sg4 = (if bHighSgQualityIsSetup (fst sg3) \<noteq> bHighSgQualityDesired (fst sg3)
                 then let (s, g) = in_order SgQualitySettings sg3
                      in (s\<lparr>bHighSgQualityIsSetup := bHighSgQualityDesired s\<rparr>, g)
                 else sg3)"
  define sg5 where "sg5 = (if bHighAntiAliasingIsSetup (fst sg4) \<noteq> bHighAntiAliasingDesired (fst sg4)
          then let (s, g) = in_order AntiAliasingSettings
                              (fst sg4, UE_LOG ''AntiAliasing is high quality:True'' (snd sg4))
               in (s\<lparr>bHighAntiAliasingIsSetup := bHighAntiAliasingDesired s\<rparr>, g)
          else sg4)"
  have r: "ConfigureQualityGroups (s, g) = sg5"
    unfolding ConfigureQualityGroups_def sg5_def sg4_def sg3_def sg2_def sg1_def Let_def ..
  have 1: "blank_pp sg1 = blank_pp (s, g)"
    unfolding sg1_def Let_def by (simp add: step)
  have 2: "blank_pp sg2 = blank_pp sg1"
    unfolding sg2_def Let_def by (simp add: step)
  have 3: "blank_pp sg3 = blank_pp sg2"
    unfolding sg3_def Let_def by (simp add: step)
  have 4: "blank_pp sg4 = blank_pp sg3"
    unfolding sg4_def Let_def by (simp add: step)
  have 5: "blank_pp sg5 = blank_pp sg4"
    unfolding sg5_def Let_def by (cases sg4) (simp add: step)
  show "blank_pp (ConfigureQualityGroups (s, g)) = blank_pp (s, g)"
    using r 1 2 3 4 5 by simp
qed

lemma blank_pp_cvar_only: "cvar_only F \<Longrightarrow> blank_pp (F x) = blank_pp x"
  using cvar_only_pp_only pp_onlyD by blast

lemma blank_pp_QUALITY_CVAR [simp]: "blank_pp (QUALITY_CVAR N v x) = blank_pp x"
  by (rule blank_pp_cvar_only) simp

lemma pp_only_ConfigureHighQuality [simp]: "pp_only ConfigureHighQuality"
proof (rule pp_onlyI)
  fix s g
  define sg1 where "sg1 = in_order HighQualitySettings
                    (fst (s, g), UE_LOG ''Photography is high quality:True'' (snd (s, g)))"
  define sg2 where "sg2 = (if bRayTracingEnabled (fst sg1)
                   then in_order HighQualityRayTracingSettings sg1 else sg1)"
  define sg3 where "sg3 = (if CVarExtreme (snd sg2) \<noteq> 0
                   then
                     let sga = in_order ExtremeSettings sg2;
                         sgb = (if bRayTracingEnabled (fst sga)
                                then in_order ExtremeRayTracingSettings sga else sga)
                     in QUALITY_CVAR ''r.particlelodbias'' (- 10) sgb
                   else sg2)"
  have 1: "blank_pp sg1 = blank_pp (s, g)"
    unfolding sg1_def by (simp add: blank_pp_cvar_only)
  have 2: "blank_pp sg2 = blank_pp sg1"
    unfolding sg2_def by (simp add: blank_pp_cvar_only)
  have 3: "blank_pp sg3 = blank_pp sg2"
    unfolding sg3_def Let_def by (simp add: blank_pp_cvar_only)
  have "blank_pp (ConfigureHighQuality (s, g)) = blank_pp (s, g) \<or>
        blank_pp (ConfigureHighQuality (s, g)) = blank_pp sg3"
    unfolding ConfigureHighQuality_def Let_def sg3_def sg2_def sg1_def
    by (simp add: case_prod_beta del: in_order_Cons in_order_Nil)
  then show "blank_pp (ConfigureHighQuality (s, g)) = blank_pp (s, g)"
    using 1 2 3 by auto
qed

lemma pp_only_UpdatePostProcessing [simp]: "pp_only (\<lambda>sg. snd (UpdatePostProcessing pp sg))"
proof (rule pp_onlyI)
  fix s g
  have c: "blank_pp (snd (ConfigureRenderingSettingsForPhotography q x)) = blank_pp x" for q x
    unfolding ConfigureRenderingSettingsForPhotography_def Let_def
    by (simp add: blank_pp_cvar_only pp_onlyD [OF pp_only_ConfigureHighQuality]
        pp_onlyD [OF pp_only_ConfigureQualityGroups])
  have d: "blank_pp (snd (DoCustomUIControls q b x)) = blank_pp x" for q b x
    using pp_onlyD [OF pp_only_DoCustomUIControls] .
  show "blank_pp (snd (UpdatePostProcessing pp (s, g))) = blank_pp (s, g)"
    unfolding UpdatePostProcessing_def
    by (simp add: case_prod_beta c d)
qed

lemma pp_only_keeps:
  assumes "pp_only F" and "\<And>x. obs (blank_pp x) = obs x"
  shows "obs (F sg) = obs sg"
  by (metis assms pp_onlyD)

subsection \<open>Session start and restore along a run\<close>

lemma session_flags_blank_pp: "session_flags (blank_pp x) = session_flags x"
  by (simp add: session_flags_def blank_pp_def)

lemma session_flags_start:
  "session_flags (step (StartSessionEvent settings) sg) =
     (if \<not> bForceDisallow (fst sg) \<and> CVarPhotographyAllow (snd sg) \<noteq> 0 \<and> \<not> GIsEditor (snd sg)
      then (True, True, bAnselSessionWantDeactivate (fst sg)) else session_flags sg)"
  by (simp add: session_flags_def AnselStartSessionCallback_def Let_def)

lemma session_flags_stop:
  "session_flags (step StopSessionEvent sg) =
     (if bAnselSessionActive (fst sg) \<and> bAnselSessionNewlyActive (fst sg)
      then (False, bAnselSessionNewlyActive (fst sg), bAnselSessionWantDeactivate (fst sg))
      else (bAnselSessionActive (fst sg), bAnselSessionNewlyActive (fst sg), True))"
  by (simp add: session_flags_def AnselStopSessionCallback_def Let_def)

lemma session_flags_frame:
  "session_flags (step (FrameEvent pov) sg) =
     (case frame_path (fst sg) of
        Some RestorePath \<Rightarrow> (False, bAnselSessionNewlyActive (fst sg), False)
      | Some StartPath \<Rightarrow> (True, False, False)
      | None \<Rightarrow> session_flags sg)"
proof (cases sg)
  case (Pair s g)
  show ?thesis
  proof (cases "bAnselSessionActive s")
    case True
    then show ?thesis
      unfolding Pair
      by (simp add: session_flags_def frame_path_def UpdateCamera_state_in_session
          UpdateCamera_Deactivate_pause UpdateCamera_SessionStart_pause)
  next
    case False
    then show ?thesis
      unfolding Pair
      by (simp add: session_flags_def frame_path_def UpdateCamera_state_not_in_session)
  qed
qed

lemma session_flags_other:
  "session_flags (step (PostProcessEvent pp) sg) = session_flags sg"
  "session_flags (step (StartCaptureEvent info) sg) = session_flags sg"
  "session_flags (step StopCaptureEvent sg) = session_flags sg"
  "session_flags (step (ChangeQualityEvent b) sg) = session_flags sg"
  "session_flags (step (SliderEvent c v) sg) = session_flags sg"
  "session_flags (step (BoolEvent c w) sg) = session_flags sg"
proof -
  show "session_flags (step (PostProcessEvent pp) sg) = session_flags sg"
    using pp_only_keeps [OF pp_only_UpdatePostProcessing, of session_flags pp sg]
    by (simp add: session_flags_blank_pp)
qed (simp_all add: session_flags_def AnselStartCaptureCallback_def AnselStopCaptureCallback_def
      AnselChangeQualityCallback_def SliderCallback_def BoolCallback_def)

lemma paired_pairing:
  "pairing_inv started sg \<Longrightarrow> well_sequenced es sg \<Longrightarrow> paired started (paths es sg)"
proof (induction es arbitrary: started sg)
  case Nil
  then show ?case by simp
next
  case (Cons e es)
  obtain A N W where fl: "session_flags sg = (A, N, W)"
    by (cases "session_flags sg") auto
  have AN: "bAnselSessionActive (fst sg) = A" "bAnselSessionNewlyActive (fst sg) = N"
    "bAnselSessionWantDeactivate (fst sg) = W"
    using fl by (simp_all add: session_flags_def)
  have inv: "(\<not> W \<or> (A \<and> \<not> N))" "started = (A \<and> \<not> N)"
    using Cons.prems(1) fl by (simp_all add: pairing_inv_def)
  show ?case
  proof (cases e)
    case (StartSessionEvent settings)
    have na: "\<not> A" and ws: "well_sequenced es (step e sg)"
      using Cons.prems(2) AN by (simp_all add: StartSessionEvent)
    have "session_flags (step e sg) = (True, True, W) \<or> session_flags (step e sg) = (A, N, W)"
      unfolding StartSessionEvent session_flags_start using fl AN by simp
    then have "pairing_inv started (step e sg)"
      unfolding pairing_inv_def using inv na by auto
    from Cons.IH [OF this ws] show ?thesis
      by (simp add: StartSessionEvent)
  next
    case StopSessionEvent
    have a: "A" and ws: "well_sequenced es (step e sg)"
      using Cons.prems(2) AN by (simp_all add: StopSessionEvent)
    have "session_flags (step e sg) = (if A \<and> N then (False, N, W) else (A, N, True))"
      unfolding StopSessionEvent session_flags_stop using AN by simp
    then have "pairing_inv started (step e sg)"
      unfolding pairing_inv_def using inv a by auto
    from Cons.IH [OF this ws] show ?thesis
      by (simp add: StopSessionEvent)
  next
    case (FrameEvent pov)
    have ws: "well_sequenced es (step e sg)"
      using Cons.prems(2) by (simp add: FrameEvent)
    have fs: "session_flags (step e sg) =
     (case frame_path (fst sg) of
        Some RestorePath \<Rightarrow> (False, N, False)
      | Some StartPath \<Rightarrow> (True, False, False)
      | None \<Rightarrow> (A, N, W))"
      unfolding FrameEvent session_flags_frame using AN fl
      by (simp split: option.splits session_path.splits)
    show ?thesis
    proof (cases "frame_path (fst sg)")
      case None
      then have "pairing_inv started (step e sg)"
        unfolding pairing_inv_def fs using inv by simp
      from Cons.IH [OF this ws] show ?thesis
        by (simp add: FrameEvent None)
    next
      case (Some p)
      show ?thesis
      proof (cases p)
        case StartPath
        have c: "A \<and> \<not> W \<and> N"
          using Some StartPath AN by (auto simp add: frame_path_def split: if_splits)
        have "pairing_inv True (step e sg)"
          unfolding pairing_inv_def fs using Some StartPath by simp
        from Cons.IH [OF this ws] show ?thesis
          using inv c by (simp add: FrameEvent Some StartPath)
      next
        case RestorePath
        have c: "A \<and> W"
          using Some RestorePath AN by (auto simp add: frame_path_def split: if_splits)
        have "pairing_inv False (step e sg)"
          unfolding pairing_inv_def fs using Some RestorePath by simp
        from Cons.IH [OF this ws] show ?thesis
          using inv c by (simp add: FrameEvent Some RestorePath)
      qed
    qed
  next
    case (PostProcessEvent pp)
    have "pairing_inv started (step e sg)"
      unfolding pairing_inv_def PostProcessEvent session_flags_other
      using Cons.prems(1) by (simp add: pairing_inv_def)
    moreover have "well_sequenced es (step e sg)"
      using Cons.prems(2) by (simp add: PostProcessEvent)
    ultimately show ?thesis
      using Cons.IH by (simp add: PostProcessEvent)
  next
    case (StartCaptureEvent info)
    have "pairing_inv started (step e sg)"
      unfolding pairing_inv_def StartCaptureEvent session_flags_other
      using Cons.prems(1) by (simp add: pairing_inv_def)
    moreover have "well_sequenced es (step e sg)"
      using Cons.prems(2) by (simp add: StartCaptureEvent)
    ultimately show ?thesis
      using Cons.IH by (simp add: StartCaptureEvent)
  next
    case StopCaptureEvent
    have "pairing_inv started (step e sg)"
      unfolding pairing_inv_def StopCaptureEvent session_flags_other
      using Cons.prems(1) by (simp add: pairing_inv_def)
    moreover have "well_sequenced es (step e sg)"
      using Cons.prems(2) by (simp add: StopCaptureEvent)
    ultimately show ?thesis
      using Cons.IH by (simp add: StopCaptureEvent)
  next
    case (ChangeQualityEvent b)
    have "pairing_inv started (step e sg)"
      unfolding pairing_inv_def ChangeQualityEvent session_flags_other
      using Cons.prems(1) by (simp add: pairing_inv_def)
    moreover have "well_sequenced es (step e sg)"
      using Cons.prems(2) by (simp add: ChangeQualityEvent)
    ultimately show ?thesis
      using Cons.IH by (simp add: ChangeQualityEvent)
  next
    case (SliderEvent c v)
    have "pairing_inv started (step e sg)"
      unfolding pairing_inv_def SliderEvent session_flags_other
      using Cons.prems(1) by (simp add: pairing_inv_def)
    moreover have "well_sequenced es (step e sg)"
      using Cons.prems(2) by (simp add: SliderEvent)
    ultimately show ?thesis
      using Cons.IH by (simp add: SliderEvent)
  next
    case (BoolEvent c v)
    have "pairing_inv started (step e sg)"
      unfolding pairing_inv_def BoolEvent session_flags_other
      using Cons.prems(1) by (simp add: pairing_inv_def)
    moreover have "well_sequenced es (step e sg)"
      using Cons.prems(2) by (simp add: BoolEvent)
    ultimately show ?thesis
      using Cons.IH by (simp add: BoolEvent)
  qed
qed

lemma key_simps:
  "cvar_key ''r.Photography.Allow'' = ''r.photography.allow''"
  "cvar_key ''r.Photography.AutoPause'' = ''r.photography.autopause''"
  "cvar_key ''r.Photography.AutoPostprocess'' = ''r.photography.autopostprocess''"
  "cvar_key ''r.oneframethreadlag'' = ''r.oneframethreadlag''"
  "cvar_key ''r.streaming.minmipforsplitrequest'' = ''r.streaming.minmipforsplitrequest''"
  "cvar_key ''r.streaming.hiddenprimitivescale'' = ''r.streaming.hiddenprimitivescale''"
  "cvar_key ''r.Streaming.Boost'' = ''r.streaming.boost''"
  "cvar_key ''r.motionblurquality'' = ''r.motionblurquality''"
  by (simp_all add: cvar_key_def ToLower_def)

lemmas evaluation_simps =
  frame_path_def zero_memory_def example_globals_def example_console_def
  example_cvars_def example_settings_def example_pov_def
  AnselStartSessionCallback_def AnselStopSessionCallback_def
  UpdateCamera_state_def UpdateCamera_def UpdateCamera_NotInSession_def
  UpdateCamera_Deactivate_def UpdateCamera_SessionStart_def UpdateCamera_PauseCheck_def
  SetUpSessionCVars_def SetCapturedCVar_def SetCapturedCVarPredicated_def CaptureCVar_def
  TMap_Contains_def FindConsoleVariable_def GetFloat_def GetInt_def CVar_Set_def
  CVar_SetWithCurrentPriority_def ECVF_SetByCode_def RestoreCVars_def
  CVarPhotographyAllow_def CVarPhotographyAutoPause_def CVarPhotographyAutoPostprocess_def
  UE_LOG_def ansel_sdk_def notify_def ShowHUD_def ReconfigureAnsel_def
  key_simps Let_def

text \<open>
  What the stop callback does, and where start and restore paths do pair.  When the
  stop callback arrives while the session is active and still newly active, it only
  clears \<open>bAnselSessionActive\<close>, and the next frame runs neither session path; in
  every other active state it only sets \<open>bAnselSessionWantDeactivate\<close>, and the next
  frame runs the restore path.  A frame runs the restore path, the start path or
  neither as \<open>frame_path\<close> says.  In a well-sequenced run from a state with no session
  active and no deactivation pending, start and restore paths are paired.
\<close>

theorem stop_callback_pairing:
  "(bAnselSessionActive s \<and> bAnselSessionNewlyActive s \<longrightarrow>
      AnselStopSessionCallback s g
        = (s\<lparr>bAnselSessionActive := False\<rparr>, UE_LOG ''Photography camera session end'' g)
      \<and> frame_path (fst (AnselStopSessionCallback s g)) = None)
   \<and> (bAnselSessionActive s \<and> \<not> bAnselSessionNewlyActive s \<longrightarrow>
      AnselStopSessionCallback s g
        = (s\<lparr>bAnselSessionWantDeactivate := True\<rparr>, UE_LOG ''Photography camera session end'' g)
      \<and> frame_path (fst (AnselStopSessionCallback s g)) = Some RestorePath)
   \<and> (frame_path s = Some RestorePath \<longrightarrow>
      UpdateCamera_state pov (s, g) = UpdateCamera_Deactivate (SessionFramePrelude (s, g)))
   \<and> (frame_path s = Some StartPath \<longrightarrow>
      UpdateCamera_state pov (s, g)
        = UpdateCamera_PauseCheck (UpdateCamera_SessionStart (SessionFramePrelude (s, g))))
   \<and> (frame_path s = None \<longrightarrow>
      UpdateCamera_state pov (s, g)
        = (if bAnselSessionActive s
           then UpdateCamera_PauseCheck
                  (fst (SessionFramePrelude (s, g)),
                   ansel_sdk ansel_updateCamera (snd (SessionFramePrelude (s, g))))
           else UpdateCamera_NotInSession pov (s\<lparr>bForceDisallow := False\<rparr>, g)))
   \<and> (\<not> bAnselSessionActive s \<and> \<not> bAnselSessionWantDeactivate s \<and> well_sequenced es (s, g) \<longrightarrow>
      paired False (paths es (s, g)))"
proof (intro conjI impI)
  assume "bAnselSessionActive s \<and> bAnselSessionNewlyActive s"
  then show "AnselStopSessionCallback s g
        = (s\<lparr>bAnselSessionActive := False\<rparr>, UE_LOG ''Photography camera session end'' g)"
    and "frame_path (fst (AnselStopSessionCallback s g)) = None"
    by (simp_all add: AnselStopSessionCallback_def frame_path_def)
next
  assume "bAnselSessionActive s \<and> \<not> bAnselSessionNewlyActive s"
  then show "AnselStopSessionCallback s g
        = (s\<lparr>bAnselSessionWantDeactivate := True\<rparr>, UE_LOG ''Photography camera session end'' g)"
    and "frame_path (fst (AnselStopSessionCallback s g)) = Some RestorePath"
    by (simp_all add: AnselStopSessionCallback_def frame_path_def)
next
  assume "frame_path s = Some RestorePath"
  then have "bAnselSessionActive s \<and> bAnselSessionWantDeactivate s"
    by (auto simp add: frame_path_def split: if_splits)
  then show "UpdateCamera_state pov (s, g) = UpdateCamera_Deactivate (SessionFramePrelude (s, g))"
    by (simp add: UpdateCamera_state_in_session)
next
  assume "frame_path s = Some StartPath"
  then have "bAnselSessionActive s \<and> \<not> bAnselSessionWantDeactivate s \<and> bAnselSessionNewlyActive s"
    by (auto simp add: frame_path_def split: if_splits)
  then show "UpdateCamera_state pov (s, g)
        = UpdateCamera_PauseCheck (UpdateCamera_SessionStart (SessionFramePrelude (s, g)))"
    by (simp add: UpdateCamera_state_in_session)
next
  assume "frame_path s = None"
  then have "\<not> bAnselSessionActive s
      \<or> (bAnselSessionActive s \<and> \<not> bAnselSessionWantDeactivate s \<and> \<not> bAnselSessionNewlyActive s)"
    by (auto simp add: frame_path_def split: if_splits)
  then show "UpdateCamera_state pov (s, g)
        = (if bAnselSessionActive s
           then UpdateCamera_PauseCheck
                  (fst (SessionFramePrelude (s, g)),
                   ansel_sdk ansel_updateCamera (snd (SessionFramePrelude (s, g))))
           else UpdateCamera_NotInSession pov (s\<lparr>bForceDisallow := False\<rparr>, g))"
    by (auto simp add: UpdateCamera_state_in_session UpdateCamera_state_not_in_session)
next
  assume h: "\<not> bAnselSessionActive s \<and> \<not> bAnselSessionWantDeactivate s \<and> well_sequenced es (s, g)"
  then have "pairing_inv False (s, g)"
    by (simp add: pairing_inv_def session_flags_def)
  then show "paired False (paths es (s, g))"
    using h by (simp add: paired_pairing)
qed

theorem stop_callback_pairing_witness:
  "fst (AnselStopSessionCallback newly_active_memory example_globals)
     = newly_active_memory\<lparr>bAnselSessionActive := False\<rparr>
   \<and> fst (AnselStopSessionCallback (zero_memory\<lparr>bAnselSessionActive := True\<rparr>) example_globals)
     = zero_memory\<lparr>bAnselSessionActive := True, bAnselSessionWantDeactivate := True\<rparr>
   \<and> UpdateCamera_state example_pov (ending_memory, example_globals)
     = UpdateCamera_Deactivate (SessionFramePrelude (ending_memory, example_globals))
   \<and> UpdateCamera_state example_pov (newly_active_memory, example_globals)
     = UpdateCamera_PauseCheck
         (UpdateCamera_SessionStart (SessionFramePrelude (newly_active_memory, example_globals)))
   \<and> UpdateCamera_state example_pov (zero_memory, example_globals)
     = UpdateCamera_NotInSession example_pov (zero_memory\<lparr>bForceDisallow := False\<rparr>, example_globals)
   \<and> paired False (paths session_trace (zero_memory, example_globals))
   \<and> paths session_trace (zero_memory, example_globals) = [StartPath, RestorePath]"
proof -
  note t = stop_callback_pairing
  have 1: "bAnselSessionActive newly_active_memory \<and> bAnselSessionNewlyActive newly_active_memory"
    by (simp add: newly_active_memory_def)
  have 2: "bAnselSessionActive (zero_memory\<lparr>bAnselSessionActive := True\<rparr>)
        \<and> \<not> bAnselSessionNewlyActive (zero_memory\<lparr>bAnselSessionActive := True\<rparr>)"
    by (simp add: zero_memory_def)
  have 3: "frame_path ending_memory = Some RestorePath"
    by (simp add: frame_path_def ending_memory_def)
  have 4: "frame_path newly_active_memory = Some StartPath"
    by (simp add: frame_path_def newly_active_memory_def zero_memory_def)
  have 5: "frame_path zero_memory = None" "\<not> bAnselSessionActive zero_memory"
    by (simp_all add: frame_path_def zero_memory_def)
  have 6: "\<not> bAnselSessionActive zero_memory \<and> \<not> bAnselSessionWantDeactivate zero_memory
        \<and> well_sequenced session_trace (zero_memory, example_globals)"
    unfolding session_trace_def by (simp add: evaluation_simps)
  have a: "fst (AnselStopSessionCallback newly_active_memory example_globals)
     = newly_active_memory\<lparr>bAnselSessionActive := False\<rparr>"
    using t [of newly_active_memory example_globals example_pov "[]"] 1 by simp
  have b: "fst (AnselStopSessionCallback (zero_memory\<lparr>bAnselSessionActive := True\<rparr>) example_globals)
     = zero_memory\<lparr>bAnselSessionActive := True, bAnselSessionWantDeactivate := True\<rparr>"
    using t [of "zero_memory\<lparr>bAnselSessionActive := True\<rparr>" example_globals example_pov "[]"] 2
    by simp
  have c: "UpdateCamera_state example_pov (ending_memory, example_globals)
     = UpdateCamera_Deactivate (SessionFramePrelude (ending_memory, example_globals))"
    using t [of ending_memory example_globals example_pov "[]"] 3 by blast
  have d: "UpdateCamera_state example_pov (newly_active_memory, example_globals)
     = UpdateCamera_PauseCheck
         (UpdateCamera_SessionStart (SessionFramePrelude (newly_active_memory, example_globals)))"
    using t [of newly_active_memory example_globals example_pov "[]"] 4 by blast
  have e: "UpdateCamera_state example_pov (zero_memory, example_globals)
     = UpdateCamera_NotInSession example_pov (zero_memory\<lparr>bForceDisallow := False\<rparr>, example_globals)"
    using t [of zero_memory example_globals example_pov "[]"] 5 by simp
  have f: "paired False (paths session_trace (zero_memory, example_globals))"
    using t [of zero_memory example_globals example_pov session_trace] 6 by blast
  have g: "paths session_trace (zero_memory, example_globals) = [StartPath, RestorePath]"
    unfolding session_trace_def by (simp add: evaluation_simps)
  from a b c d e f g show ?thesis by blast
qed

text \<open>
  Claim C9.  The stop callback drops a session that is still newly active and
  otherwise requests the deactivation, so that the restore path of \<open>UpdateCamera\<close>
  executes exactly when the session-start path executed before.  The code does not
  keep the last sentence.  The start callback does not look at a pending deactivation,
  and the stop callback requests one also when no session is active.  In the run
  \<open>restart_trace\<close> a session is started and stopped, and the next session's start
  callback arrives before the frame that deactivates the first.  That frame restores
  and drops the second session; the stop callback of the second session then leaves a
  deactivation pending with no session active, and the first frame of the third
  session runs the restore path again, with no start path since the last restore.
  The engine is told of one session start and two session ends, and the HUD, shown
  before the run, is hidden after it with no session active.
\<close>

theorem restore_without_start:
  "paths restart_trace (zero_memory, example_globals) = [StartPath, RestorePath, RestorePath]
   \<and> \<not> paired False (paths restart_trace (zero_memory, example_globals))
   \<and> PhotographyEvents (snd (run restart_trace (zero_memory, example_globals)))
       = [OnPhotographySessionStart, OnPhotographySessionEnd, OnPhotographySessionEnd]
   \<and> MyHUD example_globals = Some True
   \<and> MyHUD (snd (run restart_trace (zero_memory, example_globals))) = Some False
   \<and> \<not> bAnselSessionActive (fst (run restart_trace (zero_memory, example_globals)))"
  unfolding restart_trace_def
  by (simp add: evaluation_simps run_def)

subsection \<open>Post-processing overrides during a capture\<close>

lemma capture_flags_blank_pp: "capture_flags (blank_pp x) = capture_flags x"
  by (simp add: capture_flags_def blank_pp_def)

lemma capture_flags_kept:
  "capture_flags (snd (DoCustomUIControls pp b sg)) = capture_flags sg"
  "capture_flags (ConfigureQualityGroups sg) = capture_flags sg"
  "capture_flags (ConfigureHighQuality sg) = capture_flags sg"
  using pp_only_keeps [OF pp_only_DoCustomUIControls, of capture_flags pp b sg]
    pp_only_keeps [OF pp_only_ConfigureQualityGroups, of capture_flags sg]
    pp_only_keeps [OF pp_only_ConfigureHighQuality, of capture_flags sg]
  by (simp_all add: capture_flags_blank_pp)

lemma capture_flags_in_order: "cvar_only (in_order fs) \<Longrightarrow> capture_flags (in_order fs x) = capture_flags x"
  using pp_only_keeps [OF cvar_only_pp_only, of "in_order fs" capture_flags x]
  by (simp add: capture_flags_blank_pp)

lemma ConfigureRenderingSettingsForPhotography_settings:
  "fst (ConfigureRenderingSettingsForPhotography q x) =
     (if bAnselCaptureActive (fst x) \<and> bAutoPostprocess (fst x)
      then CapturePostProcessing (AnselCaptureInfo (fst x)) q else q)"
proof -
  define x1 where "x1 = ConfigureHighQuality (ConfigureQualityGroups x)"
  define x2 where "x2 = in_order CaptureStreamingSettings x1"
  have 1: "capture_flags x1 = capture_flags x"
    unfolding x1_def by (simp add: capture_flags_kept)
  have 2: "capture_flags x2 = capture_flags x"
    unfolding x2_def using 1 by (simp add: capture_flags_in_order)
  have "fst (ConfigureRenderingSettingsForPhotography q x) =
     (if bAnselCaptureActive (fst x1)
      then (if bAutoPostprocess (fst x2) then CapturePostProcessing (AnselCaptureInfo (fst x2)) q else q)
      else q)"
    unfolding ConfigureRenderingSettingsForPhotography_def Let_def x2_def x1_def by simp
  then show ?thesis
    using 1 2 by (auto simp add: capture_flags_def)
qed

lemma UpdatePostProcessing_settings:
  assumes "bAnselSessionActive s" "bAnselCaptureActive s" "bAutoPostprocess s"
  shows "fst (UpdatePostProcessing pp (s, g)) =
           CapturePostProcessing (AnselCaptureInfo s)
             (fst (DoCustomUIControls pp (bUIControlsNeedRebuild s) (s, g)))"
proof -
  have "capture_flags (snd (DoCustomUIControls pp (bUIControlsNeedRebuild s) (s, g))) = capture_flags (s, g)"
    by (rule capture_flags_kept)
  then show ?thesis
    using assms
    by (simp add: UpdatePostProcessing_def case_prod_beta
        ConfigureRenderingSettingsForPhotography_settings capture_flags_def)
qed

lemma set_simps [simp]:
  "Setting (set_Setting f v pp) = (Setting pp)(f := v)"
  "bOverride (set_Setting f v pp) = bOverride pp"
  "Setting (set_bOverride f b pp) = Setting pp"
  "bOverride (set_bOverride f b pp) = (bOverride pp)(f := b)"
  by (simp_all add: set_Setting_def set_bOverride_def)

lemma CapturePostProcessing_effect:
  "f \<in> ProblematicEffects \<Longrightarrow> bOverride (CapturePostProcessing ct q) f \<and> Setting (CapturePostProcessing ct q) f = 0"
  "Setting (CapturePostProcessing ct q) ScreenPercentage_DEPRECATED
     = (if Setting q ScreenPercentage_DEPRECATED < 100 then 100 else Setting q ScreenPercentage_DEPRECATED)"
  "bOverride (CapturePostProcessing ct q) ScreenPercentage_DEPRECATED
     = (Setting q ScreenPercentage_DEPRECATED < 100 \<or> bOverride q ScreenPercentage_DEPRECATED)"
  "ct = kCaptureType360Stereo \<or> ct = kCaptureTypeStereo \<Longrightarrow> f \<in> DofBlurSettings \<Longrightarrow>
     bOverride (CapturePostProcessing ct q) f \<and> Setting (CapturePostProcessing ct q) f = 0"
  "\<not> (ct = kCaptureType360Stereo \<or> ct = kCaptureTypeStereo) \<Longrightarrow> f \<in> DofBlurSettings \<Longrightarrow>
     bOverride (CapturePostProcessing ct q) f = bOverride q f
     \<and> Setting (CapturePostProcessing ct q) f = Setting q f"
  "ct \<noteq> kCaptureTypeSuperResolution \<Longrightarrow>
     bOverride (CapturePostProcessing ct q) ScreenSpaceReflectionIntensity
     \<and> Setting (CapturePostProcessing ct q) ScreenSpaceReflectionIntensity = 0"
  "ct = kCaptureTypeSuperResolution \<Longrightarrow>
     bOverride (CapturePostProcessing ct q) ScreenSpaceReflectionIntensity
       = bOverride q ScreenSpaceReflectionIntensity
     \<and> Setting (CapturePostProcessing ct q) ScreenSpaceReflectionIntensity
       = Setting q ScreenSpaceReflectionIntensity"
  by (auto simp add: CapturePostProcessing_def Let_def ProblematicEffects_def DofBlurSettings_def)

lemma UEPostProcessingOriginal_ui [simp]:
  "UEPostProcessingOriginal (fst (DeclareSlider c l u v sg)) = UEPostProcessingOriginal (fst sg)"
  "UEPostProcessingOriginal (fst (DeclareBool c b sg)) = UEPostProcessingOriginal (fst sg)"
  by (simp_all add: DeclareSlider_def DeclareBool_def case_prod_beta Let_def)

lemma UEPostProcessingOriginal_RebuildUIControls:
  "UEPostProcessingOriginal (fst (RebuildUIControls pp sg)) = pp"
  by (simp add: RebuildUIControls_def Let_def)

lemma ApplyUISlider_other:
  "f' \<noteq> f \<Longrightarrow> Setting (ApplyUISlider c f s q) f' = Setting q f'"
  "f' \<noteq> f \<Longrightarrow> bOverride (ApplyUISlider c f s q) f' = bOverride q f'"
  by (simp_all add: ApplyUISlider_def ProcessUISlider_def)

lemma DoCustomUIControls_untouched:
  assumes "f \<in> {ScreenPercentage_DEPRECATED, ScreenSpaceReflectionIntensity}"
  shows "Setting (fst (DoCustomUIControls pp b (s, g))) f
           = Setting (if b then pp else UEPostProcessingOriginal s) f"
    and "bOverride (fst (DoCustomUIControls pp b (s, g))) f
           = bOverride (if b then pp else UEPostProcessingOriginal s) f"
  using assms
  by (auto simp add: DoCustomUIControls_def Let_def case_prod_beta ApplyUISlider_other
      UEPostProcessingOriginal_RebuildUIControls)

text \<open>
  Claim C7.  In an active session, during a capture with auto-postprocess enabled,
  \<open>UpdatePostProcessing\<close> returns settings in which the five problematic effects
  (\<open>MotionBlurAmount\<close>, \<open>BloomDirtMaskIntensity\<close>, \<open>LensFlareIntensity\<close>,
  \<open>VignetteIntensity\<close>, \<open>SceneFringeIntensity\<close>) are overridden and zero;
  \<open>ScreenPercentage_DEPRECATED\<close> is raised to 100 and overridden exactly when the value
  the capture step receives is below 100, and is left alone otherwise; the four
  depth-of-field blur parameters are overridden and zero for stereo and 360-stereo
  captures, and are those the custom UI controls produced for every other capture type;
  \<open>ScreenSpaceReflectionIntensity\<close> is overridden and zero for every capture type but
  super-resolution, for which it is left alone.  The value the capture step receives for
  a setting no UI control writes is the incoming one on a frame that rebuilds the UI
  controls, and the one saved in \<open>UEPostProcessingOriginal\<close> on every other frame.
\<close>

theorem capture_postprocessing_overrides:
  "bAnselSessionActive s \<and> bAnselCaptureActive s \<and> bAutoPostprocess s \<longrightarrow>
     (let base = (if bUIControlsNeedRebuild s then InOut else UEPostProcessingOriginal s);
          tuned = fst (DoCustomUIControls InOut (bUIControlsNeedRebuild s) (s, g));
          out = fst (UpdatePostProcessing InOut (s, g));
          stereo = (AnselCaptureInfo s = kCaptureType360Stereo \<or> AnselCaptureInfo s = kCaptureTypeStereo)
      in (\<forall>f \<in> ProblematicEffects. bOverride out f \<and> Setting out f = 0)
         \<and> Setting out ScreenPercentage_DEPRECATED
             = (if Setting base ScreenPercentage_DEPRECATED < 100 then 100
                else Setting base ScreenPercentage_DEPRECATED)
         \<and> bOverride out ScreenPercentage_DEPRECATED
             = (Setting base ScreenPercentage_DEPRECATED < 100 \<or> bOverride base ScreenPercentage_DEPRECATED)
         \<and> (stereo \<longrightarrow> (\<forall>f \<in> DofBlurSettings. bOverride out f \<and> Setting out f = 0))
         \<and> (\<not> stereo \<longrightarrow>
              (\<forall>f \<in> DofBlurSettings. bOverride out f = bOverride tuned f \<and> Setting out f = Setting tuned f))
         \<and> (AnselCaptureInfo s \<noteq> kCaptureTypeSuperResolution \<longrightarrow>
              bOverride out ScreenSpaceReflectionIntensity
              \<and> Setting out ScreenSpaceReflectionIntensity = 0)
         \<and> (AnselCaptureInfo s = kCaptureTypeSuperResolution \<longrightarrow>
              bOverride out ScreenSpaceReflectionIntensity = bOverride base ScreenSpaceReflectionIntensity
              \<and> Setting out ScreenSpaceReflectionIntensity = Setting base ScreenSpaceReflectionIntensity))"
proof
  assume h: "bAnselSessionActive s \<and> bAnselCaptureActive s \<and> bAutoPostprocess s"
  define base where "base = (if bUIControlsNeedRebuild s then InOut else UEPostProcessingOriginal s)"
  define tuned where "tuned = fst (DoCustomUIControls InOut (bUIControlsNeedRebuild s) (s, g))"
  define out where "out = fst (UpdatePostProcessing InOut (s, g))"
  define ct where "ct = AnselCaptureInfo s"
  have out: "out = CapturePostProcessing ct tuned"
    unfolding out_def tuned_def ct_def using h by (simp add: UpdatePostProcessing_settings)
  have sp: "Setting tuned ScreenPercentage_DEPRECATED = Setting base ScreenPercentage_DEPRECATED"
    "bOverride tuned ScreenPercentage_DEPRECATED = bOverride base ScreenPercentage_DEPRECATED"
    "Setting tuned ScreenSpaceReflectionIntensity = Setting base ScreenSpaceReflectionIntensity"
    "bOverride tuned ScreenSpaceReflectionIntensity = bOverride base ScreenSpaceReflectionIntensity"
    unfolding tuned_def base_def by (simp_all add: DoCustomUIControls_untouched)
  have 1: "\<forall>f \<in> ProblematicEffects. bOverride out f \<and> Setting out f = 0"
    unfolding out using CapturePostProcessing_effect(1) by blast
  have 2: "Setting out ScreenPercentage_DEPRECATED
             = (if Setting base ScreenPercentage_DEPRECATED < 100 then 100
                else Setting base ScreenPercentage_DEPRECATED)"
    "bOverride out ScreenPercentage_DEPRECATED
             = (Setting base ScreenPercentage_DEPRECATED < 100 \<or> bOverride base ScreenPercentage_DEPRECATED)"
    unfolding out CapturePostProcessing_effect(2,3) sp by simp_all
  have 3: "\<forall>f \<in> DofBlurSettings. bOverride out f \<and> Setting out f = 0"
    if "ct = kCaptureType360Stereo \<or> ct = kCaptureTypeStereo"
    unfolding out using CapturePostProcessing_effect(4) [OF that] by blast
  have 4: "\<forall>f \<in> DofBlurSettings. bOverride out f = bOverride tuned f \<and> Setting out f = Setting tuned f"
    if "\<not> (ct = kCaptureType360Stereo \<or> ct = kCaptureTypeStereo)"
    unfolding out using CapturePostProcessing_effect(5) [OF that] by blast
  have 5: "bOverride out ScreenSpaceReflectionIntensity \<and> Setting out ScreenSpaceReflectionIntensity = 0"
    if "ct \<noteq> kCaptureTypeSuperResolution"
    unfolding out using CapturePostProcessing_effect(6) [OF that] by blast
  have 6: "bOverride out ScreenSpaceReflectionIntensity = bOverride base ScreenSpaceReflectionIntensity
      \<and> Setting out ScreenSpaceReflectionIntensity = Setting base ScreenSpaceReflectionIntensity"
    if "ct = kCaptureTypeSuperResolution"
    unfolding out using CapturePostProcessing_effect(7) [OF that] sp by simp
  show "let base = (if bUIControlsNeedRebuild s then InOut else UEPostProcessingOriginal s);
          tuned = fst (DoCustomUIControls InOut (bUIControlsNeedRebuild s) (s, g));
          out = fst (UpdatePostProcessing InOut (s, g));
          stereo = (AnselCaptureInfo s = kCaptureType360Stereo \<or> AnselCaptureInfo s = kCaptureTypeStereo)
      in (\<forall>f \<in> ProblematicEffects. bOverride out f \<and> Setting out f = 0)
         \<and> Setting out ScreenPercentage_DEPRECATED
             = (if Setting base ScreenPercentage_DEPRECATED < 100 then 100
                else Setting base ScreenPercentage_DEPRECATED)
         \<and> bOverride out ScreenPercentage_DEPRECATED
             = (Setting base ScreenPercentage_DEPRECATED < 100 \<or> bOverride base ScreenPercentage_DEPRECATED)
         \<and> (stereo \<longrightarrow> (\<forall>f \<in> DofBlurSettings. bOverride out f \<and> Setting out f = 0))
         \<and> (\<not> stereo \<longrightarrow>
              (\<forall>f \<in> DofBlurSettings. bOverride out f = bOverride tuned f \<and> Setting out f = Setting tuned f))
         \<and> (AnselCaptureInfo s \<noteq> kCaptureTypeSuperResolution \<longrightarrow>
              bOverride out ScreenSpaceReflectionIntensity
              \<and> Setting out ScreenSpaceReflectionIntensity = 0)
         \<and> (AnselCaptureInfo s = kCaptureTypeSuperResolution \<longrightarrow>
              bOverride out ScreenSpaceReflectionIntensity = bOverride base ScreenSpaceReflectionIntensity
              \<and> Setting out ScreenSpaceReflectionIntensity = Setting base ScreenSpaceReflectionIntensity)"
    unfolding Let_def base_def [symmetric] tuned_def [symmetric] out_def [symmetric] ct_def [symmetric]
    using 1 2 3 4 5 6 by blast
qed

theorem capture_postprocessing_overrides_witness:
  "Setting (fst (UpdatePostProcessing example_postprocess (stereo_capture_memory, example_globals)))
      MotionBlurAmount = 0
   \<and> bOverride (fst (UpdatePostProcessing example_postprocess (stereo_capture_memory, example_globals)))
      MotionBlurAmount
   \<and> Setting (fst (UpdatePostProcessing example_postprocess (stereo_capture_memory, example_globals)))
      ScreenPercentage_DEPRECATED = 100
   \<and> Setting (fst (UpdatePostProcessing example_postprocess (stereo_capture_memory, example_globals)))
      DepthOfFieldScale = 0
   \<and> Setting (fst (UpdatePostProcessing example_postprocess (stereo_capture_memory, example_globals)))
      ScreenSpaceReflectionIntensity = 0
   \<and> Setting (fst (UpdatePostProcessing example_postprocess (superres_capture_memory, example_globals)))
      ScreenSpaceReflectionIntensity = 50
   \<and> Setting (fst (UpdatePostProcessing example_postprocess (superres_capture_memory, example_globals)))
      DepthOfFieldNearBlurSize
     = Setting (fst (DoCustomUIControls example_postprocess True (superres_capture_memory, example_globals)))
         DepthOfFieldNearBlurSize"
proof -
  have h1: "bAnselSessionActive stereo_capture_memory \<and> bAnselCaptureActive stereo_capture_memory
      \<and> bAutoPostprocess stereo_capture_memory"
    by (simp add: stereo_capture_memory_def)
  have h2: "bAnselSessionActive superres_capture_memory \<and> bAnselCaptureActive superres_capture_memory
      \<and> bAutoPostprocess superres_capture_memory"
    by (simp add: superres_capture_memory_def)
  have m: "MotionBlurAmount \<in> ProblematicEffects" "DepthOfFieldScale \<in> DofBlurSettings"
    "DepthOfFieldNearBlurSize \<in> DofBlurSettings"
    by (simp_all add: ProblematicEffects_def DofBlurSettings_def)
  have f1: "bUIControlsNeedRebuild stereo_capture_memory"
    "AnselCaptureInfo stereo_capture_memory = kCaptureTypeStereo"
    "Setting example_postprocess ScreenPercentage_DEPRECATED = 50"
    by (simp_all add: stereo_capture_memory_def example_postprocess_def)
  have f2: "bUIControlsNeedRebuild superres_capture_memory"
    "AnselCaptureInfo superres_capture_memory = kCaptureTypeSuperResolution"
    "Setting example_postprocess ScreenSpaceReflectionIntensity = 50"
    by (simp_all add: superres_capture_memory_def example_postprocess_def)
  from capture_postprocessing_overrides [of stereo_capture_memory example_postprocess example_globals] h1
  have a: "Setting (fst (UpdatePostProcessing example_postprocess (stereo_capture_memory, example_globals)))
      MotionBlurAmount = 0
   \<and> bOverride (fst (UpdatePostProcessing example_postprocess (stereo_capture_memory, example_globals)))
      MotionBlurAmount
   \<and> Setting (fst (UpdatePostProcessing example_postprocess (stereo_capture_memory, example_globals)))
      ScreenPercentage_DEPRECATED = 100
   \<and> Setting (fst (UpdatePostProcessing example_postprocess (stereo_capture_memory, example_globals)))
      DepthOfFieldScale = 0
   \<and> Setting (fst (UpdatePostProcessing example_postprocess (stereo_capture_memory, example_globals)))
      ScreenSpaceReflectionIntensity = 0"
    using m by (simp add: Let_def f1)
  from capture_postprocessing_overrides [of superres_capture_memory example_postprocess example_globals] h2
  have b: "Setting (fst (UpdatePostProcessing example_postprocess (superres_capture_memory, example_globals)))
      ScreenSpaceReflectionIntensity = 50
   \<and> Setting (fst (UpdatePostProcessing example_postprocess (superres_capture_memory, example_globals)))
      DepthOfFieldNearBlurSize
     = Setting (fst (DoCustomUIControls example_postprocess True (superres_capture_memory, example_globals)))
         DepthOfFieldNearBlurSize"
    using m by (simp add: Let_def f2)
  from a b show ?thesis by blast
qed

subsection \<open>What the Blueprint-callable functions touch\<close>

lemma static_cvar_cases:
  "cache_of Name c \<Longrightarrow>
     static_cvar c CM Name = None \<or> static_cvar c CM Name = Some (cvar_key Name)"
  by (auto simp add: cache_of_def static_cvar_def FindConsoleVariable_def)

lemma cache_of_static_cvar:
  "cache_of Name c \<Longrightarrow> cache_of Name (Some (static_cvar c CM Name))"
  by (auto simp add: cache_of_def static_cvar_def FindConsoleVariable_def)

lemma CVar_Set_frame:
  "Registered (CVar_Set CM p v) = Registered CM"
  "k \<noteq> p \<Longrightarrow> Objects (CVar_Set CM p v) k = Objects CM k"
  by (simp_all add: CVar_Set_def)

lemma touches_only_cvar_SetIsPhotographyAllowed:
  assumes "statics_cached (Statics sys)"
  shows "touches_only_cvar ''r.Photography.Allow'' sys (SetIsPhotographyAllowed b sys)"
proof -
  from assms have c: "cache_of ''r.Photography.Allow'' (SetIsPhotographyAllowed_CVar (Statics sys))"
    by (simp add: statics_cached_def)
  from static_cvar_cases [OF c, of "ConsoleManager (Globals sys)"]
    cache_of_static_cvar [OF c, of "ConsoleManager (Globals sys)"] assms
  show ?thesis
    unfolding touches_only_cvar_def SetIsPhotographyAllowed_def Let_def
    by (auto simp add: statics_cached_def with_ConsoleManager_def CVar_Set_frame)
qed

lemma touches_only_cvar_SetSettleFrames:
  assumes "statics_cached (Statics sys)"
  shows "touches_only_cvar ''r.Photography.SettleFrames'' sys (SetSettleFrames n sys)"
proof -
  from assms have c: "cache_of ''r.Photography.SettleFrames'' (SetSettleFrames_CVar (Statics sys))"
    by (simp add: statics_cached_def)
  from static_cvar_cases [OF c, of "ConsoleManager (Globals sys)"]
    cache_of_static_cvar [OF c, of "ConsoleManager (Globals sys)"] assms
  show ?thesis
    unfolding touches_only_cvar_def SetSettleFrames_def Let_def
    by (auto simp add: statics_cached_def with_ConsoleManager_def CVar_Set_frame)
qed

lemma touches_only_cvar_SetCameraMovementSpeed:
  assumes "statics_cached (Statics sys)"
  shows "touches_only_cvar ''r.Photography.TranslationSpeed'' sys (SetCameraMovementSpeed v sys)"
proof -
  from assms have c: "cache_of ''r.Photography.TranslationSpeed'' (SetCameraMovementSpeed_CVar (Statics sys))"
    by (simp add: statics_cached_def)
  from static_cvar_cases [OF c, of "ConsoleManager (Globals sys)"]
    cache_of_static_cvar [OF c, of "ConsoleManager (Globals sys)"] assms
  show ?thesis
    unfolding touches_only_cvar_def SetCameraMovementSpeed_def Let_def
    by (auto simp add: statics_cached_def with_ConsoleManager_def CVar_Set_frame)
qed

lemma touches_only_cvar_SetCameraConstraintCameraSize:
  assumes "statics_cached (Statics sys)"
  shows "touches_only_cvar ''r.Photography.Constrain.CameraSize'' sys (SetCameraConstraintCameraSize v sys)"
proof -
  from assms have c: "cache_of ''r.Photography.Constrain.CameraSize'' (SetCameraConstraintCameraSize_CVar (Statics sys))"
    by (simp add: statics_cached_def)
  from static_cvar_cases [OF c, of "ConsoleManager (Globals sys)"]
    cache_of_static_cvar [OF c, of "ConsoleManager (Globals sys)"] assms
  show ?thesis
    unfolding touches_only_cvar_def SetCameraConstraintCameraSize_def Let_def
    by (auto simp add: statics_cached_def with_ConsoleManager_def CVar_Set_frame)
qed

lemma touches_only_cvar_SetCameraConstraintDistance:
  assumes "statics_cached (Statics sys)"
  shows "touches_only_cvar ''r.Photography.Constrain.MaxCameraDistance'' sys (SetCameraConstraintDistance v sys)"
proof -
  from assms have c: "cache_of ''r.Photography.Constrain.MaxCameraDistance'' (SetCameraConstraintDistance_CVar (Statics sys))"
    by (simp add: statics_cached_def)
  from static_cvar_cases [OF c, of "ConsoleManager (Globals sys)"]
    cache_of_static_cvar [OF c, of "ConsoleManager (Globals sys)"] assms
  show ?thesis
    unfolding touches_only_cvar_def SetCameraConstraintDistance_def Let_def
    by (auto simp add: statics_cached_def with_ConsoleManager_def CVar_Set_frame)
qed

lemma touches_only_cvar_SetAutoPostprocess:
  assumes "statics_cached (Statics sys)"
  shows "touches_only_cvar ''r.Photography.AutoPostprocess'' sys (SetAutoPostprocess b sys)"
proof -
  from assms have c: "cache_of ''r.Photography.AutoPostprocess'' (SetAutoPostprocess_CVar (Statics sys))"
    by (simp add: statics_cached_def)
  from static_cvar_cases [OF c, of "ConsoleManager (Globals sys)"]
    cache_of_static_cvar [OF c, of "ConsoleManager (Globals sys)"] assms
  show ?thesis
    unfolding touches_only_cvar_def SetAutoPostprocess_def Let_def
    by (auto simp add: statics_cached_def with_ConsoleManager_def CVar_Set_frame)
qed

lemma touches_only_cvar_SetAutoPause:
  assumes "statics_cached (Statics sys)"
  shows "touches_only_cvar ''r.Photography.AutoPause'' sys (SetAutoPause b sys)"
proof -
  from assms have c: "cache_of ''r.Photography.AutoPause'' (SetAutoPause_CVar (Statics sys))"
    by (simp add: statics_cached_def)
  from static_cvar_cases [OF c, of "ConsoleManager (Globals sys)"]
    cache_of_static_cvar [OF c, of "ConsoleManager (Globals sys)"] assms
  show ?thesis
    unfolding touches_only_cvar_def SetAutoPause_def Let_def
    by (auto simp add: statics_cached_def with_ConsoleManager_def CVar_Set_frame)
qed

lemma touches_only_cvar_IsPhotographyAvailable:
  assumes "statics_cached (Statics sys)"
  shows "touches_only_cvar ''r.Photography.Available'' sys (snd (IsPhotographyAvailable sys))"
    and "Globals (snd (IsPhotographyAvailable sys)) = Globals sys"
proof -
  from assms have c: "cache_of ''r.Photography.Available'' (IsPhotographyAvailable_CVar (Statics sys))"
    by (simp add: statics_cached_def)
  from cache_of_static_cvar [OF c, of "ConsoleManager (Globals sys)"] assms
  show "touches_only_cvar ''r.Photography.Available'' sys (snd (IsPhotographyAvailable sys))"
    unfolding touches_only_cvar_def IsPhotographyAvailable_def Let_def
    by (auto simp add: statics_cached_def)
  show "Globals (snd (IsPhotographyAvailable sys)) = Globals sys"
    by (simp add: IsPhotographyAvailable_def Let_def)
qed

lemma touches_only_cvar_IsPhotographyAllowed:
  assumes "statics_cached (Statics sys)"
  shows "touches_only_cvar ''r.Photography.Allow'' sys (snd (IsPhotographyAllowed sys))"
    and "Globals (snd (IsPhotographyAllowed sys)) = Globals sys"
proof -
  from assms have c: "cache_of ''r.Photography.Allow'' (IsPhotographyAllowed_CVar (Statics sys))"
    by (simp add: statics_cached_def)
  from cache_of_static_cvar [OF c, of "ConsoleManager (Globals sys)"] assms
  show "touches_only_cvar ''r.Photography.Allow'' sys (snd (IsPhotographyAllowed sys))"
    unfolding touches_only_cvar_def IsPhotographyAllowed_def Let_def
    by (auto simp add: statics_cached_def)
  show "Globals (snd (IsPhotographyAllowed sys)) = Globals sys"
    by (simp add: IsPhotographyAllowed_def Let_def)
qed

lemma Library_session_calls:
  "AnselCalls (Globals (Library_StartSession W sys))
     = AnselCalls (Globals sys) @ (if GetPhotographyManager sys W then [ansel_startSession] else [])"
  "AnselCalls (Globals (Library_StopSession W sys))
     = AnselCalls (Globals sys) @ (if GetPhotographyManager sys W then [ansel_stopSession] else [])"
  "ConsoleManager (Globals (Library_StartSession W sys)) = ConsoleManager (Globals sys)"
  "ConsoleManager (Globals (Library_StopSession W sys)) = ConsoleManager (Globals sys)"
  by (simp_all add: Library_StartSession_def Library_StopSession_def StartOrStopSession_def
      StartSession_def StopSession_def ansel_sdk_def)

lemma Library_SetUIControlVisibility_effect:
  "Globals (Library_SetUIControlVisibility W t b sys) = Globals sys"
  "ActiveImpl (Library_SetUIControlVisibility W t b sys)
     = (if GetPhotographyManager sys W
        then map_option (SetUIControlVisibility t b) (ActiveImpl sys)
        else ActiveImpl sys)"
  by (simp_all add: Library_SetUIControlVisibility_def)

lemma GetPhotographyManager_example [simp]:
  "GetPhotographyManager example_system (Some W)"
  by (simp add: GetPhotographyManager_def example_system_def IsSupported_def example_globals_def)

text \<open>
  On a system with a supported provider, \<open>StartSession\<close> and \<open>StopSession\<close> issue an SDK
  request and leave the console manager alone, \<open>SetUIControlVisibility\<close> changes a flag of
  the provider and leaves the global state alone, \<open>ConstrainCameraByDistance\<close> computes a
  clamped location, and \<open>ConstrainCameraByGeometry\<close> answers differently in two worlds
  for the same console variables.
\<close>

theorem library_beyond_console_variables:
  "AnselCalls (Globals example_system) = []
   \<and> AnselCalls (Globals (Library_StartSession (Some open_world) example_system)) = [ansel_startSession]
   \<and> ConsoleManager (Globals (Library_StartSession (Some open_world) example_system))
       = ConsoleManager (Globals example_system)
   \<and> AnselCalls (Globals (Library_StopSession (Some open_world) example_system)) = [ansel_stopSession]
   \<and> ConsoleManager (Globals (Library_StopSession (Some open_world) example_system))
       = ConsoleManager (Globals example_system)
   \<and> ActiveImpl example_system = Some zero_memory
   \<and> \<not> bEffectUIAllowed zero_memory Bloom
   \<and> ActiveImpl (Library_SetUIControlVisibility (Some open_world) Bloom True example_system)
       = Some (zero_memory\<lparr>bEffectUIAllowed := (bEffectUIAllowed zero_memory)(Bloom := True)\<rparr>)
   \<and> Globals (Library_SetUIControlVisibility (Some open_world) Bloom True example_system)
       = Globals example_system
   \<and> ConstrainCameraByDistance \<lparr>X = 100, Y = 0, Z = 0\<rparr> ZeroVector ZeroVector 0 = ZeroVector
   \<and> fst (ConstrainCameraByGeometry example_console fresh_statics (Some open_world)
            \<lparr>X = 100, Y = 0, Z = 0\<rparr> ZeroVector ZeroVector) = \<lparr>X = 100, Y = 0, Z = 0\<rparr>
   \<and> fst (ConstrainCameraByGeometry example_console fresh_statics (Some walled_world)
            \<lparr>X = 100, Y = 0, Z = 0\<rparr> ZeroVector ZeroVector) = \<lparr>X = 50, Y = 0, Z = 0\<rparr>"
proof -
  have k: "cvar_key ''r.Photography.Constrain.CameraSize'' = ''r.photography.constrain.camerasize''"
    by (simp add: cvar_key_def ToLower_def)
  have a: "AnselCalls (Globals example_system) = []" "ActiveImpl example_system = Some zero_memory"
    "\<not> bEffectUIAllowed zero_memory Bloom"
    by (simp_all add: example_system_def example_globals_def zero_memory_def)
  have d: "ConstrainCameraByDistance \<lparr>X = 100, Y = 0, Z = 0\<rparr> ZeroVector ZeroVector 0 = ZeroVector"
    by (simp add: ConstrainCameraByDistance_def GetClampedToMaxSize_def UE_KINDA_SMALL_NUMBER_def
        FVector_add_def FVector_sub_def ZeroVector_def Let_def)
  have g1: "fst (ConstrainCameraByGeometry example_console fresh_statics (Some open_world)
            \<lparr>X = 100, Y = 0, Z = 0\<rparr> ZeroVector ZeroVector) = \<lparr>X = 100, Y = 0, Z = 0\<rparr>"
    by (simp add: ConstrainCameraByGeometry_def static_cvar_def fresh_statics_def
        FindConsoleVariable_def k example_console_def example_cvars_def GetFloat_def Let_def
        IsNearlyZero_def UE_KINDA_SMALL_NUMBER_def FVector_sub_def FVector_add_def ZeroVector_def
        open_world_def DotProduct_def)
  have g2: "fst (ConstrainCameraByGeometry example_console fresh_statics (Some walled_world)
            \<lparr>X = 100, Y = 0, Z = 0\<rparr> ZeroVector ZeroVector) = \<lparr>X = 50, Y = 0, Z = 0\<rparr>"
    by (simp add: ConstrainCameraByGeometry_def static_cvar_def fresh_statics_def
        FindConsoleVariable_def k example_console_def example_cvars_def GetFloat_def Let_def
        IsNearlyZero_def UE_KINDA_SMALL_NUMBER_def FVector_sub_def FVector_add_def ZeroVector_def
        walled_world_def DotProduct_def)
  show ?thesis
    using a d g1 g2
    by (simp add: Library_session_calls Library_SetUIControlVisibility_effect
        SetUIControlVisibility_def)
qed

lemma ConstrainCameraByGeometry_reads_CameraSize:
  assumes c: "cache_of ''r.Photography.Constrain.CameraSize'' (CVarConstrainCameraSizeLocal st)"
    and r: "cvar_key ''r.Photography.Constrain.CameraSize'' \<in> Registered CM
            \<longleftrightarrow> cvar_key ''r.Photography.Constrain.CameraSize'' \<in> Registered CM'"
    and v: "Objects CM (cvar_key ''r.Photography.Constrain.CameraSize'')
            = Objects CM' (cvar_key ''r.Photography.Constrain.CameraSize'')"
  shows "ConstrainCameraByGeometry CM st W New Prev Orig = ConstrainCameraByGeometry CM' st W New Prev Orig"
proof -
  have e: "static_cvar (CVarConstrainCameraSizeLocal st) CM ''r.Photography.Constrain.CameraSize''
         = static_cvar (CVarConstrainCameraSizeLocal st) CM' ''r.Photography.Constrain.CameraSize''"
    using r by (simp add: static_cvar_def FindConsoleVariable_def split: option.splits)
  from static_cvar_cases [OF c, of CM'] show ?thesis
  proof
    assume "static_cvar (CVarConstrainCameraSizeLocal st) CM' ''r.Photography.Constrain.CameraSize'' = None"
    then show ?thesis by (simp add: ConstrainCameraByGeometry_def e)
  next
    assume "static_cvar (CVarConstrainCameraSizeLocal st) CM' ''r.Photography.Constrain.CameraSize''
              = Some (cvar_key ''r.Photography.Constrain.CameraSize'')"
    then show ?thesis by (simp add: ConstrainCameraByGeometry_def e GetFloat_def v)
  qed
qed

text \<open>
  Claim C8, as amended.  Provided each pointer cache of the library belongs to its
  variable (as it does initially and after every call), the two queries and the seven
  setters do nothing beyond reading or writing their named console variable, and the
  queries leave the global state as it is.  \<open>StartSession\<close> and \<open>StopSession\<close> touch no
  console variable: when the photography manager is available for the world they issue
  the SDK's start or stop request, and otherwise do nothing.  \<open>SetUIControlVisibility\<close>
  touches no global state: when the manager is available it sets the provider's
  visibility flag of the given effect.  \<open>ConstrainCameraByGeometry\<close> depends on the
  console manager only through the variable \<open>r.Photography.Constrain.CameraSize\<close>
  (its other inputs are the camera locations, the world's collision queries and the
  tracked open-space origin), and \<open>ConstrainCameraByDistance\<close> reads no console
  variable at all: with a negative distance it returns the new location.
\<close>

theorem library_functions_effects:
  "statics_cached (Statics sys) \<longrightarrow>
     touches_only_cvar ''r.Photography.Available'' sys (snd (IsPhotographyAvailable sys))
     \<and> Globals (snd (IsPhotographyAvailable sys)) = Globals sys
     \<and> touches_only_cvar ''r.Photography.Allow'' sys (snd (IsPhotographyAllowed sys))
     \<and> Globals (snd (IsPhotographyAllowed sys)) = Globals sys
     \<and> touches_only_cvar ''r.Photography.Allow'' sys (SetIsPhotographyAllowed bAllowed sys)
     \<and> touches_only_cvar ''r.Photography.SettleFrames'' sys (SetSettleFrames NumSettleFrames sys)
     \<and> touches_only_cvar ''r.Photography.TranslationSpeed'' sys
          (SetCameraMovementSpeed TranslationSpeed sys)
     \<and> touches_only_cvar ''r.Photography.Constrain.CameraSize'' sys
          (SetCameraConstraintCameraSize CameraSize sys)
     \<and> touches_only_cvar ''r.Photography.Constrain.MaxCameraDistance'' sys
          (SetCameraConstraintDistance MaxCameraDistance sys)
     \<and> touches_only_cvar ''r.Photography.AutoPostprocess'' sys (SetAutoPostprocess bPost sys)
     \<and> touches_only_cvar ''r.Photography.AutoPause'' sys (SetAutoPause bPause sys)
     \<and> AnselCalls (Globals (Library_StartSession W sys))
         = AnselCalls (Globals sys) @ (if GetPhotographyManager sys W then [ansel_startSession] else [])
     \<and> ConsoleManager (Globals (Library_StartSession W sys)) = ConsoleManager (Globals sys)
     \<and> AnselCalls (Globals (Library_StopSession W sys))
         = AnselCalls (Globals sys) @ (if GetPhotographyManager sys W then [ansel_stopSession] else [])
     \<and> ConsoleManager (Globals (Library_StopSession W sys)) = ConsoleManager (Globals sys)
     \<and> Globals (Library_SetUIControlVisibility W UIControlTarget bIsVisible sys) = Globals sys
     \<and> ActiveImpl (Library_SetUIControlVisibility W UIControlTarget bIsVisible sys)
         = (if GetPhotographyManager sys W
            then map_option (SetUIControlVisibility UIControlTarget bIsVisible) (ActiveImpl sys)
            else ActiveImpl sys)
     \<and> ((cvar_key ''r.Photography.Constrain.CameraSize'' \<in> Registered CM
           \<longleftrightarrow> cvar_key ''r.Photography.Constrain.CameraSize'' \<in> Registered CM')
          \<and> Objects CM (cvar_key ''r.Photography.Constrain.CameraSize'')
              = Objects CM' (cvar_key ''r.Photography.Constrain.CameraSize'')
          \<longrightarrow> ConstrainCameraByGeometry CM (Statics sys) World New Prev Orig
              = ConstrainCameraByGeometry CM' (Statics sys) World New Prev Orig)
     \<and> (MaxDistance < 0 \<longrightarrow> ConstrainCameraByDistance New Prev Orig MaxDistance = New)"
proof
  assume a: "statics_cached (Statics sys)"
  then have c: "cache_of ''r.Photography.Constrain.CameraSize'' (CVarConstrainCameraSizeLocal (Statics sys))"
    by (simp add: statics_cached_def)
  have d: "MaxDistance < 0 \<longrightarrow> ConstrainCameraByDistance New Prev Orig MaxDistance = New"
    by (simp add: ConstrainCameraByDistance_def)
  note t = touches_only_cvar_IsPhotographyAvailable [OF a] touches_only_cvar_IsPhotographyAllowed [OF a]
    touches_only_cvar_SetIsPhotographyAllowed [OF a] touches_only_cvar_SetSettleFrames [OF a]
    touches_only_cvar_SetCameraMovementSpeed [OF a] touches_only_cvar_SetCameraConstraintCameraSize [OF a]
    touches_only_cvar_SetCameraConstraintDistance [OF a] touches_only_cvar_SetAutoPostprocess [OF a]
    touches_only_cvar_SetAutoPause [OF a]
  show "touches_only_cvar ''r.Photography.Available'' sys (snd (IsPhotographyAvailable sys))
     \<and> Globals (snd (IsPhotographyAvailable sys)) = Globals sys
     \<and> touches_only_cvar ''r.Photography.Allow'' sys (snd (IsPhotographyAllowed sys))
     \<and> Globals (snd (IsPhotographyAllowed sys)) = Globals sys
     \<and> touches_only_cvar ''r.Photography.Allow'' sys (SetIsPhotographyAllowed bAllowed sys)
     \<and> touches_only_cvar ''r.Photography.SettleFrames'' sys (SetSettleFrames NumSettleFrames sys)
     \<and> touches_only_cvar ''r.Photography.TranslationSpeed'' sys
          (SetCameraMovementSpeed TranslationSpeed sys)
     \<and> touches_only_cvar ''r.Photography.Constrain.CameraSize'' sys
          (SetCameraConstraintCameraSize CameraSize sys)
     \<and> touches_only_cvar ''r.Photography.Constrain.MaxCameraDistance'' sys
          (SetCameraConstraintDistance MaxCameraDistance sys)
     \<and> touches_only_cvar ''r.Photography.AutoPostprocess'' sys (SetAutoPostprocess bPost sys)
     \<and> touches_only_cvar ''r.Photography.AutoPause'' sys (SetAutoPause bPause sys)
     \<and> AnselCalls (Globals (Library_StartSession W sys))
         = AnselCalls (Globals sys) @ (if GetPhotographyManager sys W then [ansel_startSession] else [])
     \<and> ConsoleManager (Globals (Library_StartSession W sys)) = ConsoleManager (Globals sys)
     \<and> AnselCalls (Globals (Library_StopSession W sys))
         = AnselCalls (Globals sys) @ (if GetPhotographyManager sys W then [ansel_stopSession] else [])
     \<and> ConsoleManager (Globals (Library_StopSession W sys)) = ConsoleManager (Globals sys)
     \<and> Globals (Library_SetUIControlVisibility W UIControlTarget bIsVisible sys) = Globals sys
     \<and> ActiveImpl (Library_SetUIControlVisibility W UIControlTarget bIsVisible sys)
         = (if GetPhotographyManager sys W
            then map_option (SetUIControlVisibility UIControlTarget bIsVisible) (ActiveImpl sys)
            else ActiveImpl sys)
     \<and> ((cvar_key ''r.Photography.Constrain.CameraSize'' \<in> Registered CM
           \<longleftrightarrow> cvar_key ''r.Photography.Constrain.CameraSize'' \<in> Registered CM')
          \<and> Objects CM (cvar_key ''r.Photography.Constrain.CameraSize'')
              = Objects CM' (cvar_key ''r.Photography.Constrain.CameraSize'')
          \<longrightarrow> ConstrainCameraByGeometry CM (Statics sys) World New Prev Orig
              = ConstrainCameraByGeometry CM' (Statics sys) World New Prev Orig)
     \<and> (MaxDistance < 0 \<longrightarrow> ConstrainCameraByDistance New Prev Orig MaxDistance = New)"
    using t d ConstrainCameraByGeometry_reads_CameraSize [OF c, of CM CM' World New Prev Orig]
      Library_session_calls [of W sys]
      Library_SetUIControlVisibility_effect [of W UIControlTarget bIsVisible sys]
    by blast
qed

theorem library_functions_effects_witness:
  "statics_cached (Statics example_system)
   \<and> touches_only_cvar ''r.Photography.AutoPause'' example_system (SetAutoPause False example_system)
   \<and> GetInt (ConsoleManager (Globals example_system)) ''r.photography.autopause'' = 1
   \<and> GetInt (ConsoleManager (Globals (SetAutoPause False example_system))) ''r.photography.autopause'' = 0
   \<and> AnselCalls (Globals (Library_StartSession (Some open_world) example_system)) = [ansel_startSession]
   \<and> ConstrainCameraByDistance \<lparr>X = 100, Y = 0, Z = 0\<rparr> ZeroVector ZeroVector (- 1)
       = \<lparr>X = 100, Y = 0, Z = 0\<rparr>
   \<and> ConstrainCameraByGeometry example_console fresh_statics (Some walled_world)
         \<lparr>X = 100, Y = 0, Z = 0\<rparr> ZeroVector ZeroVector
       = ConstrainCameraByGeometry (CVar_Set example_console ''r.photography.autopause'' 0)
           fresh_statics (Some walled_world) \<lparr>X = 100, Y = 0, Z = 0\<rparr> ZeroVector ZeroVector"
proof -
  have h: "statics_cached (Statics example_system)"
    by (simp add: example_system_def fresh_statics_def statics_cached_def cache_of_def)
  have k: "cvar_key ''r.Photography.Constrain.CameraSize'' = ''r.photography.constrain.camerasize''"
    "cvar_key ''r.Photography.AutoPause'' = ''r.photography.autopause''"
    by (simp_all add: cvar_key_def ToLower_def)
  have r: "(cvar_key ''r.Photography.Constrain.CameraSize'' \<in> Registered example_console
        \<longleftrightarrow> cvar_key ''r.Photography.Constrain.CameraSize''
              \<in> Registered (CVar_Set example_console ''r.photography.autopause'' 0))
      \<and> Objects example_console (cvar_key ''r.Photography.Constrain.CameraSize'')
          = Objects (CVar_Set example_console ''r.photography.autopause'' 0)
              (cvar_key ''r.Photography.Constrain.CameraSize'')"
    by (simp add: k CVar_Set_def)
  have s: "Statics example_system = fresh_statics" "AnselCalls (Globals example_system) = []"
    by (simp_all add: example_system_def example_globals_def)
  have v: "GetInt (ConsoleManager (Globals example_system)) ''r.photography.autopause'' = 1"
    "GetInt (ConsoleManager (Globals (SetAutoPause False example_system))) ''r.photography.autopause'' = 0"
    by (simp_all add: example_system_def example_globals_def example_console_def example_cvars_def
        GetInt_def SetAutoPause_def static_cvar_def fresh_statics_def FindConsoleVariable_def k
        with_ConsoleManager_def CVar_Set_def ECVF_SetByCode_def Let_def)
  from library_functions_effects [where sys = example_system and bPause = False
      and W = "Some open_world" and MaxDistance = "- 1" and New = "\<lparr>X = 100, Y = 0, Z = 0\<rparr>"
      and Prev = ZeroVector and Orig = ZeroVector and World = "Some walled_world"
      and CM = example_console and CM' = "CVar_Set example_console ''r.photography.autopause'' 0"]
    h r
  have "touches_only_cvar ''r.Photography.AutoPause'' example_system (SetAutoPause False example_system)
   \<and> AnselCalls (Globals (Library_StartSession (Some open_world) example_system)) = [ansel_startSession]
   \<and> ConstrainCameraByDistance \<lparr>X = 100, Y = 0, Z = 0\<rparr> ZeroVector ZeroVector (- 1)
       = \<lparr>X = 100, Y = 0, Z = 0\<rparr>
   \<and> ConstrainCameraByGeometry example_console fresh_statics (Some walled_world)
         \<lparr>X = 100, Y = 0, Z = 0\<rparr> ZeroVector ZeroVector
       = ConstrainCameraByGeometry (CVar_Set example_console ''r.photography.autopause'' 0)
           fresh_statics (Some walled_world) \<lparr>X = 100, Y = 0, Z = 0\<rparr> ZeroVector ZeroVector"
    by (simp add: s)
  with h v show ?thesis by simp
qed

subsection \<open>Restoring the captured console variables\<close>

lemma tracked_view: "cvar_view a = cvar_view b \<Longrightarrow> tracked CM0 a = tracked CM0 b"
  by (simp add: cvar_view_def tracked_def)

lemma tracksI: "(\<And>CM0 s g. tracked CM0 (s, g) \<Longrightarrow> tracked CM0 (F (s, g))) \<Longrightarrow> tracks F"
  unfolding tracks_def by auto

lemma tracksD: "tracks F \<Longrightarrow> tracked CM0 sg \<Longrightarrow> tracked CM0 (F sg)"
  unfolding tracks_def by blast

lemma tracks_view: "(\<And>sg. cvar_view (F sg) = cvar_view sg) \<Longrightarrow> tracks F"
  unfolding tracks_def using tracked_view by blast

lemma TMap_Add_set: "set (TMap_Add m k v) \<subseteq> insert (k, v) (set m)"
  by (induction m) (auto split: if_splits)

lemma TMap_Add_keys: "fst ` set (TMap_Add m k v) = insert k (fst ` set m)"
  by (induction m) (auto split: if_splits simp add: rev_image_eqI)

lemma tracked_capture:
  assumes t: "tracked CM0 (s, g)" and n: "\<not> TMap_Contains (InitialCVarMap s) N"
  shows "tracked CM0 (snd (CaptureCVar s g N), g)"
proof (cases "cvar_key N \<in> Registered (ConsoleManager g)")
  case False
  then show ?thesis using t by (simp add: CaptureCVar_def FindConsoleVariable_def)
next
  case True
  define info where "info = \<lparr>cvar = Some (cvar_key N),
    fInitialVal = GetFloat (ConsoleManager g) (cvar_key N)\<rparr>"
  have c: "snd (CaptureCVar s g N)
      = s\<lparr>InitialCVarMap := TMap_Add (InitialCVarMap s) (cvar_key N) info\<rparr>"
    using True by (simp add: CaptureCVar_def FindConsoleVariable_def info_def)
  from n have fresh: "cvar_key N \<notin> fst ` set (InitialCVarMap s)"
    by (simp add: TMap_Contains_def map_of_eq_None_iff)
  with t have v: "fInitialVal info = cv_value (Objects CM0 (cvar_key N))"
    by (simp add: tracked_def info_def GetFloat_def)
  have e: "cvar i = Some k \<and> fInitialVal i = cv_value (Objects CM0 k)"
    if "(k, i) \<in> set (TMap_Add (InitialCVarMap s) (cvar_key N) info)" for k i
  proof -
    from that TMap_Add_set have "(k, i) = (cvar_key N, info) \<or> (k, i) \<in> set (InitialCVarMap s)"
      by fastforce
    then show ?thesis
    proof
      assume "(k, i) = (cvar_key N, info)"
      then show ?thesis using v by (simp add: info_def)
    next
      assume "(k, i) \<in> set (InitialCVarMap s)"
      with t show ?thesis by (auto simp add: tracked_def)
    qed
  qed
  show ?thesis
    unfolding c tracked_def using e t
    by (auto simp add: TMap_Add_keys tracked_def)
qed

lemma tracked_write:
  assumes t: "tracked CM0 (s, g)" and k: "k \<in> fst ` set (InitialCVarMap s)"
  shows "tracked CM0 (s, g\<lparr>ConsoleManager := CVar_Set (ConsoleManager g) k v\<rparr>)"
    and "tracked CM0 (s, g\<lparr>ConsoleManager := CVar_SetWithCurrentPriority (ConsoleManager g) k v\<rparr>)"
  using t k by (auto simp add: tracked_def CVar_Set_def CVar_SetWithCurrentPriority_def)

lemma tracked_UE_LOG [simp]: "tracked CM0 (s, UE_LOG m g) = tracked CM0 (s, g)"
  by (simp add: tracked_def UE_LOG_def)

lemma tracks_SetCapturedCVarPredicated [simp]:
  "tracks (SetCapturedCVarPredicated N v c r e)"
proof (rule tracksI)
  fix CM0 s g
  assume t: "tracked CM0 (s, g)"
  define found where "found = fst (if TMap_Contains (InitialCVarMap s) N then (True, s)
                         else CaptureCVar s g N)"
  define s1 where "s1 = snd (if TMap_Contains (InitialCVarMap s) N then (True, s)
                         else CaptureCVar s g N)"
  define info where "info = (if found then map_of (InitialCVarMap s1) (cvar_key N) else None)"
  define g1 where "g1 = (case info of
                  Some i \<Rightarrow>
                    (case cvar i of
                       Some p \<Rightarrow>
                         if c v (fInitialVal i)
                         then let w = (if r then fInitialVal i else v)
                              in if e
                                 then g\<lparr>ConsoleManager := CVar_SetWithCurrentPriority (ConsoleManager g) p w\<rparr>
                                 else g\<lparr>ConsoleManager := CVar_Set (ConsoleManager g) p w\<rparr>
                         else g
                     | None \<Rightarrow> g)
                | None \<Rightarrow> g)"
  have t1: "tracked CM0 (s1, g)"
    unfolding s1_def using t tracked_capture [OF t] by simp
  have t2: "tracked CM0 (s1, g1)"
  proof (cases info)
    case None
    then show ?thesis using t1 by (simp add: g1_def)
  next
    case (Some i)
    then have "map_of (InitialCVarMap s1) (cvar_key N) = Some i"
      by (simp add: info_def split: if_splits)
    then have m: "(cvar_key N, i) \<in> set (InitialCVarMap s1)"
      by (rule map_of_SomeD)
    with t1 have p: "cvar i = Some (cvar_key N)"
      by (auto simp add: tracked_def)
    from m have k: "cvar_key N \<in> fst ` set (InitialCVarMap s1)"
      by force
    show ?thesis
      unfolding g1_def Some using p tracked_write [OF t1 k] t1
      by (simp add: Let_def)
  qed
  have r: "SetCapturedCVarPredicated N v c r e (s, g)
      = (s1, if (case info of Some i \<Rightarrow> cvar i = None | None \<Rightarrow> True)
             then UE_LOG (''CVar used by Ansel not found: '' @ N) g1 else g1)"
    unfolding SetCapturedCVarPredicated_def g1_def info_def s1_def found_def
    by (simp add: Let_def case_prod_beta)
  show "tracked CM0 (SetCapturedCVarPredicated N v c r e (s, g))"
    unfolding r using t2 by simp
qed

lemma tracks_in_order:
  assumes "\<And>F. F \<in> set fs \<Longrightarrow> tracks F"
  shows "tracks (in_order fs)"
  using assms
proof (induction fs)
  case Nil
  show ?case unfolding tracks_def in_order_Nil by blast
next
  case (Cons f fs)
  then have f: "tracks f" and fs: "tracks (in_order fs)" by simp_all
  show ?case
    unfolding tracks_def in_order_Cons using f fs tracksD by blast
qed

lemma tracks_macros [simp]:
  "tracks (SetCapturedCVar N v r e)"
  "tracks (QUALITY_CVAR N v)"
  "tracks (QUALITY_CVAR_AT_LEAST N v)"
  "tracks (QUALITY_CVAR_AT_MOST N v)"
  "tracks (QUALITY_CVAR_LOWPRIORITY_AT_LEAST N v)"
  "tracks (LOD_CVAR N v)"
  "tracks (LUMEN_CVAR N v)"
  "tracks (SKYLIGHT_CVAR N v)"
  "tracks (SQQUALITY_CVAR N v)"
  "tracks (ANTIALIASING_CVAR N v)"
  using tracks_SetCapturedCVarPredicated
  unfolding tracks_def SetCapturedCVar_def QUALITY_CVAR_def QUALITY_CVAR_AT_LEAST_def
    QUALITY_CVAR_AT_MOST_def QUALITY_CVAR_LOWPRIORITY_AT_LEAST_def LOD_CVAR_def LUMEN_CVAR_def
    SKYLIGHT_CVAR_def SQQUALITY_CVAR_def ANTIALIASING_CVAR_def
  by blast+

lemma tracks_lists [simp]:
  "tracks SetUpSessionCVars"
  "tracks (in_order LodSettings)"
  "tracks (in_order LumenSettings)"
  "tracks (in_order SkylightSettings)"
  "tracks (in_order SgQualitySettings)"
  "tracks (in_order AntiAliasingSettings)"
  "tracks (in_order HighQualitySettings)"
  "tracks (in_order HighQualityRayTracingSettings)"
  "tracks (in_order ExtremeSettings)"
  "tracks (in_order ExtremeRayTracingSettings)"
  "tracks (in_order CaptureStreamingSettings)"
  unfolding SetUpSessionCVars_def LodSettings_def LumenSettings_def SkylightSettings_def
    SgQualitySettings_def AntiAliasingSettings_def HighQualitySettings_def
    HighQualityRayTracingSettings_def ExtremeSettings_def ExtremeRayTracingSettings_def
    CaptureStreamingSettings_def
  by (rule tracks_in_order, auto)+

lemma RestoreCVars_value:
  assumes "\<forall>(k, i) \<in> set m. cvar i = Some k \<and> fInitialVal i = V k"
  shows "cv_value (Objects (RestoreCVars m CM) k)
           = (if k \<in> fst ` set m then V k else cv_value (Objects CM k))"
  using assms
proof (induction m arbitrary: CM)
  case Nil
  show ?case by (simp add: RestoreCVars_def)
next
  case (Cons a m)
  obtain k1 i1 where a: "a = (k1, i1)" by (cases a)
  from Cons.prems have h: "cvar i1 = Some k1" "fInitialVal i1 = V k1"
    and rest: "\<forall>(k, i) \<in> set m. cvar i = Some k \<and> fInitialVal i = V k"
    by (simp_all add: a)
  have u: "RestoreCVars (a # m) CM = RestoreCVars m (CVar_SetWithCurrentPriority CM k1 (V k1))"
    by (simp add: RestoreCVars_def a h)
  show ?case
    unfolding u Cons.IH [OF rest]
    by (auto simp add: a CVar_SetWithCurrentPriority_def)
qed

lemma RestoreCVars_tracked:
  assumes "tracked CM0 (s, g)"
  shows "cv_value (Objects (RestoreCVars (InitialCVarMap s) (ConsoleManager g)) k)
           = cv_value (Objects CM0 k)"
proof -
  from assms have "\<forall>(k, i) \<in> set (InitialCVarMap s).
      cvar i = Some k \<and> fInitialVal i = cv_value (Objects CM0 k)"
    by (simp add: tracked_def)
  from RestoreCVars_value [OF this, of "ConsoleManager g" k] assms
  show ?thesis by (auto simp add: tracked_def)
qed

lemma cvar_view_ui [simp]:
  "cvar_view (DeclareSlider c l u v sg) = cvar_view sg"
  "cvar_view (DeclareBool c b sg) = cvar_view sg"
  "cvar_view (ClearUserControl c sg) = cvar_view sg"
  by (cases sg;
      simp add: DeclareSlider_def DeclareBool_def ClearUserControl_def cvar_view_def UE_LOG_def
        ansel_sdk_def Let_def)+

lemma cvar_view_updates [simp]:
  "cvar_view (a\<lparr>UEPostProcessingOriginal := q\<rparr>, c) = cvar_view (a, c)"
  "cvar_view (a\<lparr>bUIControlsNeedRebuild := r\<rparr>, c) = cvar_view (a, c)"
  "cvar_view (a\<lparr>bHighLodIsSetup := r\<rparr>, c) = cvar_view (a, c)"
  "cvar_view (a\<lparr>bHighLumenIsSetup := r\<rparr>, c) = cvar_view (a, c)"
  "cvar_view (a\<lparr>bHighSkyLightIsSetup := r\<rparr>, c) = cvar_view (a, c)"
  "cvar_view (a\<lparr>bHighSgQualityIsSetup := r\<rparr>, c) = cvar_view (a, c)"
  "cvar_view (a\<lparr>bHighAntiAliasingIsSetup := r\<rparr>, c) = cvar_view (a, c)"
  "cvar_view (a\<lparr>bHighQualityModeIsSetup := r\<rparr>, c) = cvar_view (a, c)"
  "cvar_view (a, UE_LOG m c) = cvar_view (a, c)"
  "cvar_view (a\<lparr>bHighLodDesired := r1, bHighLumenDesired := r2, bHighSkyLightDesired := r3,
               bHighAntiAliasingDesired := r4, bHighSgQualityDesired := r5\<rparr>, c) = cvar_view (a, c)"
  by (simp_all add: cvar_view_def UE_LOG_def)

lemma cvar_view_in_order:
  "(\<And>F x. F \<in> set fs \<Longrightarrow> cvar_view (F x) = cvar_view x) \<Longrightarrow> cvar_view (in_order fs x) = cvar_view x"
  by (induction fs arbitrary: x) simp_all

lemma cvar_view_RebuildUIControls [simp]: "cvar_view (RebuildUIControls pp sg) = cvar_view sg"
proof -
  define sg1 where "sg1 = in_order (map ClearUserControl all_controls) sg"
  define sg2 where "sg2 = in_order
                  [DeclareBool control_OLDSettings False,
                   DeclareBool control_LumenSettings False,
                   DeclareBool control_SkylightSettings False,
                   DeclareBool control_AntiAliasing False,
                   DeclareBool control_sgQuality False] sg1"
  define sg3 where "sg3 = (fst sg2\<lparr>UEPostProcessingOriginal := pp\<rparr>, snd sg2)"
  define sg4 where "sg4 = (if bEffectUIAllowed (fst sg3) DepthOfField
                    \<and> Setting pp DepthOfFieldFstop > 0
                    \<and> Setting pp DepthOfFieldFocalDistance > 0
                 then in_order
                   [DeclareSlider control_dofsensorwidth (1 / 10) 1000
                      (Setting pp DepthOfFieldSensorWidth),
                    DeclareSlider control_doffocaldistance 0 1000
                      (Setting pp DepthOfFieldFocalDistance),
                    DeclareSlider control_dofdepthbluramount (1 / 1000000) 1
                      (Setting pp DepthOfFieldDepthBlurAmount),
                    DeclareSlider control_dofdepthblurradius 0 4
                      (Setting pp DepthOfFieldDepthBlurRadius)] sg3
                 else sg3)"
  define sg5 where "sg5 = (if bEffectUIAllowed (fst sg4) Bloom \<and> Setting pp BloomIntensity > 0
                 then in_order
                   [DeclareSlider control_bloomintensity 0 8 (Setting pp BloomIntensity),
                    DeclareSlider control_bloomscale 0 64 (Setting pp BloomSizeScale)] sg4
                 else sg4)"
  define sg6 where "sg6 = (if bEffectUIAllowed (fst sg5) ChromaticAberration
                    \<and> Setting pp SceneFringeIntensity > 0
                 then DeclareSlider control_scenefringeintensity 0 15
                        (Setting pp SceneFringeIntensity) sg5
                 else sg5)"
  have r: "RebuildUIControls pp sg = (fst sg6\<lparr>bUIControlsNeedRebuild := False\<rparr>, snd sg6)"
    unfolding RebuildUIControls_def Let_def sg6_def sg5_def sg4_def sg3_def sg2_def sg1_def ..
  have 1: "cvar_view sg1 = cvar_view sg"
    unfolding sg1_def by (rule cvar_view_in_order) auto
  have 2: "cvar_view sg2 = cvar_view sg1"
    unfolding sg2_def by simp
  have 3: "cvar_view sg3 = cvar_view sg2"
    unfolding sg3_def by (cases sg2) simp
  have 4: "cvar_view sg4 = cvar_view sg3"
    unfolding sg4_def by simp
  have 5: "cvar_view sg5 = cvar_view sg4"
    unfolding sg5_def by simp
  have 6: "cvar_view sg6 = cvar_view sg5"
    unfolding sg6_def by simp
  have "cvar_view (RebuildUIControls pp sg) = cvar_view sg6"
    unfolding r by (cases sg6) simp
  then show ?thesis
    using 1 2 3 4 5 6 by simp
qed

lemma cvar_view_DoCustomUIControls [simp]:
  "cvar_view (snd (DoCustomUIControls pp b sg)) = cvar_view sg"
proof -
  define sg1 where "sg1 = (if b then RebuildUIControls pp sg else sg)"
  have 1: "cvar_view sg1 = cvar_view sg"
    unfolding sg1_def by simp
  have "cvar_view (snd (DoCustomUIControls pp b sg)) = cvar_view sg1"
    unfolding DoCustomUIControls_def Let_def sg1_def [symmetric]
    by (cases sg1) simp
  then show ?thesis
    using 1 by simp
qed

lemma tracked_step:
  assumes "tracks (in_order fs)" and "tracked CM0 x"
    and "\<And>a c. cvar_view (upd a, c) = cvar_view (a, c)"
  shows "tracked CM0 (case in_order fs x of (s, g) \<Rightarrow> (upd s, g))"
proof -
  obtain a c where i: "in_order fs x = (a, c)" by (cases "in_order fs x")
  have "tracked CM0 (a, c)"
    using tracksD [OF assms(1) assms(2)] by (simp add: i)
  then show ?thesis
    using tracked_view [OF assms(3), of CM0 a c] by (simp add: i)
qed

lemma tracks_ConfigureQualityGroups [simp]: "tracks ConfigureQualityGroups"
proof (rule tracksI)
  fix CM0 s g
  assume t: "tracked CM0 (s, g)"
  define sg1 where "sg1 = (if bHighLodIsSetup (fst (s, g)) \<noteq> bHighLodDesired (fst (s, g))
                 then let (s, g) = in_order LodSettings (s, g)
                      in (s\<lparr>bHighLodIsSetup := bHighLodDesired s\<rparr>, g)
                 else (s, g))"
  define sg2 where "sg2 = (if bHighLumenIsSetup (fst sg1) \<noteq> bHighLumenDesired (fst sg1)
                 then let (s, g) = in_order LumenSettings sg1
                      in (s\<lparr>bHighLumenIsSetup := bHighLumenDesired s\<rparr>, g)
                 else sg1)"
  define sg3 where "sg3 = (if bHighSkyLightIsSetup (fst sg2) \<noteq> bHighSkyLightDesired (fst sg2)
                 then let (s, g) = in_order SkylightSettings sg2
                      in (s\<lparr>bHighSkyLightIsSetup := bHighSkyLightDesired s\<rparr>, g)
                 else sg2)"
  define sg4 where "sg4 = (if bHighSgQualityIsSetup (fst sg3) \<noteq> bHighSgQualityDesired (fst sg3)
                 then let (s, g) = in_order SgQualitySettings sg3
                      in (s\<lparr>bHighSgQualityIsSetup := bHighSgQualityDesired s\<rparr>, g)
                 else sg3)"
  define sg5 where "sg5 = (if bHighAntiAliasingIsSetup (fst sg4) \<noteq> bHighAntiAliasingDesired (fst sg4)
          then let (s, g) = in_order AntiAliasingSettings
                              (fst sg4, UE_LOG ''AntiAliasing is high quality:True'' (snd sg4))
               in (s\<lparr>bHighAntiAliasingIsSetup := bHighAntiAliasingDesired s\<rparr>, g)
          else sg4)"
  have r: "ConfigureQualityGroups (s, g) = sg5"
    unfolding ConfigureQualityGroups_def sg5_def sg4_def sg3_def sg2_def sg1_def Let_def ..
  have 1: "tracked CM0 sg1"
    unfolding sg1_def Let_def using t by (simp add: tracked_step)
  have 2: "tracked CM0 sg2"
    unfolding sg2_def Let_def using 1 by (simp add: tracked_step)
  have 3: "tracked CM0 sg3"
    unfolding sg3_def Let_def using 2 by (simp add: tracked_step)
  have 4: "tracked CM0 sg4"
    unfolding sg4_def Let_def using 3 by (simp add: tracked_step)
  have "tracked CM0 (fst sg4, UE_LOG ''AntiAliasing is high quality:True'' (snd sg4))"
    using 4 by simp
  then have 5: "tracked CM0 sg5"
    unfolding sg5_def Let_def using 4 by (simp add: tracked_step)
  show "tracked CM0 (ConfigureQualityGroups (s, g))"
    using r 5 by simp
qed

lemma tracks_ConfigureHighQuality [simp]: "tracks ConfigureHighQuality"
proof (rule tracksI)
  fix CM0 s g
  assume t: "tracked CM0 (s, g)"
  define sg1 where "sg1 = in_order HighQualitySettings
                    (fst (s, g), UE_LOG ''Photography is high quality:True'' (snd (s, g)))"
  define sg2 where "sg2 = (if bRayTracingEnabled (fst sg1)
                   then in_order HighQualityRayTracingSettings sg1 else sg1)"
  define sg3 where "sg3 = (if CVarExtreme (snd sg2) \<noteq> 0
                   then
                     let sga = in_order ExtremeSettings sg2;
                         sgb = (if bRayTracingEnabled (fst sga)
                                then in_order ExtremeRayTracingSettings sga else sga)
                     in QUALITY_CVAR ''r.particlelodbias'' (- 10) sgb
                   else sg2)"
  have 1: "tracked CM0 sg1"
    unfolding sg1_def using t by (simp add: tracksD)
  have 2: "tracked CM0 sg2"
    unfolding sg2_def using 1 by (simp add: tracksD)
  have 3: "tracked CM0 sg3"
    unfolding sg3_def Let_def using 2 by (simp add: tracksD)
  have 4: "tracked CM0 (bump (fst sg3), UE_LOG m (snd sg3))"
    if "\<And>a c. cvar_view (bump a, c) = cvar_view (a, c)" for bump m
    using 3 tracked_view [OF that, of CM0 "fst sg3" "snd sg3"] by simp
  have "ConfigureHighQuality (s, g) = (s, g) \<or>
        ConfigureHighQuality (s, g)
          = ((fst sg3)\<lparr>bHighQualityModeIsSetup := bHighQualityModeDesired (fst sg3)\<rparr>,
             UE_LOG ''Photography HQ mode actualized (enabled=%d)'' (snd sg3))"
    unfolding ConfigureHighQuality_def Let_def sg3_def sg2_def sg1_def
    by (simp add: case_prod_beta del: in_order_Cons in_order_Nil)
  then show "tracked CM0 (ConfigureHighQuality (s, g))"
    using t 4 [of "\<lambda>a. a\<lparr>bHighQualityModeIsSetup := bHighQualityModeDesired (fst sg3)\<rparr>"]
    by auto
qed

lemma tracks_UpdatePostProcessing [simp]: "tracks (\<lambda>sg. snd (UpdatePostProcessing pp sg))"
proof (rule tracksI)
  fix CM0 s g
  assume t: "tracked CM0 (s, g)"
  have c: "tracked CM0 (snd (ConfigureRenderingSettingsForPhotography q x))" if "tracked CM0 x" for q x
    unfolding ConfigureRenderingSettingsForPhotography_def Let_def
    using that by (simp add: tracksD)
  have d: "tracked CM0 (snd (DoCustomUIControls q b x))" if "tracked CM0 x" for q b x
    using that tracked_view [OF cvar_view_DoCustomUIControls, of CM0 q b x] by simp
  show "tracked CM0 (snd (UpdatePostProcessing pp (s, g)))"
    unfolding UpdatePostProcessing_def
    using t by (simp add: case_prod_beta c d)
qed

subsection \<open>A session is a round trip on the saved state\<close>

lemma saved_view_blank_pp: "saved_view (blank_pp x) = saved_view x"
  by (simp add: saved_view_def engine_state_def blank_pp_def)

lemma saved_state_view: "saved_view b = saved_view a \<Longrightarrow> saved_state g0 b = saved_state g0 a"
  by (simp add: saved_view_def engine_state_def saved_state_def)

lemma session_inv_keep:
  assumes "session_inv g0 a" and "session_flags b = session_flags a"
    and "saved_view b = saved_view a" and "tracked (ConsoleManager g0) b"
  shows "session_inv g0 b"
proof -
  have e: "engine_state (snd b) = engine_state (snd a)"
    using assms(3) by (simp add: saved_view_def)
  show ?thesis
    using assms(1,2,4) saved_state_view [OF assms(3), of g0] e
    by (simp add: session_inv_def session_flags_def)
qed

lemma views_callbacks:
  "saved_view (AnselStartCaptureCallback info s g) = saved_view (s, g)"
  "saved_view (AnselStopCaptureCallback s g) = saved_view (s, g)"
  "saved_view (AnselChangeQualityCallback b s g) = saved_view (s, g)"
  "saved_view (AnselStopSessionCallback s g) = saved_view (s, g)"
  "saved_view (SliderCallback c v s, g) = saved_view (s, g)"
  "saved_view (BoolCallback c w s, g) = saved_view (s, g)"
  "cvar_view (AnselStartCaptureCallback info s g) = cvar_view (s, g)"
  "cvar_view (AnselStopCaptureCallback s g) = cvar_view (s, g)"
  "cvar_view (AnselChangeQualityCallback b s g) = cvar_view (s, g)"
  "cvar_view (AnselStopSessionCallback s g) = cvar_view (s, g)"
  "cvar_view (SliderCallback c v s, g) = cvar_view (s, g)"
  "cvar_view (BoolCallback c w s, g) = cvar_view (s, g)"
  by (simp_all add: saved_view_def cvar_view_def engine_state_def AnselStartCaptureCallback_def
      AnselStopCaptureCallback_def AnselChangeQualityCallback_def AnselStopSessionCallback_def
      SliderCallback_def BoolCallback_def UE_LOG_def Let_def)

lemma session_inv_other:
  assumes i: "session_inv g0 sg"
  shows "session_inv g0 (step (PostProcessEvent pp) sg)"
    and "session_inv g0 (step (StartCaptureEvent info) sg)"
    and "session_inv g0 (step StopCaptureEvent sg)"
    and "session_inv g0 (step (ChangeQualityEvent b) sg)"
    and "session_inv g0 (step (SliderEvent c v) sg)"
    and "session_inv g0 (step (BoolEvent c w) sg)"
proof -
  obtain s g where sg: "sg = (s, g)" by (cases sg)
  from i have t: "tracked (ConsoleManager g0) sg" by (simp add: session_inv_def)
  have k: "session_inv g0 x"
    if "session_flags x = session_flags sg" "saved_view x = saved_view sg" "cvar_view x = cvar_view sg"
    for x
    using session_inv_keep [OF i that(1,2)] tracked_view [OF that(3), of "ConsoleManager g0"] t
    by simp
  have "saved_view (snd (UpdatePostProcessing pp sg)) = saved_view sg"
    using pp_only_keeps [OF pp_only_UpdatePostProcessing, of saved_view pp sg]
    by (simp add: saved_view_blank_pp)
  then show "session_inv g0 (step (PostProcessEvent pp) sg)"
    using session_inv_keep [OF i session_flags_other(1) [of pp sg], of ]
      tracksD [OF tracks_UpdatePostProcessing t, of pp]
    by simp
  show "session_inv g0 (step (StartCaptureEvent info) sg)"
    by (rule k [OF session_flags_other(2)]) (simp_all add: sg views_callbacks)
  show "session_inv g0 (step StopCaptureEvent sg)"
    by (rule k [OF session_flags_other(3)]) (simp_all add: sg views_callbacks)
  show "session_inv g0 (step (ChangeQualityEvent b) sg)"
    by (rule k [OF session_flags_other(4)]) (simp_all add: sg views_callbacks)
  show "session_inv g0 (step (SliderEvent c v) sg)"
    by (rule k [OF session_flags_other(5)]) (simp_all add: sg views_callbacks)
  show "session_inv g0 (step (BoolEvent c w) sg)"
    by (rule k [OF session_flags_other(6)]) (simp_all add: sg views_callbacks)
qed

lemma session_inv_stop:
  assumes i: "session_inv g0 sg" and f: "session_flags sg = phase_flags Running"
  shows "session_inv g0 (step StopSessionEvent sg)"
    and "session_flags (step StopSessionEvent sg) = phase_flags Stopping"
proof -
  obtain s g where sg: "sg = (s, g)" by (cases sg)
  show fl: "session_flags (step StopSessionEvent sg) = phase_flags Stopping"
    unfolding session_flags_stop using f by (simp add: session_flags_def)
  from i f have sv: "saved_state g0 sg" and a: "bAnselSessionActive (fst sg)"
    and t: "tracked (ConsoleManager g0) sg"
    by (simp_all add: session_inv_def session_flags_def)
  have "saved_state g0 (step StopSessionEvent sg)"
    using sv saved_state_view [of "step StopSessionEvent sg" sg g0]
    by (simp add: sg views_callbacks)
  moreover have "tracked (ConsoleManager g0) (step StopSessionEvent sg)"
    using t tracked_view [of "step StopSessionEvent sg" sg "ConsoleManager g0"]
    by (simp add: sg views_callbacks)
  ultimately show "session_inv g0 (step StopSessionEvent sg)"
    using fl by (simp add: session_inv_def session_flags_def)
qed

lemma views_SessionFramePrelude [simp]:
  "saved_view (SessionFramePrelude sg) = saved_view sg"
  "cvar_view (SessionFramePrelude sg) = cvar_view sg"
  by (simp_all add: SessionFramePrelude_def saved_view_def cvar_view_def engine_state_def)

lemma UpdateCamera_PauseCheck_id:
  "NumFramesSinceSessionStart (fst x) \<noteq> 2 \<Longrightarrow> UpdateCamera_PauseCheck x = x"
  by (simp add: UpdateCamera_PauseCheck_def case_prod_beta)

lemma UpdateCamera_PauseCheck_saved:
  "saved_state g0 x \<Longrightarrow> saved_state g0 (UpdateCamera_PauseCheck x)"
  "cvar_view (UpdateCamera_PauseCheck x) = cvar_view x"
  by (simp_all add: UpdateCamera_PauseCheck_def case_prod_beta saved_state_def cvar_view_def)

lemma UpdateCamera_SessionStart_saves:
  "bAutoPostprocess (fst (UpdateCamera_SessionStart sg)) = (CVarPhotographyAutoPostprocess (snd sg) \<noteq> 0)"
  "bWasMovableCameraBeforeSession (fst (UpdateCamera_SessionStart sg)) = bIsCameraMoveableWhenPaused (snd sg)"
  "bWasScreenMessagesEnabledBeforeSession (fst (UpdateCamera_SessionStart sg))
     = GAreScreenMessagesEnabled (snd sg)"
  "bWasShowingHUDBeforeSession (fst (UpdateCamera_SessionStart sg)) = (MyHUD (snd sg) = Some True)"
  "bWereSubtitlesEnabledBeforeSession (fst (UpdateCamera_SessionStart sg)) = bSubtitlesEnabled (snd sg)"
  "bWasFadingEnabledBeforeSession (fst (UpdateCamera_SessionStart sg)) = bEnableFading (snd sg)"
  "MyHUD (snd (UpdateCamera_SessionStart sg))
     = (if CVarPhotographyAutoPostprocess (snd sg) \<noteq> 0 \<and> MyHUD (snd sg) = Some True
        then Some False else MyHUD (snd sg))"
  "bSubtitlesEnabled (snd (UpdateCamera_SessionStart sg))
     = (CVarPhotographyAutoPostprocess (snd sg) = 0 \<and> bSubtitlesEnabled (snd sg))"
  "bEnableFading (snd (UpdateCamera_SessionStart sg))
     = (CVarPhotographyAutoPostprocess (snd sg) = 0 \<and> bEnableFading (snd sg))"
  by (auto simp add: UpdateCamera_SessionStart_def Let_def case_prod_beta SetUpSessionCVars_shape
      notify_def ansel_sdk_def ShowHUD_def CVarPhotographyAutoPause_def
      CVarPhotographyAutoPostprocess_def)

lemma UpdateCamera_SessionStart_saved:
  assumes "engine_state (snd sg) = engine_state g0"
  shows "saved_state g0 (UpdateCamera_SessionStart sg)"
proof -
  from assms have e: "bPaused (snd sg) = bPaused g0" "TimeDilation (snd sg) = TimeDilation g0"
    "bIsCameraMoveableWhenPaused (snd sg) = bIsCameraMoveableWhenPaused g0"
    "GAreScreenMessagesEnabled (snd sg) = GAreScreenMessagesEnabled g0"
    "MyHUD (snd sg) = MyHUD g0" "bSubtitlesEnabled (snd sg) = bSubtitlesEnabled g0"
    "bEnableFading (snd sg) = bEnableFading g0"
    by (simp_all add: engine_state_def)
  show ?thesis
    unfolding saved_state_def UpdateCamera_SessionStart_saves UpdateCamera_SessionStart_pause e
    by simp
qed

lemma UpdateCamera_SessionStart_tracked:
  assumes "tracked CM0 sg"
  shows "tracked CM0 (UpdateCamera_SessionStart sg)"
proof -
  define X where "X =
     (let (s, g) = sg;
          s1 = s\<lparr>NumFramesSinceSessionStart := 0\<rparr>;
          g1 = notify OnPhotographySessionStart g;
          s2 = s1\<lparr>bAutoPause := (CVarPhotographyAutoPause g1 \<noteq> 0),
                  bAutoPostprocess := (CVarPhotographyAutoPostprocess g1 \<noteq> 0),
                  bRayTracingEnabled := bIsRayTracingEnabled g1\<rparr>;
          s3 = s2\<lparr>bWasPausedBeforeSession := bPaused g1,
                  bWasMovableCameraBeforeSession := bIsCameraMoveableWhenPaused g1\<rparr>;
          g2 = g1\<lparr>bIsCameraMoveableWhenPaused := True\<rparr>
      in (if bAutoPause s3 \<and> \<not> bWasPausedBeforeSession s3
          then (s3\<lparr>fTimeDilationBeforeSession := TimeDilation g2\<rparr>, g2\<lparr>TimeDilation := 0\<rparr>)
          else (s3, g2)))"
  have v: "cvar_view X = cvar_view sg"
    by (simp add: X_def Let_def case_prod_beta cvar_view_def notify_def)
  have r: "cvar_view (UpdateCamera_SessionStart sg) = cvar_view (SetUpSessionCVars X)"
    by (simp add: UpdateCamera_SessionStart_def X_def Let_def case_prod_beta cvar_view_def
        ansel_sdk_def ShowHUD_def)
  have "tracked CM0 X"
    using assms tracked_view [OF v] by simp
  then have "tracked CM0 (SetUpSessionCVars X)"
    by (simp add: tracksD)
  then show ?thesis
    using tracked_view [OF r] by simp
qed

lemma session_inv_start_frame:
  assumes i: "session_inv g0 sg" and f: "session_flags sg = phase_flags Starting"
  shows "session_inv g0 (step (FrameEvent pov) sg)"
    and "session_flags (step (FrameEvent pov) sg) = phase_flags Running"
proof -
  obtain s g where sg: "sg = (s, g)" by (cases sg)
  from f have fl: "bAnselSessionActive s" "bAnselSessionNewlyActive s" "\<not> bAnselSessionWantDeactivate s"
    by (simp_all add: session_flags_def sg)
  from i fl have e: "engine_state g = engine_state g0" and t: "tracked (ConsoleManager g0) (s, g)"
    by (simp_all add: session_inv_def sg)
  define P where "P = SessionFramePrelude (s, g)"
  have pe: "engine_state (snd P) = engine_state g0"
    using e views_SessionFramePrelude(1) [of "(s, g)"] by (simp add: P_def saved_view_def)
  have pt: "tracked (ConsoleManager g0) P"
    using t tracked_view [OF views_SessionFramePrelude(2), of "ConsoleManager g0" "(s, g)"]
    by (simp add: P_def)
  have u: "step (FrameEvent pov) sg = UpdateCamera_SessionStart P"
    using fl
    by (simp add: sg UpdateCamera_state_in_session P_def UpdateCamera_PauseCheck_id
        UpdateCamera_SessionStart_pause)
  show fr: "session_flags (step (FrameEvent pov) sg) = phase_flags Running"
    unfolding u using fl
    by (simp add: session_flags_def UpdateCamera_SessionStart_pause P_def)
  show "session_inv g0 (step (FrameEvent pov) sg)"
    using fr UpdateCamera_SessionStart_saved [OF pe] UpdateCamera_SessionStart_tracked [OF pt]
    unfolding u by (simp add: session_inv_def session_flags_def)
qed

lemma session_inv_frame:
  assumes i: "session_inv g0 sg" and f: "session_flags sg = phase_flags Running"
  shows "session_inv g0 (step (FrameEvent pov) sg)"
    and "session_flags (step (FrameEvent pov) sg) = phase_flags Running"
proof -
  obtain s g where sg: "sg = (s, g)" by (cases sg)
  from f have fl: "bAnselSessionActive s" "\<not> bAnselSessionNewlyActive s" "\<not> bAnselSessionWantDeactivate s"
    by (simp_all add: session_flags_def sg)
  from i fl have sv: "saved_state g0 (s, g)" and t: "tracked (ConsoleManager g0) (s, g)"
    by (simp_all add: session_inv_def sg)
  define P where "P = SessionFramePrelude (s, g)"
  define Q where "Q = (fst P, ansel_sdk ansel_updateCamera (snd P))"
  have qv: "saved_view Q = saved_view (s, g)" "cvar_view Q = cvar_view (s, g)"
    using views_SessionFramePrelude [of "(s, g)"]
    by (simp_all add: Q_def P_def saved_view_def cvar_view_def engine_state_def ansel_sdk_def)
  have u: "step (FrameEvent pov) sg = UpdateCamera_PauseCheck Q"
    using fl by (simp add: sg UpdateCamera_state_in_session P_def Q_def)
  show fr: "session_flags (step (FrameEvent pov) sg) = phase_flags Running"
    unfolding session_flags_frame using fl by (simp add: frame_path_def sg session_flags_def)
  have "saved_state g0 Q"
    using sv saved_state_view [OF qv(1), of g0] by simp
  then have 1: "saved_state g0 (UpdateCamera_PauseCheck Q)"
    by (rule UpdateCamera_PauseCheck_saved)
  have "tracked (ConsoleManager g0) Q"
    using t tracked_view [OF qv(2), of "ConsoleManager g0"] by simp
  then have 2: "tracked (ConsoleManager g0) (UpdateCamera_PauseCheck Q)"
    using tracked_view [OF UpdateCamera_PauseCheck_saved(2), of "ConsoleManager g0" Q] by simp
  show "session_inv g0 (step (FrameEvent pov) sg)"
    using fr 1 2 unfolding u by (simp add: session_inv_def session_flags_def)
qed

lemma UpdateCamera_Deactivate_fields:
  "ConsoleManager (snd (UpdateCamera_Deactivate sg))
     = RestoreCVars (InitialCVarMap (fst sg)) (ConsoleManager (snd sg))"
  "InitialCVarMap (fst (UpdateCamera_Deactivate sg)) = []"
  "bIsCameraMoveableWhenPaused (snd (UpdateCamera_Deactivate sg)) = bWasMovableCameraBeforeSession (fst sg)"
  "GAreScreenMessagesEnabled (snd (UpdateCamera_Deactivate sg))
     = bWasScreenMessagesEnabledBeforeSession (fst sg)"
  "MyHUD (snd (UpdateCamera_Deactivate sg))
     = (if bAutoPostprocess (fst sg) \<and> bWasShowingHUDBeforeSession (fst sg)
        then map_option Not (MyHUD (snd sg)) else MyHUD (snd sg))"
  "bSubtitlesEnabled (snd (UpdateCamera_Deactivate sg))
     = (bAutoPostprocess (fst sg) \<and> bWereSubtitlesEnabledBeforeSession (fst sg)
        \<or> bSubtitlesEnabled (snd sg))"
  "bEnableFading (snd (UpdateCamera_Deactivate sg))
     = (bAutoPostprocess (fst sg) \<and> bWasFadingEnabledBeforeSession (fst sg) \<or> bEnableFading (snd sg))"
  by (simp_all add: UpdateCamera_Deactivate_def Let_def case_prod_beta notify_def ShowHUD_def)

lemma UpdateCamera_Deactivate_restores:
  assumes sv: "saved_state g0 sg" and t: "tracked (ConsoleManager g0) sg"
  shows "restored g0 (UpdateCamera_Deactivate sg)"
proof -
  have c: "cvar_values (snd (UpdateCamera_Deactivate sg)) k = cvar_values g0 k" for k
    using RestoreCVars_tracked [of "ConsoleManager g0" "fst sg" "snd sg" k] t
    by (simp add: cvar_values_def UpdateCamera_Deactivate_fields)
  have e: "engine_state (snd (UpdateCamera_Deactivate sg)) = engine_state g0"
    using sv
    by (auto simp add: engine_state_def UpdateCamera_Deactivate_fields UpdateCamera_Deactivate_pause
        saved_state_def split: if_splits)
  show ?thesis
    using c e by (simp add: restored_def UpdateCamera_Deactivate_fields UpdateCamera_Deactivate_pause)
qed

lemma session_restore_frame:
  assumes i: "session_inv g0 sg" and f: "session_flags sg = phase_flags Stopping"
  shows "restored g0 (step (FrameEvent pov) sg)"
proof -
  obtain s g where sg: "sg = (s, g)" by (cases sg)
  from f have fl: "bAnselSessionActive s" "\<not> bAnselSessionNewlyActive s" "bAnselSessionWantDeactivate s"
    by (simp_all add: session_flags_def sg)
  from i fl have sv: "saved_state g0 (s, g)" and t: "tracked (ConsoleManager g0) (s, g)"
    by (simp_all add: session_inv_def sg)
  define P where "P = SessionFramePrelude (s, g)"
  have 1: "saved_state g0 P"
    using sv saved_state_view [OF views_SessionFramePrelude(1), of g0 "(s, g)"] by (simp add: P_def)
  have 2: "tracked (ConsoleManager g0) P"
    using t tracked_view [OF views_SessionFramePrelude(2), of "ConsoleManager g0" "(s, g)"]
    by (simp add: P_def)
  have u: "step (FrameEvent pov) sg = UpdateCamera_Deactivate P"
    using fl by (simp add: sg UpdateCamera_state_in_session P_def)
  show ?thesis
    unfolding u using 1 2 by (rule UpdateCamera_Deactivate_restores)
qed

lemma run_Cons: "run (e # es) sg = run es (step e sg)"
  by (simp add: run_def)

lemma session_events_restore:
  "session_events ph es \<Longrightarrow> session_inv g0 sg \<Longrightarrow> session_flags sg = phase_flags ph
     \<Longrightarrow> restored g0 (run es sg)"
proof (induction es arbitrary: ph sg)
  case Nil
  then show ?case by simp
next
  case (Cons e es)
  note i = Cons.prems(2) and f = Cons.prems(3)
  show ?case
  proof (cases e)
    case (StartSessionEvent settings)
    with Cons.prems(1) show ?thesis by simp
  next
    case StopSessionEvent
    with Cons.prems(1) have p: "ph = Running" and r: "session_events Stopping es" by simp_all
    from f p have f': "session_flags sg = phase_flags Running" by simp
    show ?thesis
      unfolding run_Cons StopSessionEvent
      by (rule Cons.IH [OF r session_inv_stop [OF i f']])
  next
    case (FrameEvent pov)
    show ?thesis
    proof (cases ph)
      case Starting
      with Cons.prems(1) FrameEvent have r: "session_events Running es" by simp
      from f Starting have f': "session_flags sg = phase_flags Starting" by simp
      show ?thesis
        unfolding run_Cons FrameEvent
        by (rule Cons.IH [OF r session_inv_start_frame [OF i f']])
    next
      case Running
      with Cons.prems(1) FrameEvent have r: "session_events Running es" by simp
      from f Running have f': "session_flags sg = phase_flags Running" by simp
      show ?thesis
        unfolding run_Cons FrameEvent
        by (rule Cons.IH [OF r session_inv_frame [OF i f']])
    next
      case Stopping
      with Cons.prems(1) FrameEvent have r: "es = []" by simp
      from f Stopping have f': "session_flags sg = phase_flags Stopping" by simp
      show ?thesis
        unfolding run_Cons FrameEvent r
        using session_restore_frame [OF i f'] by (simp add: run_def)
    qed
  next
    case (PostProcessEvent pp)
    with Cons.prems(1) have r: "session_events ph es" by simp
    show ?thesis
      unfolding run_Cons PostProcessEvent
      by (rule Cons.IH [OF r session_inv_other(1) [OF i]]) (simp only: session_flags_other f)
  next
    case (StartCaptureEvent info)
    with Cons.prems(1) have r: "session_events ph es" by simp
    show ?thesis
      unfolding run_Cons StartCaptureEvent
      by (rule Cons.IH [OF r session_inv_other(2) [OF i]]) (simp only: session_flags_other f)
  next
    case StopCaptureEvent
    with Cons.prems(1) have r: "session_events ph es" by simp
    show ?thesis
      unfolding run_Cons StopCaptureEvent
      by (rule Cons.IH [OF r session_inv_other(3) [OF i]]) (simp only: session_flags_other f)
  next
    case (ChangeQualityEvent b)
    with Cons.prems(1) have r: "session_events ph es" by simp
    show ?thesis
      unfolding run_Cons ChangeQualityEvent
      by (rule Cons.IH [OF r session_inv_other(4) [OF i]]) (simp only: session_flags_other f)
  next
    case (SliderEvent c v)
    with Cons.prems(1) have r: "session_events ph es" by simp
    show ?thesis
      unfolding run_Cons SliderEvent
      by (rule Cons.IH [OF r session_inv_other(5) [OF i]]) (simp only: session_flags_other f)
  next
    case (BoolEvent c w)
    with Cons.prems(1) have r: "session_events ph es" by simp
    show ?thesis
      unfolding run_Cons BoolEvent
      by (rule Cons.IH [OF r session_inv_other(6) [OF i]]) (simp only: session_flags_other f)
  qed
qed

lemma session_start_establishes:
  assumes "\<not> bAnselSessionActive s" and "\<not> bAnselSessionWantDeactivate s"
    and "InitialCVarMap s = []"
    and "fst (AnselStartSessionCallback settings s g) = kAllowed"
  shows "session_inv g (step (StartSessionEvent settings) (s, g))"
    and "session_flags (step (StartSessionEvent settings) (s, g)) = phase_flags Starting"
  using assms
  by (simp_all add: AnselStartSessionCallback_def Let_def session_inv_def session_flags_def
      tracked_def engine_state_def UE_LOG_def split: if_splits)

text \<open>
  A complete session on the example state leaves the mouse cursor shown although it was
  hidden before, and leaves \<open>r.motionblurquality\<close> with the priority of the write made at
  the session start although its value is back.
\<close>

theorem session_leaves_cursor_and_priority:
  "one_session session_trace (zero_memory, example_globals)
   \<and> Cursor example_globals = Some False
   \<and> Cursor (snd (run session_trace (zero_memory, example_globals))) = Some True
   \<and> Objects (ConsoleManager example_globals) ''r.motionblurquality''
       = \<lparr>cv_value = 4, cv_setby = 0\<rparr>
   \<and> Objects (ConsoleManager (snd (run session_trace (zero_memory, example_globals))))
         ''r.motionblurquality''
       = \<lparr>cv_value = 4, cv_setby = ECVF_SetByCode\<rparr>"
  unfolding session_trace_def
  by (simp add: evaluation_simps run_def one_session_def)

text \<open>
  Claim C1, as amended.  Take a state with no session active, no deactivation pending
  and an empty \<open>InitialCVarMap\<close>, and a session from it: a start callback that allows the
  session, the start frame, the stop callback after it and the frame that deactivates,
  with any post-processing updates, capture, quality and control callbacks and frames in
  between.  After the deactivating frame the session is inactive, \<open>InitialCVarMap\<close> is
  empty, every console variable has the value it had before the session, and the pause
  state, the time dilation, the camera-movable-when-paused flag, the screen-messages
  flag, the HUD visibility, the subtitles and the fading are those from before the
  session.  The deactivating frame writes the console manager by \<open>RestoreCVars\<close>, which
  sets every captured variable with its current priority.
\<close>

theorem session_round_trip:
  "(\<not> bAnselSessionActive s \<and> \<not> bAnselSessionWantDeactivate s \<and> InitialCVarMap s = []
    \<and> one_session es (s, g)
    \<longrightarrow> \<not> bAnselSessionActive (fst (run es (s, g)))
        \<and> InitialCVarMap (fst (run es (s, g))) = []
        \<and> (\<forall>k. cvar_values (snd (run es (s, g))) k = cvar_values g k)
        \<and> bPaused (snd (run es (s, g))) = bPaused g
        \<and> TimeDilation (snd (run es (s, g))) = TimeDilation g
        \<and> bIsCameraMoveableWhenPaused (snd (run es (s, g))) = bIsCameraMoveableWhenPaused g
        \<and> GAreScreenMessagesEnabled (snd (run es (s, g))) = GAreScreenMessagesEnabled g
        \<and> MyHUD (snd (run es (s, g))) = MyHUD g
        \<and> bSubtitlesEnabled (snd (run es (s, g))) = bSubtitlesEnabled g
        \<and> bEnableFading (snd (run es (s, g))) = bEnableFading g)
   \<and> ConsoleManager (snd (UpdateCamera_Deactivate (s, g)))
       = RestoreCVars (InitialCVarMap s) (ConsoleManager g)"
proof
  show "\<not> bAnselSessionActive s \<and> \<not> bAnselSessionWantDeactivate s \<and> InitialCVarMap s = []
    \<and> one_session es (s, g)
    \<longrightarrow> \<not> bAnselSessionActive (fst (run es (s, g)))
        \<and> InitialCVarMap (fst (run es (s, g))) = []
        \<and> (\<forall>k. cvar_values (snd (run es (s, g))) k = cvar_values g k)
        \<and> bPaused (snd (run es (s, g))) = bPaused g
        \<and> TimeDilation (snd (run es (s, g))) = TimeDilation g
        \<and> bIsCameraMoveableWhenPaused (snd (run es (s, g))) = bIsCameraMoveableWhenPaused g
        \<and> GAreScreenMessagesEnabled (snd (run es (s, g))) = GAreScreenMessagesEnabled g
        \<and> MyHUD (snd (run es (s, g))) = MyHUD g
        \<and> bSubtitlesEnabled (snd (run es (s, g))) = bSubtitlesEnabled g
        \<and> bEnableFading (snd (run es (s, g))) = bEnableFading g"
  proof
    assume a: "\<not> bAnselSessionActive s \<and> \<not> bAnselSessionWantDeactivate s \<and> InitialCVarMap s = []
      \<and> one_session es (s, g)"
    then obtain settings es' where es: "es = StartSessionEvent settings # es'"
      and ok: "fst (AnselStartSessionCallback settings s g) = kAllowed"
      and ev: "session_events Starting es'"
      by (auto simp add: one_session_def split: list.splits event.splits)
    from a have i: "\<not> bAnselSessionActive s" "\<not> bAnselSessionWantDeactivate s" "InitialCVarMap s = []"
      by simp_all
    have "restored g (run es' (step (StartSessionEvent settings) (s, g)))"
      by (rule session_events_restore [OF ev session_start_establishes [OF i ok]])
    then have "restored g (run es (s, g))"
      by (simp only: es run_Cons)
    then show "\<not> bAnselSessionActive (fst (run es (s, g)))
        \<and> InitialCVarMap (fst (run es (s, g))) = []
        \<and> (\<forall>k. cvar_values (snd (run es (s, g))) k = cvar_values g k)
        \<and> bPaused (snd (run es (s, g))) = bPaused g
        \<and> TimeDilation (snd (run es (s, g))) = TimeDilation g
        \<and> bIsCameraMoveableWhenPaused (snd (run es (s, g))) = bIsCameraMoveableWhenPaused g
        \<and> GAreScreenMessagesEnabled (snd (run es (s, g))) = GAreScreenMessagesEnabled g
        \<and> MyHUD (snd (run es (s, g))) = MyHUD g
        \<and> bSubtitlesEnabled (snd (run es (s, g))) = bSubtitlesEnabled g
        \<and> bEnableFading (snd (run es (s, g))) = bEnableFading g"
      by (simp add: restored_def engine_state_def)
  qed
  show "ConsoleManager (snd (UpdateCamera_Deactivate (s, g)))
       = RestoreCVars (InitialCVarMap s) (ConsoleManager g)"
    by (simp add: UpdateCamera_Deactivate_fields)
qed

theorem session_round_trip_witness:
  "one_session photo_session_trace (zero_memory, example_globals)
   \<and> cvar_values (snd (run [StartSessionEvent example_settings, FrameEvent example_pov]
                          (zero_memory, example_globals))) ''r.motionblurquality'' = 0
   \<and> TimeDilation (snd (run [StartSessionEvent example_settings, FrameEvent example_pov]
                           (zero_memory, example_globals))) = 0
   \<and> MyHUD (snd (run [StartSessionEvent example_settings, FrameEvent example_pov]
                    (zero_memory, example_globals))) = Some False
   \<and> \<not> bAnselSessionActive (fst (run photo_session_trace (zero_memory, example_globals)))
   \<and> InitialCVarMap (fst (run photo_session_trace (zero_memory, example_globals))) = []
   \<and> cvar_values (snd (run photo_session_trace (zero_memory, example_globals)))
        ''r.motionblurquality'' = 4
   \<and> cvar_values (snd (run photo_session_trace (zero_memory, example_globals)))
        ''r.oneframethreadlag'' = 0
   \<and> \<not> bPaused (snd (run photo_session_trace (zero_memory, example_globals)))
   \<and> TimeDilation (snd (run photo_session_trace (zero_memory, example_globals))) = 1
   \<and> \<not> bIsCameraMoveableWhenPaused (snd (run photo_session_trace (zero_memory, example_globals)))
   \<and> GAreScreenMessagesEnabled (snd (run photo_session_trace (zero_memory, example_globals)))
   \<and> MyHUD (snd (run photo_session_trace (zero_memory, example_globals))) = Some True
   \<and> bSubtitlesEnabled (snd (run photo_session_trace (zero_memory, example_globals)))
   \<and> bEnableFading (snd (run photo_session_trace (zero_memory, example_globals)))"
proof -
  have h: "\<not> bAnselSessionActive zero_memory \<and> \<not> bAnselSessionWantDeactivate zero_memory
      \<and> InitialCVarMap zero_memory = []
      \<and> one_session photo_session_trace (zero_memory, example_globals)"
    unfolding photo_session_trace_def
    by (simp add: one_session_def evaluation_simps)
  have v: "cvar_values example_globals ''r.motionblurquality'' = 4"
    "cvar_values example_globals ''r.oneframethreadlag'' = 0"
    "\<not> bPaused example_globals" "TimeDilation example_globals = 1"
    "\<not> bIsCameraMoveableWhenPaused example_globals" "GAreScreenMessagesEnabled example_globals"
    "MyHUD example_globals = Some True" "bSubtitlesEnabled example_globals"
    "bEnableFading example_globals"
    by (simp_all add: cvar_values_def example_globals_def example_console_def example_cvars_def)
  have m: "cvar_values (snd (run [StartSessionEvent example_settings, FrameEvent example_pov]
                          (zero_memory, example_globals))) ''r.motionblurquality'' = 0
   \<and> TimeDilation (snd (run [StartSessionEvent example_settings, FrameEvent example_pov]
                           (zero_memory, example_globals))) = 0
   \<and> MyHUD (snd (run [StartSessionEvent example_settings, FrameEvent example_pov]
                    (zero_memory, example_globals))) = Some False"
    by (simp add: evaluation_simps run_def cvar_values_def)
  from session_round_trip [of zero_memory photo_session_trace example_globals] h
  have "\<not> bAnselSessionActive (fst (run photo_session_trace (zero_memory, example_globals)))
   \<and> InitialCVarMap (fst (run photo_session_trace (zero_memory, example_globals))) = []
   \<and> cvar_values (snd (run photo_session_trace (zero_memory, example_globals)))
        ''r.motionblurquality'' = 4
   \<and> cvar_values (snd (run photo_session_trace (zero_memory, example_globals)))
        ''r.oneframethreadlag'' = 0
   \<and> \<not> bPaused (snd (run photo_session_trace (zero_memory, example_globals)))
   \<and> TimeDilation (snd (run photo_session_trace (zero_memory, example_globals))) = 1
   \<and> \<not> bIsCameraMoveableWhenPaused (snd (run photo_session_trace (zero_memory, example_globals)))
   \<and> GAreScreenMessagesEnabled (snd (run photo_session_trace (zero_memory, example_globals)))
   \<and> MyHUD (snd (run photo_session_trace (zero_memory, example_globals))) = Some True
   \<and> bSubtitlesEnabled (snd (run photo_session_trace (zero_memory, example_globals)))
   \<and> bEnableFading (snd (run photo_session_trace (zero_memory, example_globals)))"
    by (simp add: v)
  with h m show ?thesis by blast
qed

end
